theory Spec2Isabelle
  imports Complex_Main "HOL-Library.Char_ord" "HOL-Library.List_Lexorder"
    "HOL-Library.Product_Lexorder"
begin

section \<open>The hospital patient-flow simulator (zbrain\_simulator.py)\<close>

text \<open>
  A shallow embedding of \<^verbatim>\<open>src/zbrain_simulator.py\<close>. Conventions:
  \<^item> Python numbers (ints and floats alike) that carry times, durations, costs and scores
    are exact reals; counts and capacities are integers.
  \<^item> The string constants the program uses as enumerations (acuity, staff type, unit
    name, patient status, event type, transport type) are datatypes whose constructors
    carry the string's text; where the program compares the strings themselves (the
    tuples on the event heap) the text is given by \<open>kind_name\<close>.
  \<^item> A field that can hold \<^verbatim>\<open>None\<close> is an \<open>option\<close>.
  \<^item> Mutation is explicit state passing; an exception of the Python is a value \<open>Inl e\<close>.
  \<^item> Each random draw is a field of an oracle record \<open>draws\<close> handed to the event
    handler; a theorem holds for every value of the oracle.
  \<^item> The per-patient debug trace (\<^verbatim>\<open>patient_to_trace\<close>) and all printing are left out.
\<close>

subsection \<open>Enumerations\<close>

datatype acuity = CRITICAL | URGENT_ADMIT | URGENT_OBS | NON_URGENT

datatype staff_type = PHYSICIAN | NURSE | TECH | RADIOLOGIST | TRANSPORT | VOLUNTEER_TRANSPORT

datatype unit_name = ED | INPATIENT | CDU | IMAGING_CT | IMAGING_MRI | LAB | RADIOLOGY

datatype modality = CT | MRI

datatype transport_type = PULLEY | PAID_STAFF | VOLUNTEER

datatype status =
    ARRIVED | TRIAGING | ED_TRIAGE_COMPLETE_STATUS | ED_IN_BED | PHYSICIAN_ASSESSMENT
  | ED_WAIT_FOR_PHYSICIAN | ED_WAIT_FOR_BED | IMAGING_PENDING | LAB_PENDING
  | TRANSFER_TO_IMAGING_PENDING | ED_WAIT_FOR_IMAGING_MACHINE | IN_TRANSIT_TO_IMAGING
  | ED_WAIT_FOR_TRANSPORT_TO_IMAGING | IN_TRANSIT_TO_LAB | INPATIENT_STAY | CDU_OBSERVATION
  | IMAGING_PROCESSING | IMAGING_WAIT_FOR_TECH | IMAGING_REPORT_PENDING | IMAGING_REPORTING
  | IMAGING_REPORT_WAIT_FOR_RADIOLOGIST | DIAGNOSTICS_COMPLETE | TRANSFER_TO_LAB_PENDING
  | ED_WAIT_FOR_LAB_CAPACITY | ED_WAIT_FOR_TRANSPORT_TO_LAB | LAB_PROCESSING | LAB_WAIT_FOR_TECH
  | ADMIT_INPATIENT_PENDING | ADMIT_CDU_PENDING | DISCHARGE_PENDING_ORDER | ED_BOARDING
  | IN_TRANSIT_TO_INPATIENT | IN_TRANSIT_TO_CDU | ED_WAIT_FOR_TRANSPORT | CDU_DISCHARGE_PENDING
  | CDU_TO_INPATIENT | DISCHARGE_PROCESS | DISCHARGE_PROCESSING | DISCHARGE_WAIT_FOR_NURSE
  | DISCHARGED

datatype event_kind =
    SCHEDULE_PATIENT_ARRIVAL | PATIENT_ARRIVAL | ED_TRIAGE_COMPLETE | ASSIGN_ED_BED
  | ED_PHYSICIAN_RETRY | ED_PHYSICIAN_ASSESSMENT_COMPLETE | IMAGING_ORDERED | TRANSFER_TO_IMAGING
  | PULLEY_TRANSPORT_COMPLETE | STAFF_TRANSPORT_COMPLETE | IMAGING_STARTED | IMAGING_COMPLETE
  | IMAGING_REPORT_RETRY | IMAGING_REPORT_COMPLETE | LAB_ORDERED | TRANSFER_TO_LAB | LAB_STARTED
  | LAB_COMPLETE | RE_EVALUATE_AFTER_DIAGNOSTICS | ADMIT_TO_INPATIENT | ADMIT_TO_CDU
  | CDU_OBSERVATION_COMPLETE | INPATIENT_PATIENT_CHECK | DISCHARGE_ORDERED
  | DISCHARGE_PROCESS_RETRY | DISCHARGE_PROCESS_COMPLETE | AI_STAFFING_ADJUSTMENT
  | CDU_OCCUPANCY_METRIC_CHECK | INPATIENT_OCCUPANCY_METRIC_CHECK
  | PULLEY_UTILIZATION_METRIC_CHECK

datatype error = AttributeError | KeyError | TypeError | IndexError

text \<open>The text of a unit name, as the f-strings of the log labels print it.\<close>

fun name_of :: "unit_name \<Rightarrow> string" where
  "name_of ED = ''ED''"
| "name_of INPATIENT = ''INPATIENT''"
| "name_of CDU = ''CDU''"
| "name_of IMAGING_CT = ''IMAGING_CT''"
| "name_of IMAGING_MRI = ''IMAGING_MRI''"
| "name_of LAB = ''LAB''"
| "name_of RADIOLOGY = ''RADIOLOGY''"

fun unit_str :: "unit_name option \<Rightarrow> string" where
  "unit_str None = ''None''"
| "unit_str (Some u) = name_of u"

fun modality_str :: "modality option \<Rightarrow> string" where
  "modality_str None = ''None''"
| "modality_str (Some CT) = ''CT''"
| "modality_str (Some MRI) = ''MRI''"

text \<open>The text of an event type: the second component of a heap tuple.\<close>

fun kind_name :: "event_kind \<Rightarrow> string" where
  "kind_name SCHEDULE_PATIENT_ARRIVAL = ''SCHEDULE_PATIENT_ARRIVAL''"
| "kind_name PATIENT_ARRIVAL = ''PATIENT_ARRIVAL''"
| "kind_name ED_TRIAGE_COMPLETE = ''ED_TRIAGE_COMPLETE''"
| "kind_name ASSIGN_ED_BED = ''ASSIGN_ED_BED''"
| "kind_name ED_PHYSICIAN_RETRY = ''ED_PHYSICIAN_RETRY''"
| "kind_name ED_PHYSICIAN_ASSESSMENT_COMPLETE = ''ED_PHYSICIAN_ASSESSMENT_COMPLETE''"
| "kind_name IMAGING_ORDERED = ''IMAGING_ORDERED''"
| "kind_name TRANSFER_TO_IMAGING = ''TRANSFER_TO_IMAGING''"
| "kind_name PULLEY_TRANSPORT_COMPLETE = ''PULLEY_TRANSPORT_COMPLETE''"
| "kind_name STAFF_TRANSPORT_COMPLETE = ''STAFF_TRANSPORT_COMPLETE''"
| "kind_name IMAGING_STARTED = ''IMAGING_STARTED''"
| "kind_name IMAGING_COMPLETE = ''IMAGING_COMPLETE''"
| "kind_name IMAGING_REPORT_RETRY = ''IMAGING_REPORT_RETRY''"
| "kind_name IMAGING_REPORT_COMPLETE = ''IMAGING_REPORT_COMPLETE''"
| "kind_name LAB_ORDERED = ''LAB_ORDERED''"
| "kind_name TRANSFER_TO_LAB = ''TRANSFER_TO_LAB''"
| "kind_name LAB_STARTED = ''LAB_STARTED''"
| "kind_name LAB_COMPLETE = ''LAB_COMPLETE''"
| "kind_name RE_EVALUATE_AFTER_DIAGNOSTICS = ''RE_EVALUATE_AFTER_DIAGNOSTICS''"
| "kind_name ADMIT_TO_INPATIENT = ''ADMIT_TO_INPATIENT''"
| "kind_name ADMIT_TO_CDU = ''ADMIT_TO_CDU''"
| "kind_name CDU_OBSERVATION_COMPLETE = ''CDU_OBSERVATION_COMPLETE''"
| "kind_name INPATIENT_PATIENT_CHECK = ''INPATIENT_PATIENT_CHECK''"
| "kind_name DISCHARGE_ORDERED = ''DISCHARGE_ORDERED''"
| "kind_name DISCHARGE_PROCESS_RETRY = ''DISCHARGE_PROCESS_RETRY''"
| "kind_name DISCHARGE_PROCESS_COMPLETE = ''DISCHARGE_PROCESS_COMPLETE''"
| "kind_name AI_STAFFING_ADJUSTMENT = ''AI_STAFFING_ADJUSTMENT''"
| "kind_name CDU_OCCUPANCY_METRIC_CHECK = ''CDU_OCCUPANCY_METRIC_CHECK''"
| "kind_name INPATIENT_OCCUPANCY_METRIC_CHECK = ''INPATIENT_OCCUPANCY_METRIC_CHECK''"
| "kind_name PULLEY_UTILIZATION_METRIC_CHECK = ''PULLEY_UTILIZATION_METRIC_CHECK''"

subsection \<open>class Config\<close>

text \<open>
  The attributes of \<^verbatim>\<open>Config\<close> the modelled code reads. The \<open>(lo, hi)\<close> ranges that
  are only ever passed to \<^verbatim>\<open>random.randint\<close> are not fields: the draw itself comes from
  the oracle. \<^verbatim>\<open>UNIT_CAPACITY\<close> has the seven unit names as its keys in every
  configuration of the file, so it is a total function here.
\<close>

record config =
  SIM_DAYS :: real
  SIM_MINUTES_PER_DAY :: real
  TICK_INTERVAL_MINUTES :: real
  SIM_START_TIME :: real
  SIM_END_TIME :: real
  UNIT_CAPACITY :: "unit_name \<Rightarrow> int"
  STAFF_PER_UNIT :: "(unit_name \<times> (staff_type \<times> nat) list) list"
  TRANSPORT_STAFF :: nat
  VOLUNTEER_TRANSPORT_STAFF :: nat
  VOLUNTEER_ACUITY_ELIGIBILITY :: "acuity list"
  VOLUNTEER_HOURS_START :: real
  VOLUNTEER_HOURS_END :: real
  PULLEY_SYSTEM_CAPACITY :: int
  PULLEY_ELIGIBLE_UNITS :: "unit_name list"
  PULLEY_ELIGIBLE_DESTINATIONS :: "unit_name list"
  INPATIENT_BEDS :: int
  CDU_BEDS :: int
  CDU_CRITERIA_MATCH :: real
  AI_CRITICAL_REDUCTION :: real
  AI_ROUTINE_PRELIM_REDUCTION :: real
  AI_STAFFING_ADJUSTMENT_INTERVAL_MINUTES :: real
  AI_DISCHARGE_REDUCTION :: real
  INPATIENT_STAY_TIME :: "acuity \<Rightarrow> real \<times> real"
  INPATIENT_CDU_CHECK_INTERVAL :: real
  AMENITIES_COST_PER_PATIENT_VISIT :: real
  SATISFACTION_AMENITIES_BONUS :: real
  AI_ENTERTAINMENT_MONTHLY_COST :: real
  SATISFACTION_ENTERTAINMENT_BONUS :: real

text \<open>The base class \<^verbatim>\<open>Config\<close> itself, which \<^verbatim>\<open>Staff\<close> and \<^verbatim>\<open>MetricsTracker\<close> read
  directly (not through the simulator's \<^verbatim>\<open>self.config\<close>).\<close>

definition Config :: config where
  "Config = \<lparr>
     SIM_DAYS = 7,
     SIM_MINUTES_PER_DAY = 24 * 60,
     TICK_INTERVAL_MINUTES = 5,
     SIM_START_TIME = 0,
     SIM_END_TIME = 7 * (24 * 60),
     UNIT_CAPACITY = (\<lambda>u. case u of ED \<Rightarrow> 45 | INPATIENT \<Rightarrow> 165 | CDU \<Rightarrow> 0
        | IMAGING_CT \<Rightarrow> 2 | IMAGING_MRI \<Rightarrow> 1 | LAB \<Rightarrow> 5 | RADIOLOGY \<Rightarrow> 1),
     STAFF_PER_UNIT =
       [(ED, [(NURSE, 14), (PHYSICIAN, 8)]),
        (INPATIENT, [(NURSE, 30), (PHYSICIAN, 7)]),
        (CDU, [(NURSE, 4), (PHYSICIAN, 1)]),
        (RADIOLOGY, [(RADIOLOGIST, 6)]),
        (IMAGING_CT, [(TECH, 6)]),
        (IMAGING_MRI, [(TECH, 4)]),
        (LAB, [(TECH, 5)])],
     TRANSPORT_STAFF = 25,
     VOLUNTEER_TRANSPORT_STAFF = 0,
     VOLUNTEER_ACUITY_ELIGIBILITY = [URGENT_OBS, NON_URGENT],
     VOLUNTEER_HOURS_START = 8 * 60,
     VOLUNTEER_HOURS_END = 17 * 60,
     PULLEY_SYSTEM_CAPACITY = 0,
     PULLEY_ELIGIBLE_UNITS = [ED],
     PULLEY_ELIGIBLE_DESTINATIONS = [IMAGING_CT, IMAGING_MRI],
     INPATIENT_BEDS = 165,
     CDU_BEDS = 20,
     CDU_CRITERIA_MATCH = 0.80,
     AI_CRITICAL_REDUCTION = 0.30,
     AI_ROUTINE_PRELIM_REDUCTION = 0.15,
     AI_STAFFING_ADJUSTMENT_INTERVAL_MINUTES = 60,
     AI_DISCHARGE_REDUCTION = 0.10,
     INPATIENT_STAY_TIME = (\<lambda>a. case a of CRITICAL \<Rightarrow> (3600, 8640)
        | URGENT_ADMIT \<Rightarrow> (2160, 5760) | URGENT_OBS \<Rightarrow> (1152, 3600)
        | NON_URGENT \<Rightarrow> (1152, 3600)),
     INPATIENT_CDU_CHECK_INTERVAL = 30,
     AMENITIES_COST_PER_PATIENT_VISIT = 2.50,
     SATISFACTION_AMENITIES_BONUS = 10,
     AI_ENTERTAINMENT_MONTHLY_COST = 5000,
     SATISFACTION_ENTERTAINMENT_BONUS = 15 \<rparr>"

text \<open>
  The classes \<^verbatim>\<open>BellevueBaselineConfig(Config)\<close> and
  \<^verbatim>\<open>BellevueEnhancedConfig(BellevueBaselineConfig)\<close> of the script at the end of the
  file, by the attributes they override (\<^verbatim>\<open>math.ceil(180/8 * 0.85)\<close> is 20 and
  \<^verbatim>\<open>math.ceil(165/4 * 0.85)\<close> is 36). The simulator is run on an instance of such a
  class and reads it through \<^verbatim>\<open>self.config\<close>.
\<close>

definition BellevueBaselineConfig :: config where
  "BellevueBaselineConfig = Config\<lparr>
     UNIT_CAPACITY := (UNIT_CAPACITY Config)(ED := 180),
     STAFF_PER_UNIT :=
       [(ED, [(NURSE, 20), (PHYSICIAN, 10)]),
        (INPATIENT, [(NURSE, 36), (PHYSICIAN, 7)]),
        (CDU, [(NURSE, 4), (PHYSICIAN, 1)]),
        (RADIOLOGY, [(RADIOLOGIST, 6)]),
        (IMAGING_CT, [(TECH, 6)]),
        (IMAGING_MRI, [(TECH, 4)]),
        (LAB, [(TECH, 5)])],
     TRANSPORT_STAFF := 100,
     VOLUNTEER_TRANSPORT_STAFF := 0,
     PULLEY_SYSTEM_CAPACITY := 0\<rparr>"

definition BellevueEnhancedConfig :: config where
  "BellevueEnhancedConfig = BellevueBaselineConfig\<lparr>
     AI_DISCHARGE_REDUCTION := 0.10,
     TRANSPORT_STAFF := 60,
     VOLUNTEER_TRANSPORT_STAFF := 15,
     PULLEY_SYSTEM_CAPACITY := 2,
     STAFF_PER_UNIT :=
       [(ED, [(NURSE, 14), (PHYSICIAN, 8)]),
        (INPATIENT, [(NURSE, 35), (PHYSICIAN, 7)]),
        (CDU, [(NURSE, 4), (PHYSICIAN, 1)]),
        (RADIOLOGY, [(RADIOLOGIST, 14)]),
        (IMAGING_CT, [(TECH, 8)]),
        (IMAGING_MRI, [(TECH, 6)]),
        (LAB, [(TECH, 5)])]\<rparr>"

text \<open>\<^verbatim>\<open>getattr(Config, f'{self.type.upper()}_COST')\<close>, with \<^verbatim>\<open>Config.VOLUNTEER_COST\<close> for a
  volunteer: the per-minute cost constants of the base class.\<close>

fun cost_per_minute :: "staff_type \<Rightarrow> real" where
  "cost_per_minute PHYSICIAN = 3.0"
| "cost_per_minute NURSE = 1.0"
| "cost_per_minute TECH = 0.50"
| "cost_per_minute RADIOLOGIST = 2.5"
| "cost_per_minute TRANSPORT = 0.60"
| "cost_per_minute VOLUNTEER_TRANSPORT = 0.0"

definition OVERTIME_MULTIPLIER :: real where
  "OVERTIME_MULTIPLIER = 1.5"

text \<open>\<^verbatim>\<open>Config.TRANSPORT_PRIORITY.get(patient.acuity, 5)\<close>.\<close>

fun TRANSPORT_PRIORITY :: "acuity \<Rightarrow> int" where
  "TRANSPORT_PRIORITY CRITICAL = 1"
| "TRANSPORT_PRIORITY URGENT_ADMIT = 2"
| "TRANSPORT_PRIORITY URGENT_OBS = 3"
| "TRANSPORT_PRIORITY NON_URGENT = 4"

subsection \<open>class Patient\<close>

record log_entry =
  log_time :: real
  log_type :: string
  log_unit_id :: "string option"

record patient =
  pid :: string
  arrival_time :: real
  acuity :: acuity
  events :: "log_entry list"
  current_unit :: "unit_name option"
  status :: status
  needs_imaging :: bool
  imaging_type :: "modality option"
  imaging_start_time :: "real option"
  imaging_result_time :: "real option"
  needs_lab :: bool
  lab_start_time :: "real option"
  lab_result_time :: "real option"
  discharge_order_time :: "real option"
  actual_discharge_time :: "real option"
  assigned_staff_id :: "nat option"
  boarding_start_time :: "real option"
  imaging_order_unit_id :: "unit_name option"
  discharge_requested :: bool
  ed_disposition_time :: "real option"
  transport_request_time :: "real option"
  transport_assigned_time :: "real option"
  transport_type :: "transport_type option"

text \<open>\<^verbatim>\<open>Patient.__init__\<close>; the uuid and the acuity drawn by \<^verbatim>\<open>random.choices\<close> are
  arguments.\<close>

definition Patient :: "string \<Rightarrow> acuity \<Rightarrow> real \<Rightarrow> patient" where
  "Patient new_id drawn_acuity sim_time = \<lparr>
     pid = new_id, arrival_time = sim_time, acuity = drawn_acuity, events = [],
     current_unit = Some ED, status = ARRIVED, needs_imaging = False, imaging_type = None,
     imaging_start_time = None, imaging_result_time = None, needs_lab = False,
     lab_start_time = None, lab_result_time = None, discharge_order_time = None,
     actual_discharge_time = None, assigned_staff_id = None, boarding_start_time = None,
     imaging_order_unit_id = None, discharge_requested = False, ed_disposition_time = None,
     transport_request_time = None, transport_assigned_time = None, transport_type = None \<rparr>"

definition add_event :: "patient \<Rightarrow> real \<Rightarrow> string \<Rightarrow> string option \<Rightarrow> patient" where
  "add_event p t ty unit_id =
     p\<lparr>events := events p @ [\<lparr>log_time = t, log_type = ty, log_unit_id = unit_id\<rparr>]\<rparr>"

text \<open>Python truthiness of a time that may be \<^verbatim>\<open>None\<close>: false for \<^verbatim>\<open>None\<close> and for 0.\<close>

fun truthy :: "real option \<Rightarrow> bool" where
  "truthy None = False"
| "truthy (Some t) = (t \<noteq> 0)"

subsection \<open>class Staff\<close>

text \<open>A staff member's uuid is only ever compared for identity; it is the index of the
  member in creation order.\<close>

record staff =
  sid :: nat
  stype :: staff_type
  busy_until :: real
  last_assignment_start_time :: "real option"
  current_assignment_details :: "string option"
  last_assigned_unit :: "unit_name option"
  total_normal_cost :: real
  total_overtime_cost :: real

definition Staff :: "staff_type \<Rightarrow> nat \<Rightarrow> staff" where
  "Staff ty i = \<lparr> sid = i, stype = ty, busy_until = 0, last_assignment_start_time = None,
     current_assignment_details = None, last_assigned_unit = None,
     total_normal_cost = 0, total_overtime_cost = 0 \<rparr>"

definition is_free :: "staff \<Rightarrow> real \<Rightarrow> bool" where
  "is_free s sim_time \<longleftrightarrow> sim_time \<ge> busy_until s"

text \<open>The cost block shared by the two accrual methods: \<^verbatim>\<open>overtime_fraction = 0.2\<close>.\<close>

definition add_cost :: "staff \<Rightarrow> real \<Rightarrow> staff" where
  "add_cost s duration_worked =
     (let assignment_cost = cost_per_minute (stype s) * duration_worked;
          overtime_fraction = 0.2
      in s\<lparr> total_overtime_cost :=
               total_overtime_cost s + assignment_cost * overtime_fraction * OVERTIME_MULTIPLIER,
             total_normal_cost :=
               total_normal_cost s + assignment_cost * (1 - overtime_fraction) \<rparr>)"

definition accrue_cost_for_completed_task :: "staff \<Rightarrow> real \<Rightarrow> staff" where
  "accrue_cost_for_completed_task s current_sim_time =
     (case last_assignment_start_time s of
        None \<Rightarrow> s
      | Some start \<Rightarrow>
          if current_sim_time \<ge> busy_until s then
            (let duration_worked = busy_until s - start;
                 s1 = (if duration_worked > 0 then add_cost s duration_worked else s)
             in s1\<lparr> last_assignment_start_time := None,
                    current_assignment_details := None,
                    last_assigned_unit := None \<rparr>)
          else s)"

definition assign :: "staff \<Rightarrow> real \<Rightarrow> real \<Rightarrow> string \<Rightarrow> unit_name option \<Rightarrow> staff" where
  "assign s sim_time duration assignment_details unit_name =
     (accrue_cost_for_completed_task s sim_time)
       \<lparr> busy_until := sim_time + duration,
         last_assignment_start_time := Some sim_time,
         current_assignment_details := Some assignment_details,
         last_assigned_unit := unit_name \<rparr>"

definition accrue_remaining_cost :: "staff \<Rightarrow> real \<Rightarrow> staff" where
  "accrue_remaining_cost s final_sim_time =
     (case last_assignment_start_time s of
        None \<Rightarrow> s
      | Some start \<Rightarrow>
          (let duration_worked = min final_sim_time (busy_until s) - start;
               s1 = (if duration_worked > 0 then add_cost s duration_worked else s)
           in s1\<lparr> last_assignment_start_time := None \<rparr>))"

subsection \<open>class Unit\<close>

text \<open>
  \<^verbatim>\<open>patients_in_unit\<close> is a dict keyed by patient id: only its keys are ever read, so it
  is the list of its keys in insertion order. \<^verbatim>\<open>queue\<close> is a heap of patients of which
  only membership is ever read: it is the list of the queued ids. \<^verbatim>\<open>staff_assigned\<close> maps
  the staff types of the unit's \<^verbatim>\<open>staff_config\<close> to the ids of the rostered staff.
\<close>

record hospital_unit =
  uname :: unit_name
  capacity :: int
  patients_in_unit :: "string list"
  queue :: "string list"
  staff_assigned :: "staff_type \<Rightarrow> nat list option"

definition Unit :: "unit_name \<Rightarrow> int \<Rightarrow> (staff_type \<times> nat) list \<Rightarrow> hospital_unit" where
  "Unit nm cap staff_config = \<lparr> uname = nm, capacity = cap, patients_in_unit = [], queue = [],
     staff_assigned = (\<lambda>ty. if ty \<in> fst ` set staff_config then Some [] else None) \<rparr>"

text \<open>\<^verbatim>\<open>d[k] = v\<close> on the keys of a dict.\<close>

definition dict_set :: "string \<Rightarrow> string list \<Rightarrow> string list" where
  "dict_set k ks = (if k \<in> set ks then ks else ks @ [k])"

definition admit_patient ::
  "hospital_unit \<Rightarrow> patient \<Rightarrow> real \<Rightarrow> bool \<times> hospital_unit \<times> patient" where
  "admit_patient u p sim_time =
     (if int (length (patients_in_unit u)) < capacity u then
        (True,
         u\<lparr> patients_in_unit := dict_set (pid p) (patients_in_unit u),
            queue := (if pid p \<in> set (queue u) then remove1 (pid p) (queue u) else queue u) \<rparr>,
         add_event (p\<lparr>current_unit := Some (uname u)\<rparr>) sim_time
           (''ADMITTED_TO_'' @ name_of (uname u)) (Some (name_of (uname u))))
      else (False, u, p))"

definition add_patient_to_queue ::
  "hospital_unit \<Rightarrow> patient \<Rightarrow> real \<Rightarrow> hospital_unit \<times> patient" where
  "add_patient_to_queue u p sim_time =
     (if pid p \<notin> set (queue u) then
        (u\<lparr>queue := queue u @ [pid p]\<rparr>,
         add_event p sim_time (''QUEUED_FOR_'' @ name_of (uname u)) (Some (name_of (uname u))))
      else (u, p))"

definition discharge_patient ::
  "hospital_unit \<Rightarrow> patient \<Rightarrow> real \<Rightarrow> bool \<times> hospital_unit \<times> patient" where
  "discharge_patient u p sim_time =
     (if pid p \<in> set (patients_in_unit u) then
        (True,
         u\<lparr>patients_in_unit := removeAll (pid p) (patients_in_unit u)\<rparr>,
         add_event p sim_time (''DISCHARGED_FROM_'' @ name_of (uname u))
           (Some (name_of (uname u))))
      else (False, u, p))"

subsection \<open>class MetricsTracker\<close>

record metrics =
  ed_los_list :: "real list"
  ed_boarding_times :: "real list"
  total_ed_boarding_time :: real
  cdu_conversion_count :: nat
  cdu_total_patients :: nat
  cdu_occupancy_times :: "(real \<times> int) list"
  inpatient_occupancy_times :: "(real \<times> int) list"
  overall_imaging_tat :: "real list"
  critical_imaging_tat :: "real list"
  ed_cdu_imaging_tat :: "real list"
  total_patient_count :: nat
  patient_satisfaction_scores :: "real list"
  total_hospital_los_list :: "real list"
  transfer_times_to_admit :: "real list"
  ed_wait_times_for_transport :: "real list"
  pulley_utilization_times :: "(real \<times> int) list"
  volunteer_transport_count :: nat
  paid_transport_count :: nat
  pulley_transport_count :: nat
  total_amenities_cost :: real
  total_ai_entertainment_cost :: real

definition MetricsTracker :: metrics where
  "MetricsTracker = \<lparr> ed_los_list = [], ed_boarding_times = [], total_ed_boarding_time = 0,
     cdu_conversion_count = 0, cdu_total_patients = 0, cdu_occupancy_times = [],
     inpatient_occupancy_times = [], overall_imaging_tat = [], critical_imaging_tat = [],
     ed_cdu_imaging_tat = [], total_patient_count = 0, patient_satisfaction_scores = [],
     total_hospital_los_list = [], transfer_times_to_admit = [],
     ed_wait_times_for_transport = [], pulley_utilization_times = [],
     volunteer_transport_count = 0, paid_transport_count = 0, pulley_transport_count = 0,
     total_amenities_cost = 0, total_ai_entertainment_cost = 0 \<rparr>"

definition add_ed_los :: "metrics \<Rightarrow> real \<Rightarrow> metrics" where
  "add_ed_los m los = m\<lparr>ed_los_list := ed_los_list m @ [los]\<rparr>"

definition add_ed_boarding_time :: "metrics \<Rightarrow> real \<Rightarrow> metrics" where
  "add_ed_boarding_time m boarding_time =
     m\<lparr> ed_boarding_times := ed_boarding_times m @ [boarding_time],
        total_ed_boarding_time := total_ed_boarding_time m + boarding_time \<rparr>"

definition add_cdu_conversion :: "metrics \<Rightarrow> bool \<Rightarrow> metrics" where
  "add_cdu_conversion m converted =
     (let m1 = m\<lparr>cdu_total_patients := cdu_total_patients m + 1\<rparr>
      in if converted then m1\<lparr>cdu_conversion_count := cdu_conversion_count m1 + 1\<rparr> else m1)"

text \<open>The three occupancy recorders share one body: append only when the count differs
  from the last recorded one.\<close>

definition add_occupancy :: "(real \<times> int) list \<Rightarrow> real \<Rightarrow> int \<Rightarrow> (real \<times> int) list" where
  "add_occupancy xs sim_time n =
     (if xs = [] \<or> snd (last xs) \<noteq> n then xs @ [(sim_time, n)] else xs)"

definition add_cdu_occupancy :: "metrics \<Rightarrow> real \<Rightarrow> int \<Rightarrow> metrics" where
  "add_cdu_occupancy m sim_time patients_in_cdu =
     m\<lparr>cdu_occupancy_times := add_occupancy (cdu_occupancy_times m) sim_time patients_in_cdu\<rparr>"

definition add_inpatient_occupancy :: "metrics \<Rightarrow> real \<Rightarrow> int \<Rightarrow> metrics" where
  "add_inpatient_occupancy m sim_time patients_in_inpatient =
     m\<lparr>inpatient_occupancy_times :=
         add_occupancy (inpatient_occupancy_times m) sim_time patients_in_inpatient\<rparr>"

definition add_pulley_utilization :: "metrics \<Rightarrow> real \<Rightarrow> int \<Rightarrow> metrics" where
  "add_pulley_utilization m sim_time current_utilization =
     m\<lparr>pulley_utilization_times :=
         add_occupancy (pulley_utilization_times m) sim_time current_utilization\<rparr>"

definition add_overall_imaging_tat :: "metrics \<Rightarrow> real \<Rightarrow> metrics" where
  "add_overall_imaging_tat m tat = m\<lparr>overall_imaging_tat := overall_imaging_tat m @ [tat]\<rparr>"

definition add_critical_imaging_tat :: "metrics \<Rightarrow> real \<Rightarrow> metrics" where
  "add_critical_imaging_tat m tat = m\<lparr>critical_imaging_tat := critical_imaging_tat m @ [tat]\<rparr>"

definition add_ed_cdu_imaging_tat :: "metrics \<Rightarrow> real \<Rightarrow> metrics" where
  "add_ed_cdu_imaging_tat m tat = m\<lparr>ed_cdu_imaging_tat := ed_cdu_imaging_tat m @ [tat]\<rparr>"

definition add_patient_satisfaction_score :: "metrics \<Rightarrow> real \<Rightarrow> metrics" where
  "add_patient_satisfaction_score m score =
     m\<lparr>patient_satisfaction_scores := patient_satisfaction_scores m @ [score]\<rparr>"

definition add_total_hospital_los :: "metrics \<Rightarrow> real \<Rightarrow> metrics" where
  "add_total_hospital_los m los = m\<lparr>total_hospital_los_list := total_hospital_los_list m @ [los]\<rparr>"

definition add_transfer_time_to_admit :: "metrics \<Rightarrow> real \<Rightarrow> metrics" where
  "add_transfer_time_to_admit m transfer_time =
     m\<lparr>transfer_times_to_admit := transfer_times_to_admit m @ [transfer_time]\<rparr>"

definition add_ed_wait_time_for_transport :: "metrics \<Rightarrow> real \<Rightarrow> metrics" where
  "add_ed_wait_time_for_transport m wait_time =
     m\<lparr>ed_wait_times_for_transport := ed_wait_times_for_transport m @ [wait_time]\<rparr>"

fun add_transport_type_count :: "metrics \<Rightarrow> transport_type option \<Rightarrow> metrics" where
  "add_transport_type_count m (Some VOLUNTEER) =
     m\<lparr>volunteer_transport_count := volunteer_transport_count m + 1\<rparr>"
| "add_transport_type_count m (Some PAID_STAFF) =
     m\<lparr>paid_transport_count := paid_transport_count m + 1\<rparr>"
| "add_transport_type_count m (Some PULLEY) =
     m\<lparr>pulley_transport_count := pulley_transport_count m + 1\<rparr>"
| "add_transport_type_count m None = m"

text \<open>The \<^verbatim>\<open>for i in range(1, len(occupancy_times_list))\<close> loop of
  \<^verbatim>\<open>calculate_weighted_average_occupancy\<close>, as a recursion over consecutive points.\<close>

fun weighted_patient_minutes :: "(real \<times> int) list \<Rightarrow> real" where
  "weighted_patient_minutes (a # b # rest) =
     real_of_int (snd a) * (fst b - fst a) + weighted_patient_minutes (b # rest)"
| "weighted_patient_minutes _ = 0"

definition calculate_weighted_average_occupancy :: "(real \<times> int) list \<Rightarrow> real \<Rightarrow> real" where
  "calculate_weighted_average_occupancy occupancy_times_list total_sim_time_span =
     (if length occupancy_times_list > 1 then
        (let w = weighted_patient_minutes occupancy_times_list
                 + real_of_int (snd (last occupancy_times_list))
                   * (SIM_END_TIME Config - fst (last occupancy_times_list))
         in if total_sim_time_span > 0 then w / total_sim_time_span else 0)
      else if occupancy_times_list \<noteq> [] then real_of_int (snd (hd occupancy_times_list))
      else 0)"

text \<open>The occupancy and utilisation entries of \<^verbatim>\<open>report_data\<close> (lines 383 to 401 of the
  source); the other entries of the report are plain averages and are not modelled.\<close>

record report_data =
  cdu_avg_occupancy :: real
  cdu_avg_utilization :: real
  avg_inpatient_occupancy :: real
  inpatient_avg_utilization :: real
  pulley_avg_occupancy :: real
  pulley_avg_utilization :: real

definition report :: "metrics \<Rightarrow> report_data" where
  "report m =
     (let total_sim_time_span = SIM_END_TIME Config - SIM_START_TIME Config;
          avg_cdu = calculate_weighted_average_occupancy (cdu_occupancy_times m) total_sim_time_span;
          avg_inp = calculate_weighted_average_occupancy (inpatient_occupancy_times m)
                      total_sim_time_span;
          avg_pul = calculate_weighted_average_occupancy (pulley_utilization_times m)
                      total_sim_time_span
      in \<lparr> cdu_avg_occupancy = avg_cdu,
           cdu_avg_utilization =
             (if CDU_BEDS Config > 0 then (avg_cdu / real_of_int (CDU_BEDS Config)) * 100 else 0),
           avg_inpatient_occupancy = avg_inp,
           inpatient_avg_utilization =
             (if INPATIENT_BEDS Config > 0
              then (avg_inp / real_of_int (INPATIENT_BEDS Config)) * 100 else 0),
           pulley_avg_occupancy = avg_pul,
           pulley_avg_utilization =
             (if PULLEY_SYSTEM_CAPACITY Config > 0
              then (avg_pul / real_of_int (PULLEY_SYSTEM_CAPACITY Config)) * 100 else 0) \<rparr>)"

subsection \<open>The event heap\<close>

text \<open>
  An event is the tuple \<^verbatim>\<open>(fire_time, event_type, patient_id, event_data)\<close> the program
  pushes; \<^verbatim>\<open>event_data\<close> is \<^verbatim>\<open>None\<close> or the dict \<^verbatim>\<open>{'duration': d}\<close>.
\<close>

type_synonym event = "real \<times> event_kind \<times> string option \<times> real option"

text \<open>Python's \<^verbatim>\<open><\<close> on two such tuples: the first component in which they differ
  decides. \<^verbatim>\<open>None\<close> is put before a value here (Python raises \<^verbatim>\<open>TypeError\<close> on such a pair
  and on two different dicts); no such pair is compared in what follows.\<close>

fun opt_lt :: "'a::linorder option \<Rightarrow> 'a option \<Rightarrow> bool" where
  "opt_lt None (Some y) = True"
| "opt_lt (Some x) (Some y) = (x < y)"
| "opt_lt _ None = False"

fun event_lt :: "event \<Rightarrow> event \<Rightarrow> bool" where
  "event_lt (t1, k1, p1, d1) (t2, k2, p2, d2) =
     (if t1 \<noteq> t2 then t1 < t2
      else if kind_name k1 \<noteq> kind_name k2 then kind_name k1 < kind_name k2
      else if p1 \<noteq> p2 then opt_lt p1 p2
      else if d1 \<noteq> d2 then opt_lt d1 d2
      else False)"

text \<open>
  \<^verbatim>\<open>heapq\<close> is Python's library, modelled by its contract: the heap holds the pushed
  tuples, and \<^verbatim>\<open>heappop\<close> removes and returns a smallest one under the tuples' \<^verbatim>\<open><\<close>.
  The list keeps the tuples in the order they were pushed.
\<close>

definition heappush :: "event list \<Rightarrow> event \<Rightarrow> event list" where
  "heappush h e = h @ [e]"

fun heap_least :: "event \<Rightarrow> event list \<Rightarrow> event" where
  "heap_least m [] = m"
| "heap_least m (e # es) = heap_least (if event_lt e m then e else m) es"

definition heappop :: "event list \<Rightarrow> (event \<times> event list) option" where
  "heappop h = (case h of [] \<Rightarrow> None
                | e # es \<Rightarrow> (let m = heap_least e es in Some (m, remove1 m h)))"

subsection \<open>class HospitalSimulator: state and helpers\<close>

text \<open>
  The random draws of one event handler. No handler calls \<^verbatim>\<open>random.randint\<close>,
  \<^verbatim>\<open>random.expovariate\<close>, \<^verbatim>\<open>random.choice\<close>, \<^verbatim>\<open>random.choices\<close> or \<^verbatim>\<open>uuid.uuid4\<close>
  more than once, nor \<^verbatim>\<open>random.random\<close> more than three times.
\<close>

record draws =
  d_expovariate :: real
  d_randint :: int
  d_random1 :: real
  d_random2 :: real
  d_random3 :: real
  d_choice :: modality
  d_choices :: acuity
  d_uuid4 :: string

text \<open>
  \<^verbatim>\<open>self.patients\<close> is the store of the patient objects; a handler works on the
  patient it looked up under the event's id, and the object is written back under that
  id when the handler is done (\<open>store\<close>).
  \<^verbatim>\<open>self.all_staff\<close> is the list of the staff objects in creation order.
\<close>

record sim =
  sim_time :: real
  total_sim_minutes :: real
  patients :: "string \<rightharpoonup> patient"
  event_queue :: "event list"
  units :: "unit_name \<Rightarrow> hospital_unit"
  all_staff :: "staff list"
  metrics :: metrics
  enable_cdu :: bool
  enable_ai_imaging :: bool
  enable_ai_staffing :: bool
  enable_amenities :: bool
  enable_ai_entertainment :: bool
  ai_staffing_next_adjustment_time :: real
  pulley_in_use :: int

definition push :: "sim \<Rightarrow> event \<Rightarrow> sim" where
  "push s e = s\<lparr>event_queue := heappush (event_queue s) e\<rparr>"

definition store :: "sim \<Rightarrow> string \<Rightarrow> patient \<Rightarrow> sim" where
  "store s k p = s\<lparr>patients := (patients s)(k \<mapsto> p)\<rparr>"

definition set_unit :: "sim \<Rightarrow> unit_name \<Rightarrow> hospital_unit \<Rightarrow> sim" where
  "set_unit s nm u = s\<lparr>units := (units s)(nm := u)\<rparr>"

definition set_staff :: "sim \<Rightarrow> staff \<Rightarrow> sim" where
  "set_staff s st = s\<lparr>all_staff := map (\<lambda>x. if sid x = sid st then st else x) (all_staff s)\<rparr>"

text \<open>Python's \<^verbatim>\<open>int(x)\<close> on a float truncates towards zero.\<close>

definition py_int :: "real \<Rightarrow> real" where
  "py_int x = (if x \<ge> 0 then real_of_int \<lfloor>x\<rfloor> else real_of_int \<lceil>x\<rceil>)"

text \<open>Python's \<^verbatim>\<open>x % m\<close> for a non-zero \<open>m\<close>.\<close>

definition py_mod :: "real \<Rightarrow> real \<Rightarrow> real" where
  "py_mod x m = x - real_of_int \<lfloor>x / m\<rfloor> * m"

text \<open>\<^verbatim>\<open>self.units.get(unit_name)\<close> finds nothing for a name that is no key
  (\<^verbatim>\<open>'IMAGING_None'\<close>): the argument is \<open>None\<close> then.\<close>

definition get_free_bed :: "sim \<Rightarrow> unit_name option \<Rightarrow> bool" where
  "get_free_bed s unit_name =
     (case unit_name of
        None \<Rightarrow> False
      | Some u \<Rightarrow> int (length (patients_in_unit (units s u))) < capacity (units s u))"

definition get_patient_satisfaction_score :: "config \<Rightarrow> sim \<Rightarrow> real \<Rightarrow> real" where
  "get_patient_satisfaction_score cfg s ed_los =
     (let max_los_for_score = 480;
          min_los_for_score = 30;
          base_score = (if ed_los \<le> min_los_for_score then 100
                        else if ed_los \<ge> max_los_for_score then 1
                        else 100 - ((ed_los - min_los_for_score)
                                    / (max_los_for_score - min_los_for_score)) * 99);
          base_score1 = (if enable_amenities s
                         then base_score + SATISFACTION_AMENITIES_BONUS cfg else base_score);
          base_score2 = (if enable_ai_entertainment s
                         then base_score1 + SATISFACTION_ENTERTAINMENT_BONUS cfg
                         else base_score1)
      in max 1 (min 100 base_score2))"

definition adjust_ai_staffing :: "config \<Rightarrow> sim \<Rightarrow> sim" where
  "adjust_ai_staffing cfg s =
     (let s1 = s\<lparr>ai_staffing_next_adjustment_time :=
                  ai_staffing_next_adjustment_time s
                  + AI_STAFFING_ADJUSTMENT_INTERVAL_MINUTES cfg\<rparr>
      in if ai_staffing_next_adjustment_time s1 < total_sim_minutes s1
         then push s1 (ai_staffing_next_adjustment_time s1, AI_STAFFING_ADJUSTMENT, None, None)
         else s1)"

text \<open>
  \<^verbatim>\<open>_determine_patient_disposition\<close>. \<open>u\<close> is the value of the one \<^verbatim>\<open>random.random()\<close>
  the routine may draw. The last \<^verbatim>\<open>else\<close> of the source (an acuity outside the four)
  has no counterpart: the datatype has the four acuities only.
\<close>

definition determine_patient_disposition ::
  "config \<Rightarrow> real \<Rightarrow> patient \<Rightarrow> sim \<Rightarrow> real \<Rightarrow> patient \<times> sim" where
  "determine_patient_disposition cfg u p s event_time =
     (let (p1, s1) =
            (if ed_disposition_time p = None then
               (let ed_los_val = event_time - arrival_time p
                in (p\<lparr>ed_disposition_time := Some event_time\<rparr>,
                    s\<lparr>metrics := add_patient_satisfaction_score
                                   (add_ed_los (metrics s) ed_los_val)
                                   (get_patient_satisfaction_score cfg s ed_los_val)\<rparr>))
             else (p, s))
      in if acuity p1 = CRITICAL \<or> acuity p1 = URGENT_ADMIT then
           (p1\<lparr>status := ADMIT_INPATIENT_PENDING\<rparr>,
            push s1 (event_time, ADMIT_TO_INPATIENT, Some (pid p1), None))
         else if acuity p1 = URGENT_OBS then
           (if enable_cdu s1 \<and> u < CDU_CRITERIA_MATCH cfg then
              (p1\<lparr>status := ADMIT_CDU_PENDING\<rparr>,
               push s1 (event_time, ADMIT_TO_CDU, Some (pid p1), None))
            else
              (p1\<lparr>status := ADMIT_INPATIENT_PENDING\<rparr>,
               push s1 (event_time, ADMIT_TO_INPATIENT, Some (pid p1), None)))
         else
           (if enable_cdu s1 \<and> u < CDU_CRITERIA_MATCH cfg * 0.5 then
              (p1\<lparr>status := ADMIT_CDU_PENDING\<rparr>,
               push s1 (event_time, ADMIT_TO_CDU, Some (pid p1), None))
            else
              (p1\<lparr>status := DISCHARGE_PENDING_ORDER\<rparr>,
               push s1 (event_time, DISCHARGE_ORDERED, Some (pid p1), None))))"

text \<open>Python's \<^verbatim>\<open>min(xs, key=lambda s: s.busy_until)\<close> on a non-empty list: the first
  element whose key is least.\<close>

fun min_busy :: "staff \<Rightarrow> staff list \<Rightarrow> staff" where
  "min_busy m [] = m"
| "min_busy m (x # xs) = min_busy (if busy_until x < busy_until m then x else m) xs"

definition min_by_busy_until :: "staff list \<Rightarrow> staff" where
  "min_by_busy_until xs = min_busy (hd xs) (tl xs)"

text \<open>
  \<^verbatim>\<open>_find_and_assign_staff\<close>. Every call in the source passes the id of the patient the
  handler works on, so the patient is threaded through. The result is the selected
  staff member as it is after \<^verbatim>\<open>assign\<close>.
\<close>

definition staff_pool :: "sim \<Rightarrow> staff_type \<Rightarrow> unit_name option \<Rightarrow> staff list" where
  "staff_pool s ty preferred_unit_name =
     (let roster = (case preferred_unit_name of
                      None \<Rightarrow> []
                    | Some u \<Rightarrow> (case staff_assigned (units s u) ty of
                                  None \<Rightarrow> []
                                | Some ids \<Rightarrow> ids));
          pool0 = concat (map (\<lambda>i. filter (\<lambda>x. sid x = i) (all_staff s)) roster);
          all_staff_of_type = filter (\<lambda>x. stype x = ty) (all_staff s)
      in pool0 @ filter (\<lambda>x. sid x \<notin> set roster) all_staff_of_type)"

definition find_and_assign_staff ::
  "patient \<Rightarrow> sim \<Rightarrow> staff_type \<Rightarrow> unit_name option \<Rightarrow> real \<Rightarrow> real \<Rightarrow> string
     \<Rightarrow> staff option \<times> patient \<times> sim" where
  "find_and_assign_staff p s ty preferred_unit_name now duration assignment_details =
     (let available_staff = filter (\<lambda>x. is_free x now) (staff_pool s ty preferred_unit_name)
      in if available_staff \<noteq> [] then
           (let selected_staff =
                  assign (min_by_busy_until available_staff) now duration
                    assignment_details preferred_unit_name;
                p1 = (if pid p \<noteq> [] then p\<lparr>assigned_staff_id := Some (sid selected_staff)\<rparr>
                      else p)
            in (Some selected_staff, p1, set_staff s selected_staff))
         else (None, p, s))"

text \<open>
  \<^verbatim>\<open>_request_transport_resource\<close>. The result is the returned triple with the updated
  patient and simulator. \<^verbatim>\<open>event_time % SIM_MINUTES_PER_DAY\<close> raises
  \<^verbatim>\<open>ZeroDivisionError\<close> for a zero divisor, which no configuration of the file has; the
  model requires nothing of it and uses \<open>py_mod\<close>.
\<close>

type_synonym transport_result = "transport_type option \<times> nat option \<times> real option"

definition request_transport_resource ::
  "config \<Rightarrow> draws \<Rightarrow> patient \<Rightarrow> sim \<Rightarrow> real \<Rightarrow> unit_name
     \<Rightarrow> transport_result \<times> patient \<times> sim" where
  "request_transport_resource cfg d p s event_time destination_unit_name =
     (let current_minute_of_day = py_mod event_time (SIM_MINUTES_PER_DAY cfg);
          is_volunteer_hours = (VOLUNTEER_HOURS_START cfg \<le> current_minute_of_day
                                \<and> current_minute_of_day < VOLUNTEER_HOURS_END cfg);
          paid_transport_staff = filter (\<lambda>x. stype x = TRANSPORT) (all_staff s);
          volunteer_transport_staff = filter (\<lambda>x. stype x = VOLUNTEER_TRANSPORT) (all_staff s);
          available_paid_staff = filter (\<lambda>x. is_free x event_time) paid_transport_staff;
          available_volunteer_staff = filter (\<lambda>x. is_free x event_time) volunteer_transport_staff;
          duration = real_of_int (d_randint d)
      in if current_unit p \<in> Some ` set (PULLEY_ELIGIBLE_UNITS cfg)
            \<and> destination_unit_name \<in> set (PULLEY_ELIGIBLE_DESTINATIONS cfg)
            \<and> pulley_in_use s < PULLEY_SYSTEM_CAPACITY cfg then
           ((Some PULLEY, None, Some duration),
            p\<lparr>transport_type := Some PULLEY, transport_assigned_time := Some event_time\<rparr>,
            push (s\<lparr>pulley_in_use := pulley_in_use s + 1\<rparr>)
              (event_time + duration, PULLEY_TRANSPORT_COMPLETE, Some (pid p), Some duration))
         else if acuity p = CRITICAL \<and> available_paid_staff \<noteq> [] then
           (let selected_staff =
                  assign (min_by_busy_until available_paid_staff) event_time duration
                    (''Transport Patient '' @ pid p @ '' to '' @ name_of destination_unit_name)
                    (current_unit p)
            in ((Some PAID_STAFF, Some (sid selected_staff), Some duration),
                p\<lparr>assigned_staff_id := Some (sid selected_staff),
                  transport_assigned_time := Some event_time,
                  transport_type := Some PAID_STAFF\<rparr>,
                push (set_staff s selected_staff)
                  (event_time + duration, STAFF_TRANSPORT_COMPLETE, Some (pid p), Some duration)))
         else if is_volunteer_hours \<and> acuity p \<in> set (VOLUNTEER_ACUITY_ELIGIBILITY cfg)
                 \<and> available_volunteer_staff \<noteq> [] then
           (let selected_staff =
                  assign (min_by_busy_until available_volunteer_staff) event_time duration
                    (''Volunteer Transport Patient '' @ pid p @ '' to ''
                       @ name_of destination_unit_name)
                    (current_unit p)
            in ((Some VOLUNTEER, Some (sid selected_staff), Some duration),
                p\<lparr>assigned_staff_id := Some (sid selected_staff),
                  transport_assigned_time := Some event_time,
                  transport_type := Some VOLUNTEER\<rparr>,
                push (set_staff s selected_staff)
                  (event_time + duration, STAFF_TRANSPORT_COMPLETE, Some (pid p), Some duration)))
         else if available_paid_staff \<noteq> [] then
           (let sorted_paid_staff =
                  sort_key (\<lambda>x. (TRANSPORT_PRIORITY (acuity p), busy_until x)) available_paid_staff;
                selected_staff =
                  assign (hd sorted_paid_staff) event_time duration
                    (''Transport Patient '' @ pid p @ '' to '' @ name_of destination_unit_name)
                    (current_unit p)
            in ((Some PAID_STAFF, Some (sid selected_staff), Some duration),
                p\<lparr>assigned_staff_id := Some (sid selected_staff),
                  transport_assigned_time := Some event_time,
                  transport_type := Some PAID_STAFF\<rparr>,
                push (set_staff s selected_staff)
                  (event_time + duration, STAFF_TRANSPORT_COMPLETE, Some (pid p), Some duration)))
         else ((None, None, None), p, s))"

subsection \<open>\_process\_event: the handlers\<close>

text \<open>
  One definition per branch of the \<^verbatim>\<open>if/elif\<close> chain of \<^verbatim>\<open>_process_event\<close>, named
  after the event type. A handler of a patient event gets the patient object and the
  simulator and returns both, or the exception it raises.
\<close>

text \<open>The block \<^verbatim>\<open>add_ed_boarding_time(event_time - boarding_start_time);
  boarding_start_time = None\<close> under its guard \<^verbatim>\<open>if patient.boarding_start_time\<close>.\<close>

definition record_boarding :: "patient \<Rightarrow> sim \<Rightarrow> real \<Rightarrow> patient \<times> sim" where
  "record_boarding p s event_time =
     (case boarding_start_time p of
        None \<Rightarrow> (p, s)
      | Some b \<Rightarrow>
          if truthy (Some b) then
            (p\<lparr>boarding_start_time := None\<rparr>,
             s\<lparr>metrics := add_ed_boarding_time (metrics s) (event_time - b)\<rparr>)
          else (p, s))"

text \<open>The block \<^verbatim>\<open>if patient.current_unit in self.units and patient.id in
  self.units[patient.current_unit].patients_in_unit: ....discharge_patient(patient, event_time)\<close>.\<close>

definition leave_current_unit :: "patient \<Rightarrow> sim \<Rightarrow> real \<Rightarrow> patient \<times> sim" where
  "leave_current_unit p s event_time =
     (case current_unit p of
        None \<Rightarrow> (p, s)
      | Some cu \<Rightarrow>
          if pid p \<in> set (patients_in_unit (units s cu)) then
            (let (ok, u1, p1) = discharge_patient (units s cu) p event_time
             in (p1, set_unit s cu u1))
          else (p, s))"

text \<open>\<^verbatim>\<open>int(duration * (1 - reduction))\<close> when the AI flag is on.\<close>

definition ai_imaging_duration :: "config \<Rightarrow> sim \<Rightarrow> patient \<Rightarrow> real \<Rightarrow> real" where
  "ai_imaging_duration cfg s p duration =
     (if enable_ai_imaging s then
        (if acuity p = CRITICAL then py_int (duration * (1 - AI_CRITICAL_REDUCTION cfg))
         else py_int (duration * (1 - AI_ROUTINE_PRELIM_REDUCTION cfg)))
      else duration)"

definition ai_discharge_duration :: "config \<Rightarrow> sim \<Rightarrow> real \<Rightarrow> real" where
  "ai_discharge_duration cfg s duration =
     (if enable_ai_staffing s then py_int (duration * (1 - AI_DISCHARGE_REDUCTION cfg))
      else duration)"

definition ev_SCHEDULE_PATIENT_ARRIVAL :: "config \<Rightarrow> draws \<Rightarrow> sim \<Rightarrow> sim" where
  "ev_SCHEDULE_PATIENT_ARRIVAL cfg d s =
     (let new_patient_time = sim_time s + d_expovariate d;
          s1 = (if new_patient_time < total_sim_minutes s
                then push s (new_patient_time, PATIENT_ARRIVAL, None, None) else s)
      in push s1 (sim_time s + TICK_INTERVAL_MINUTES cfg, SCHEDULE_PATIENT_ARRIVAL, None, None))"

definition ev_PATIENT_ARRIVAL :: "config \<Rightarrow> draws \<Rightarrow> sim \<Rightarrow> real \<Rightarrow> sim" where
  "ev_PATIENT_ARRIVAL cfg d s event_time =
     (let new_patient = Patient (d_uuid4 d) (d_choices d) event_time;
          (ed1, p1) = add_patient_to_queue (units s ED) new_patient event_time;
          s1 = set_unit s ED ed1;
          p2 = add_event p1 event_time ''ARRIVED_AT_ED'' (Some ''ED'');
          s2 = (if enable_amenities s1
                then s1\<lparr>metrics := (metrics s1)\<lparr>total_amenities_cost :=
                         total_amenities_cost (metrics s1)
                         + AMENITIES_COST_PER_PATIENT_VISIT cfg\<rparr>\<rparr>
                else s1);
          s3 = push s2 (event_time + real_of_int (d_randint d), ED_TRIAGE_COMPLETE,
                        Some (pid new_patient), None)
      in store s3 (pid new_patient) (p2\<lparr>status := TRIAGING\<rparr>))"

definition ev_ED_TRIAGE_COMPLETE :: "patient \<Rightarrow> sim \<Rightarrow> real \<Rightarrow> error + patient \<times> sim" where
  "ev_ED_TRIAGE_COMPLETE p s event_time =
     (if status p = TRIAGING then
        Inr (add_event (p\<lparr>status := ED_TRIAGE_COMPLETE_STATUS\<rparr>) event_time
               ''ED_TRIAGE_COMPLETE_EVENT'' (Some ''ED''),
             push s (event_time, ASSIGN_ED_BED, Some (pid p), None))
      else Inr (p, s))"

definition ev_ASSIGN_ED_BED ::
  "config \<Rightarrow> draws \<Rightarrow> patient \<Rightarrow> sim \<Rightarrow> real \<Rightarrow> error + patient \<times> sim" where
  "ev_ASSIGN_ED_BED cfg d p s event_time =
     (let ed_unit = units s ED
      in if get_free_bed s (Some ED) \<and> pid p \<notin> set (patients_in_unit ed_unit) then
           (let (ok, ed1, p1) = admit_patient ed_unit p event_time;
                s1 = set_unit s ED ed1;
                p2 = (add_event p1 event_time ''ED_BED_ASSIGNED'' (Some ''ED''))
                       \<lparr>status := ED_IN_BED\<rparr>;
                physician_assessment_duration = real_of_int (d_randint d);
                (free_physician, p3, s2) =
                  find_and_assign_staff p2 s1 PHYSICIAN (Some ED) event_time
                    physician_assessment_duration (''Assess Patient '' @ pid p2)
            in case free_physician of
                 Some ph \<Rightarrow>
                   Inr (p3\<lparr>status := PHYSICIAN_ASSESSMENT\<rparr>,
                        push s2 (busy_until ph, ED_PHYSICIAN_ASSESSMENT_COMPLETE,
                                 Some (pid p3), None))
               | None \<Rightarrow>
                   Inr (add_event (p3\<lparr>status := ED_WAIT_FOR_PHYSICIAN\<rparr>) event_time
                          ''ED_WAIT_FOR_PHYSICIAN'' (Some ''ED''),
                        push s2 (event_time + TICK_INTERVAL_MINUTES cfg, ED_PHYSICIAN_RETRY,
                                 Some (pid p3), None)))
         else
           (let p1 = (if status p \<noteq> ED_WAIT_FOR_BED then
                        add_event (p\<lparr>boarding_start_time := Some event_time,
                                     status := ED_WAIT_FOR_BED\<rparr>) event_time
                          ''ED_WAIT_FOR_BED_QUEUED'' (Some ''ED'')
                      else p)
            in Inr (p1, push s (event_time + TICK_INTERVAL_MINUTES cfg, ASSIGN_ED_BED,
                                Some (pid p1), None))))"

definition ev_ED_PHYSICIAN_RETRY ::
  "config \<Rightarrow> draws \<Rightarrow> patient \<Rightarrow> sim \<Rightarrow> real \<Rightarrow> error + patient \<times> sim" where
  "ev_ED_PHYSICIAN_RETRY cfg d p s event_time =
     (if status p = ED_WAIT_FOR_PHYSICIAN \<and> current_unit p = Some ED then
        (let physician_assessment_duration = real_of_int (d_randint d);
             (free_physician, p1, s1) =
               find_and_assign_staff p s PHYSICIAN (Some ED) event_time
                 physician_assessment_duration (''Assess Patient '' @ pid p)
         in case free_physician of
              Some ph \<Rightarrow>
                Inr (p1\<lparr>status := PHYSICIAN_ASSESSMENT\<rparr>,
                     push s1 (busy_until ph, ED_PHYSICIAN_ASSESSMENT_COMPLETE,
                              Some (pid p1), None))
            | None \<Rightarrow>
                Inr (p1, push s1 (event_time + TICK_INTERVAL_MINUTES cfg, ED_PHYSICIAN_RETRY,
                                  Some (pid p1), None)))
      else Inr (p, s))"

definition ev_ED_PHYSICIAN_ASSESSMENT_COMPLETE ::
  "config \<Rightarrow> draws \<Rightarrow> patient \<Rightarrow> sim \<Rightarrow> real \<Rightarrow> error + patient \<times> sim" where
  "ev_ED_PHYSICIAN_ASSESSMENT_COMPLETE cfg d p s event_time =
     (let (p1, s1) = record_boarding p s event_time;
          p2 = add_event p1 event_time ''ED_PHYSICIAN_ASSESSMENT_COMPLETE_EVENT'' (Some ''ED'');
          p3 = p2\<lparr>needs_imaging := (d_random1 d < 0.3), needs_lab := (d_random2 d < 0.4)\<rparr>
      in if needs_imaging p3 then
           Inr (p3\<lparr>imaging_type := Some (d_choice d),
                   imaging_order_unit_id := current_unit p3,
                   status := IMAGING_PENDING\<rparr>,
                push s1 (event_time, IMAGING_ORDERED, Some (pid p3), None))
         else if needs_lab p3 then
           Inr (p3\<lparr>imaging_order_unit_id := current_unit p3, status := LAB_PENDING\<rparr>,
                push s1 (event_time, LAB_ORDERED, Some (pid p3), None))
         else Inr (determine_patient_disposition cfg (d_random3 d) p3 s1 event_time))"

definition ev_IMAGING_ORDERED :: "patient \<Rightarrow> sim \<Rightarrow> real \<Rightarrow> error + patient \<times> sim" where
  "ev_IMAGING_ORDERED p s event_time =
     (let p1 = add_event p event_time ''IMAGING_ORDERED_EVENT''
                 (map_option name_of (current_unit p))
      in Inr (p1\<lparr>imaging_start_time := Some event_time,
                 transport_request_time := Some event_time,
                 status := TRANSFER_TO_IMAGING_PENDING\<rparr>,
              push s (event_time, TRANSFER_TO_IMAGING, Some (pid p1), None)))"

text \<open>\<^verbatim>\<open>f'IMAGING_{patient.imaging_type}'\<close> as a key of \<^verbatim>\<open>self.units\<close>.\<close>

fun imaging_unit :: "modality option \<Rightarrow> unit_name option" where
  "imaging_unit None = None"
| "imaging_unit (Some CT) = Some IMAGING_CT"
| "imaging_unit (Some MRI) = Some IMAGING_MRI"

definition ev_TRANSFER_TO_IMAGING ::
  "config \<Rightarrow> draws \<Rightarrow> patient \<Rightarrow> sim \<Rightarrow> real \<Rightarrow> error + patient \<times> sim" where
  "ev_TRANSFER_TO_IMAGING cfg d p s event_time =
     (let imaging_unit_name = imaging_unit (imaging_type p);
          no_bed =
            Inr (if status p \<noteq> ED_WAIT_FOR_IMAGING_MACHINE then
                   add_event (p\<lparr>status := ED_WAIT_FOR_IMAGING_MACHINE\<rparr>) event_time
                     ''ED_WAIT_FOR_IMAGING_MACHINE'' (map_option name_of (current_unit p))
                 else p,
                 push s (event_time + TICK_INTERVAL_MINUTES cfg, TRANSFER_TO_IMAGING,
                         Some (pid p), None))
      in case imaging_unit_name of
           None \<Rightarrow> no_bed
         | Some iu \<Rightarrow>
             if \<not> get_free_bed s (Some iu) then no_bed
             else
               (let (res, p1, s1) = request_transport_resource cfg d p s event_time iu
                in if fst res \<noteq> None then
                     (let (p2, s2) = leave_current_unit p1 s1 event_time
                      in Inr (p2\<lparr>current_unit := Some iu, status := IN_TRANSIT_TO_IMAGING\<rparr>, s2))
                   else
                     Inr (if status p1 \<noteq> ED_WAIT_FOR_TRANSPORT_TO_IMAGING then
                            add_event (p1\<lparr>status := ED_WAIT_FOR_TRANSPORT_TO_IMAGING\<rparr>)
                              event_time ''ED_WAIT_FOR_TRANSPORT_TO_IMAGING''
                              (map_option name_of (current_unit p1))
                          else p1,
                          push s1 (event_time + TICK_INTERVAL_MINUTES cfg, TRANSFER_TO_IMAGING,
                                   Some (pid p1), None))))"

text \<open>
  The branch for \<^verbatim>\<open>PULLEY_TRANSPORT_COMPLETE\<close> and \<^verbatim>\<open>STAFF_TRANSPORT_COMPLETE\<close>, in
  three definitions: the bookkeeping at its head (lines 830 to 840), the admission for
  a patient in transit to INPATIENT or CDU (lines 847 to 863), and the branch itself.
  \<open>event_type\<close> tells which of the two events fired and \<open>event_data\<close> is the tuple's last
  component.
\<close>

definition transport_arrival ::
  "event_kind \<Rightarrow> real option \<Rightarrow> patient \<Rightarrow> sim \<Rightarrow> real \<Rightarrow> patient \<times> sim" where
  "transport_arrival event_type event_data p s event_time =
     (let duration_of_transport = (case event_data of Some x \<Rightarrow> x | None \<Rightarrow> 0);
          p1 = add_event p event_time (''ARRIVED_AT_'' @ unit_str (current_unit p))
                 (map_option name_of (current_unit p));
          s1 = s\<lparr>metrics := add_transfer_time_to_admit
                               (add_transport_type_count (metrics s) (transport_type p1))
                               duration_of_transport\<rparr>;
          s2 = (if event_type = PULLEY_TRANSPORT_COMPLETE
                then s1\<lparr>pulley_in_use := pulley_in_use s1 - 1\<rparr> else s1);
          s3 = (case transport_request_time p1 of
                  None \<Rightarrow> s2
                | Some requested \<Rightarrow>
                    (case transport_assigned_time p1 of
                       None \<Rightarrow> s2
                     | Some assigned \<Rightarrow>
                         if transport_type p1 \<noteq> Some PULLEY then
                           s2\<lparr>metrics := add_ed_wait_time_for_transport (metrics s2)
                                            (assigned - requested)\<rparr>
                         else s2))
      in (p1, s3))"

definition admit_on_arrival ::
  "config \<Rightarrow> draws \<Rightarrow> patient \<Rightarrow> sim \<Rightarrow> real \<Rightarrow> error + patient \<times> sim" where
  "admit_on_arrival cfg d p s event_time =
     (case current_unit p of
        None \<Rightarrow> Inl KeyError
      | Some target_unit_name \<Rightarrow>
          (let (ok, tu, p2) = admit_patient (units s target_unit_name) p event_time;
               s4 = set_unit s target_unit_name tu;
               p3 = add_event p2 event_time (''ADMITTED_TO_'' @ name_of target_unit_name)
                      (Some (name_of target_unit_name));
               (p4, s5) = (if current_unit p3 = Some ED
                           then record_boarding p3 s4 event_time else (p3, s4))
           in if target_unit_name = INPATIENT then
                (let stay_duration = real_of_int (d_randint d)
                 in Inr (p4\<lparr>status := INPATIENT_STAY\<rparr>,
                         push (push s5 (event_time + stay_duration,
                                        INPATIENT_PATIENT_CHECK, Some (pid p4), None))
                           (event_time + INPATIENT_CDU_CHECK_INTERVAL cfg,
                            INPATIENT_PATIENT_CHECK, Some (pid p4), None)))
              else if target_unit_name = CDU then
                (let cdu_obs_duration = real_of_int (d_randint d)
                 in Inr (p4\<lparr>status := CDU_OBSERVATION\<rparr>,
                         push s5 (event_time + cdu_obs_duration,
                                  CDU_OBSERVATION_COMPLETE, Some (pid p4), None)))
              else Inr (p4, s5)))"

definition ev_TRANSPORT_COMPLETE ::
  "config \<Rightarrow> draws \<Rightarrow> event_kind \<Rightarrow> real option \<Rightarrow> patient \<Rightarrow> sim \<Rightarrow> real
     \<Rightarrow> error + patient \<times> sim" where
  "ev_TRANSPORT_COMPLETE cfg d event_type event_data p s event_time =
     (let (p1, s3) = transport_arrival event_type event_data p s event_time
      in if status p1 = IN_TRANSIT_TO_IMAGING then
           Inr (p1, push s3 (event_time, IMAGING_STARTED, Some (pid p1), None))
         else if status p1 = IN_TRANSIT_TO_LAB then
           Inr (p1, push s3 (event_time, LAB_STARTED, Some (pid p1), None))
         else if status p1 = IN_TRANSIT_TO_INPATIENT \<or> status p1 = IN_TRANSIT_TO_CDU then
           admit_on_arrival cfg d p1 s3 event_time
         else Inr (p1, s3))"

definition ev_IMAGING_STARTED ::
  "config \<Rightarrow> draws \<Rightarrow> patient \<Rightarrow> sim \<Rightarrow> real \<Rightarrow> error + patient \<times> sim" where
  "ev_IMAGING_STARTED cfg d p s event_time =
     (case imaging_type p of
        None \<Rightarrow> Inl KeyError
      | Some m \<Rightarrow>
          (let imaging_unit_name = current_unit p;
               imaging_duration = ai_imaging_duration cfg s p (real_of_int (d_randint d));
               (imaging_tech, p1, s1) =
                 find_and_assign_staff p s TECH imaging_unit_name event_time imaging_duration
                   (''Perform '' @ modality_str (imaging_type p) @ '' for Patient '' @ pid p)
           in case imaging_tech of
                Some x \<Rightarrow>
                  Inr (p1\<lparr>status := IMAGING_PROCESSING\<rparr>,
                       push s1 (busy_until x, IMAGING_COMPLETE, Some (pid p1), None))
              | None \<Rightarrow>
                  Inr (add_event (p1\<lparr>status := IMAGING_WAIT_FOR_TECH\<rparr>) event_time
                         ''IMAGING_WAIT_FOR_TECH'' (map_option name_of imaging_unit_name),
                       push s1 (event_time + TICK_INTERVAL_MINUTES cfg, IMAGING_STARTED,
                                Some (pid p1), None))))"

definition ev_IMAGING_COMPLETE ::
  "config \<Rightarrow> draws \<Rightarrow> patient \<Rightarrow> sim \<Rightarrow> real \<Rightarrow> error + patient \<times> sim" where
  "ev_IMAGING_COMPLETE cfg d p s event_time =
     (case current_unit p of
        None \<Rightarrow> Inl KeyError
      | Some imaging_unit_name \<Rightarrow>
          (let (ok, u1, p1) = discharge_patient (units s imaging_unit_name) p event_time;
               s1 = set_unit s imaging_unit_name u1;
               p2 = (add_event p1 event_time ''IMAGING_COMPLETE_EVENT''
                       (Some (name_of imaging_unit_name)))\<lparr>status := IMAGING_REPORT_PENDING\<rparr>;
               report_duration = ai_imaging_duration cfg s1 p2 (real_of_int (d_randint d));
               (radiologist, p3, s2) =
                 find_and_assign_staff p2 s1 RADIOLOGIST (Some RADIOLOGY) event_time
                   report_duration
                   (''Report '' @ take 4 (pid p2) @ '' for Patient '' @ pid p2)
           in case radiologist of
                Some x \<Rightarrow>
                  Inr (p3\<lparr>status := IMAGING_REPORTING\<rparr>,
                       push s2 (busy_until x, IMAGING_REPORT_COMPLETE, Some (pid p3), None))
              | None \<Rightarrow>
                  Inr (add_event (p3\<lparr>status := IMAGING_REPORT_WAIT_FOR_RADIOLOGIST\<rparr>)
                         event_time ''IMAGING_REPORT_WAIT_FOR_RADIOLOGIST'' (Some ''RADIOLOGY''),
                       push s2 (event_time + TICK_INTERVAL_MINUTES cfg, IMAGING_REPORT_RETRY,
                                Some (pid p3), None))))"

definition ev_IMAGING_REPORT_RETRY ::
  "config \<Rightarrow> draws \<Rightarrow> patient \<Rightarrow> sim \<Rightarrow> real \<Rightarrow> error + patient \<times> sim" where
  "ev_IMAGING_REPORT_RETRY cfg d p s event_time =
     (if status p = IMAGING_REPORT_WAIT_FOR_RADIOLOGIST then
        (let report_duration = ai_imaging_duration cfg s p (real_of_int (d_randint d));
             (radiologist, p1, s1) =
               find_and_assign_staff p s RADIOLOGIST (Some RADIOLOGY) event_time report_duration
                 (''Report '' @ modality_str (imaging_type p) @ '' for Patient '' @ pid p)
         in case radiologist of
              Some x \<Rightarrow>
                Inr (p1\<lparr>status := IMAGING_REPORTING\<rparr>,
                     push s1 (busy_until x, IMAGING_REPORT_COMPLETE, Some (pid p1), None))
            | None \<Rightarrow>
                Inr (p1, push s1 (event_time + TICK_INTERVAL_MINUTES cfg, IMAGING_REPORT_RETRY,
                                  Some (pid p1), None)))
      else Inr (p, s))"

definition ev_IMAGING_REPORT_COMPLETE ::
  "patient \<Rightarrow> sim \<Rightarrow> real \<Rightarrow> error + patient \<times> sim" where
  "ev_IMAGING_REPORT_COMPLETE p s event_time =
     (let p1 = add_event (p\<lparr>imaging_result_time := Some event_time\<rparr>) event_time
                 ''IMAGING_REPORT_COMPLETE_EVENT'' (map_option name_of (imaging_order_unit_id p))
      in case imaging_start_time p1 of
           None \<Rightarrow> Inl TypeError
         | Some started \<Rightarrow>
             (let tat = event_time - started;
                  m1 = add_overall_imaging_tat (metrics s) tat;
                  m2 = (if acuity p1 = CRITICAL then add_critical_imaging_tat m1 tat else m1);
                  m3 = (if imaging_order_unit_id p1 = Some ED \<or> imaging_order_unit_id p1 = Some CDU
                        then add_ed_cdu_imaging_tat m2 tat else m2)
              in Inr (p1\<lparr>needs_imaging := False,
                         current_unit := imaging_order_unit_id p1,
                         status := DIAGNOSTICS_COMPLETE\<rparr>,
                      push (s\<lparr>metrics := m3\<rparr>)
                        (event_time, RE_EVALUATE_AFTER_DIAGNOSTICS, Some (pid p1), None))))"

definition ev_LAB_ORDERED :: "patient \<Rightarrow> sim \<Rightarrow> real \<Rightarrow> error + patient \<times> sim" where
  "ev_LAB_ORDERED p s event_time =
     (let p1 = add_event p event_time ''LAB_ORDERED_EVENT'' (map_option name_of (current_unit p))
      in Inr (p1\<lparr>lab_start_time := Some event_time,
                 transport_request_time := Some event_time,
                 status := TRANSFER_TO_LAB_PENDING\<rparr>,
              push s (event_time, TRANSFER_TO_LAB, Some (pid p1), None)))"

definition ev_TRANSFER_TO_LAB ::
  "config \<Rightarrow> draws \<Rightarrow> patient \<Rightarrow> sim \<Rightarrow> real \<Rightarrow> error + patient \<times> sim" where
  "ev_TRANSFER_TO_LAB cfg d p s event_time =
     (let lab_unit_name = LAB
      in if \<not> get_free_bed s (Some lab_unit_name) then
           Inr (if status p \<noteq> ED_WAIT_FOR_LAB_CAPACITY then
                  add_event (p\<lparr>status := ED_WAIT_FOR_LAB_CAPACITY\<rparr>) event_time
                    ''ED_WAIT_FOR_LAB_CAPACITY'' (map_option name_of (current_unit p))
                else p,
                push s (event_time + TICK_INTERVAL_MINUTES cfg, TRANSFER_TO_LAB,
                        Some (pid p), None))
         else
           (let (res, p1, s1) = request_transport_resource cfg d p s event_time lab_unit_name
            in if fst res \<noteq> None then
                 (let (p2, s2) = leave_current_unit p1 s1 event_time
                  in Inr (p2\<lparr>current_unit := Some lab_unit_name, status := IN_TRANSIT_TO_LAB\<rparr>,
                          s2))
               else
                 Inr (if status p1 \<noteq> ED_WAIT_FOR_TRANSPORT_TO_LAB then
                        add_event (p1\<lparr>status := ED_WAIT_FOR_TRANSPORT_TO_LAB\<rparr>) event_time
                          ''ED_WAIT_FOR_TRANSPORT_TO_LAB'' (map_option name_of (current_unit p1))
                      else p1,
                      push s1 (event_time + TICK_INTERVAL_MINUTES cfg, TRANSFER_TO_LAB,
                               Some (pid p1), None))))"

definition ev_LAB_STARTED ::
  "config \<Rightarrow> draws \<Rightarrow> patient \<Rightarrow> sim \<Rightarrow> real \<Rightarrow> error + patient \<times> sim" where
  "ev_LAB_STARTED cfg d p s event_time =
     (let lab_duration = real_of_int (d_randint d);
          (lab_tech, p1, s1) =
            find_and_assign_staff p s TECH (Some LAB) event_time lab_duration
              (''Perform Lab for Patient '' @ pid p)
      in case lab_tech of
           Some x \<Rightarrow>
             (let (ok, lab1, p2) = admit_patient (units s1 LAB) p1 event_time
              in Inr (p2\<lparr>status := LAB_PROCESSING\<rparr>,
                      push (set_unit s1 LAB lab1)
                        (busy_until x, LAB_COMPLETE, Some (pid p2), None)))
         | None \<Rightarrow>
             Inr (add_event (p1\<lparr>status := LAB_WAIT_FOR_TECH\<rparr>) event_time
                    ''LAB_WAIT_FOR_TECH'' (Some ''LAB''),
                  push s1 (event_time + TICK_INTERVAL_MINUTES cfg, LAB_STARTED,
                           Some (pid p1), None)))"

definition ev_LAB_COMPLETE :: "patient \<Rightarrow> sim \<Rightarrow> real \<Rightarrow> error + patient \<times> sim" where
  "ev_LAB_COMPLETE p s event_time =
     (let (ok, lab1, p1) = discharge_patient (units s LAB) p event_time;
          s1 = set_unit s LAB lab1;
          p2 = add_event (p1\<lparr>lab_result_time := Some event_time\<rparr>) event_time
                 ''LAB_COMPLETE_EVENT'' (Some ''LAB'')
      in Inr (p2\<lparr>needs_lab := False,
                 current_unit := imaging_order_unit_id p2,
                 status := DIAGNOSTICS_COMPLETE\<rparr>,
              push s1 (event_time, RE_EVALUATE_AFTER_DIAGNOSTICS, Some (pid p2), None)))"

definition ev_RE_EVALUATE_AFTER_DIAGNOSTICS ::
  "config \<Rightarrow> draws \<Rightarrow> patient \<Rightarrow> sim \<Rightarrow> real \<Rightarrow> error + patient \<times> sim" where
  "ev_RE_EVALUATE_AFTER_DIAGNOSTICS cfg d p s event_time =
     (if needs_imaging p then
        Inr (p\<lparr>status := IMAGING_PENDING\<rparr>,
             push s (event_time, IMAGING_ORDERED, Some (pid p), None))
      else if needs_lab p then
        Inr (p\<lparr>status := LAB_PENDING\<rparr>,
             push s (event_time, LAB_ORDERED, Some (pid p), None))
      else Inr (determine_patient_disposition cfg (d_random1 d) p s event_time))"

text \<open>The branch for \<^verbatim>\<open>ADMIT_TO_INPATIENT\<close> and \<^verbatim>\<open>ADMIT_TO_CDU\<close>.\<close>

definition ev_ADMIT ::
  "config \<Rightarrow> draws \<Rightarrow> event_kind \<Rightarrow> patient \<Rightarrow> sim \<Rightarrow> real \<Rightarrow> error + patient \<times> sim" where
  "ev_ADMIT cfg d event_type p s event_time =
     (let target_unit_name = (if event_type = ADMIT_TO_INPATIENT then INPATIENT else CDU)
      in if \<not> get_free_bed s (Some target_unit_name) then
           Inr (if current_unit p = Some ED \<and> status p \<noteq> ED_BOARDING then
                  add_event (p\<lparr>boarding_start_time := Some event_time, status := ED_BOARDING\<rparr>)
                    event_time ''ED_BOARDING'' (Some ''ED'')
                else p,
                push s (event_time + TICK_INTERVAL_MINUTES cfg, event_type, Some (pid p), None))
         else
           (let p0 = p\<lparr>transport_request_time := Some event_time\<rparr>;
                (res, p1, s1) = request_transport_resource cfg d p0 s event_time target_unit_name
            in if fst res \<noteq> None then
                 (let (p2, s2) = leave_current_unit p1 s1 event_time
                  in Inr (p2\<lparr>current_unit := Some target_unit_name,
                             status := (if target_unit_name = INPATIENT
                                        then IN_TRANSIT_TO_INPATIENT else IN_TRANSIT_TO_CDU)\<rparr>,
                          s2))
               else
                 Inr (if current_unit p1 = Some ED \<and> status p1 \<noteq> ED_WAIT_FOR_TRANSPORT then
                        add_event (p1\<lparr>status := ED_WAIT_FOR_TRANSPORT\<rparr>) event_time
                          ''ED_WAIT_FOR_TRANSPORT'' (Some ''ED'')
                      else p1,
                      push s1 (event_time + TICK_INTERVAL_MINUTES cfg, event_type,
                               Some (pid p1), None))))"

definition ev_CDU_OBSERVATION_COMPLETE ::
  "draws \<Rightarrow> patient \<Rightarrow> sim \<Rightarrow> real \<Rightarrow> error + patient \<times> sim" where
  "ev_CDU_OBSERVATION_COMPLETE d p s event_time =
     (if current_unit p = Some CDU then
        (let p1 = add_event p event_time ''CDU_OBSERVATION_COMPLETE_EVENT'' (Some ''CDU'');
             discharge_probability = d_random1 d
         in if discharge_probability < 0.8 then
              Inr (p1\<lparr>status := CDU_DISCHARGE_PENDING\<rparr>,
                   push (s\<lparr>metrics := add_cdu_conversion (metrics s) True\<rparr>)
                     (event_time, DISCHARGE_ORDERED, Some (pid p1), None))
            else
              Inr (p1\<lparr>status := CDU_TO_INPATIENT\<rparr>,
                   push (s\<lparr>metrics := add_cdu_conversion (metrics s) False\<rparr>)
                     (event_time, ADMIT_TO_INPATIENT, Some (pid p1), None)))
      else Inr (p, s))"

definition ev_INPATIENT_PATIENT_CHECK ::
  "config \<Rightarrow> draws \<Rightarrow> patient \<Rightarrow> sim \<Rightarrow> real \<Rightarrow> error + patient \<times> sim" where
  "ev_INPATIENT_PATIENT_CHECK cfg d p s event_time =
     (if current_unit p = Some INPATIENT \<and> status p = INPATIENT_STAY
         \<and> \<not> discharge_requested p then
        (let admit_events =
               filter (\<lambda>e. take 12 (log_type e) = ''ADMITTED_TO_''
                           \<and> log_unit_id e = Some ''INPATIENT'') (events p)
         in case admit_events of
              [] \<Rightarrow> Inr (p, s)
            | e # rest \<Rightarrow>
                (let admit_event_time = log_time e;
                     current_stay_duration = event_time - admit_event_time;
                     min_stay_time = fst (INPATIENT_STAY_TIME cfg (acuity p));
                     (p1, s1) =
                       (if current_stay_duration \<ge> min_stay_time \<and> d_random1 d < 0.85 then
                          (p\<lparr>discharge_requested := True, status := DISCHARGE_PENDING_ORDER\<rparr>,
                           push s (event_time, DISCHARGE_ORDERED, Some (pid p), None))
                        else (p, s))
                 in if \<not> discharge_requested p1 then
                      Inr (p1, push s1 (event_time + INPATIENT_CDU_CHECK_INTERVAL cfg,
                                        INPATIENT_PATIENT_CHECK, Some (pid p1), None))
                    else Inr (p1, s1)))
      else Inr (p, s))"

definition ev_DISCHARGE_ORDERED ::
  "config \<Rightarrow> draws \<Rightarrow> patient \<Rightarrow> sim \<Rightarrow> real \<Rightarrow> error + patient \<times> sim" where
  "ev_DISCHARGE_ORDERED cfg d p s event_time =
     (let p1 = (if \<not> truthy (discharge_order_time p) then
                  (add_event (p\<lparr>discharge_order_time := Some event_time\<rparr>) event_time
                     ''DISCHARGE_ORDERED_EVENT'' (map_option name_of (current_unit p)))
                    \<lparr>status := DISCHARGE_PROCESS\<rparr>
                else p);
          discharge_duration = ai_discharge_duration cfg s (real_of_int (d_randint d));
          (discharge_nurse, p2, s1) =
            find_and_assign_staff p1 s NURSE (current_unit p1) event_time discharge_duration
              (''Discharge Patient '' @ pid p1)
      in case discharge_nurse of
           Some x \<Rightarrow>
             Inr (p2\<lparr>status := DISCHARGE_PROCESSING\<rparr>,
                  push s1 (busy_until x, DISCHARGE_PROCESS_COMPLETE, Some (pid p2), None))
         | None \<Rightarrow>
             Inr (add_event (p2\<lparr>status := DISCHARGE_WAIT_FOR_NURSE\<rparr>) event_time
                    ''DISCHARGE_WAIT_FOR_NURSE'' (map_option name_of (current_unit p2)),
                  push s1 (event_time + TICK_INTERVAL_MINUTES cfg, DISCHARGE_PROCESS_RETRY,
                           Some (pid p2), None)))"

definition ev_DISCHARGE_PROCESS_RETRY ::
  "config \<Rightarrow> draws \<Rightarrow> patient \<Rightarrow> sim \<Rightarrow> real \<Rightarrow> error + patient \<times> sim" where
  "ev_DISCHARGE_PROCESS_RETRY cfg d p s event_time =
     (if status p = DISCHARGE_WAIT_FOR_NURSE then
        (let discharge_duration = ai_discharge_duration cfg s (real_of_int (d_randint d));
             (discharge_nurse, p1, s1) =
               find_and_assign_staff p s NURSE (current_unit p) event_time discharge_duration
                 (''Discharge Patient '' @ pid p)
         in case discharge_nurse of
              Some x \<Rightarrow>
                Inr (p1\<lparr>status := DISCHARGE_PROCESSING\<rparr>,
                     push s1 (busy_until x, DISCHARGE_PROCESS_COMPLETE, Some (pid p1), None))
            | None \<Rightarrow>
                Inr (p1, push s1 (event_time + TICK_INTERVAL_MINUTES cfg,
                                  DISCHARGE_PROCESS_RETRY, Some (pid p1), None)))
      else Inr (p, s))"

definition ev_DISCHARGE_PROCESS_COMPLETE ::
  "patient \<Rightarrow> sim \<Rightarrow> real \<Rightarrow> error + patient \<times> sim" where
  "ev_DISCHARGE_PROCESS_COMPLETE p s event_time =
     (let (p1, s1) = leave_current_unit p s event_time;
          p2 = (add_event (p1\<lparr>actual_discharge_time := Some event_time\<rparr>) event_time
                  ''PATIENT_DISCHARGED_ACTUAL'' (Some ''EXIT''))\<lparr>status := DISCHARGED\<rparr>
      in Inr (p2, s1\<lparr>metrics := add_total_hospital_los (metrics s1)
                                   (event_time - arrival_time p2)\<rparr>))"

definition ev_AI_STAFFING_ADJUSTMENT :: "config \<Rightarrow> sim \<Rightarrow> sim" where
  "ev_AI_STAFFING_ADJUSTMENT cfg s = (if enable_ai_staffing s then adjust_ai_staffing cfg s else s)"

definition ev_CDU_OCCUPANCY_METRIC_CHECK :: "config \<Rightarrow> sim \<Rightarrow> real \<Rightarrow> sim" where
  "ev_CDU_OCCUPANCY_METRIC_CHECK cfg s event_time =
     (if enable_cdu s then
        push (s\<lparr>metrics := add_cdu_occupancy (metrics s) event_time
                             (int (length (patients_in_unit (units s CDU))))\<rparr>)
          (event_time + INPATIENT_CDU_CHECK_INTERVAL cfg, CDU_OCCUPANCY_METRIC_CHECK, None, None)
      else s)"

definition ev_INPATIENT_OCCUPANCY_METRIC_CHECK :: "config \<Rightarrow> sim \<Rightarrow> real \<Rightarrow> sim" where
  "ev_INPATIENT_OCCUPANCY_METRIC_CHECK cfg s event_time =
     push (s\<lparr>metrics := add_inpatient_occupancy (metrics s) event_time
                          (int (length (patients_in_unit (units s INPATIENT))))\<rparr>)
       (event_time + INPATIENT_CDU_CHECK_INTERVAL cfg, INPATIENT_OCCUPANCY_METRIC_CHECK,
        None, None)"

definition ev_PULLEY_UTILIZATION_METRIC_CHECK :: "config \<Rightarrow> sim \<Rightarrow> real \<Rightarrow> sim" where
  "ev_PULLEY_UTILIZATION_METRIC_CHECK cfg s event_time =
     push (s\<lparr>metrics := add_pulley_utilization (metrics s) event_time (pulley_in_use s)\<rparr>)
       (event_time + TICK_INTERVAL_MINUTES cfg, PULLEY_UTILIZATION_METRIC_CHECK, None, None)"

text \<open>The handler of a patient event, chosen by the event type.\<close>

definition patient_event ::
  "config \<Rightarrow> draws \<Rightarrow> event_kind \<Rightarrow> real option \<Rightarrow> patient \<Rightarrow> sim \<Rightarrow> real
     \<Rightarrow> error + patient \<times> sim" where
  "patient_event cfg d event_type event_data p s event_time =
     (case event_type of
        ED_TRIAGE_COMPLETE \<Rightarrow> ev_ED_TRIAGE_COMPLETE p s event_time
      | ASSIGN_ED_BED \<Rightarrow> ev_ASSIGN_ED_BED cfg d p s event_time
      | ED_PHYSICIAN_RETRY \<Rightarrow> ev_ED_PHYSICIAN_RETRY cfg d p s event_time
      | ED_PHYSICIAN_ASSESSMENT_COMPLETE \<Rightarrow>
          ev_ED_PHYSICIAN_ASSESSMENT_COMPLETE cfg d p s event_time
      | IMAGING_ORDERED \<Rightarrow> ev_IMAGING_ORDERED p s event_time
      | TRANSFER_TO_IMAGING \<Rightarrow> ev_TRANSFER_TO_IMAGING cfg d p s event_time
      | PULLEY_TRANSPORT_COMPLETE \<Rightarrow>
          ev_TRANSPORT_COMPLETE cfg d event_type event_data p s event_time
      | STAFF_TRANSPORT_COMPLETE \<Rightarrow>
          ev_TRANSPORT_COMPLETE cfg d event_type event_data p s event_time
      | IMAGING_STARTED \<Rightarrow> ev_IMAGING_STARTED cfg d p s event_time
      | IMAGING_COMPLETE \<Rightarrow> ev_IMAGING_COMPLETE cfg d p s event_time
      | IMAGING_REPORT_RETRY \<Rightarrow> ev_IMAGING_REPORT_RETRY cfg d p s event_time
      | IMAGING_REPORT_COMPLETE \<Rightarrow> ev_IMAGING_REPORT_COMPLETE p s event_time
      | LAB_ORDERED \<Rightarrow> ev_LAB_ORDERED p s event_time
      | TRANSFER_TO_LAB \<Rightarrow> ev_TRANSFER_TO_LAB cfg d p s event_time
      | LAB_STARTED \<Rightarrow> ev_LAB_STARTED cfg d p s event_time
      | LAB_COMPLETE \<Rightarrow> ev_LAB_COMPLETE p s event_time
      | RE_EVALUATE_AFTER_DIAGNOSTICS \<Rightarrow> ev_RE_EVALUATE_AFTER_DIAGNOSTICS cfg d p s event_time
      | ADMIT_TO_INPATIENT \<Rightarrow> ev_ADMIT cfg d event_type p s event_time
      | ADMIT_TO_CDU \<Rightarrow> ev_ADMIT cfg d event_type p s event_time
      | CDU_OBSERVATION_COMPLETE \<Rightarrow> ev_CDU_OBSERVATION_COMPLETE d p s event_time
      | INPATIENT_PATIENT_CHECK \<Rightarrow> ev_INPATIENT_PATIENT_CHECK cfg d p s event_time
      | DISCHARGE_ORDERED \<Rightarrow> ev_DISCHARGE_ORDERED cfg d p s event_time
      | DISCHARGE_PROCESS_RETRY \<Rightarrow> ev_DISCHARGE_PROCESS_RETRY cfg d p s event_time
      | DISCHARGE_PROCESS_COMPLETE \<Rightarrow> ev_DISCHARGE_PROCESS_COMPLETE p s event_time
      | _ \<Rightarrow> Inr (p, s))"

text \<open>
  \<^verbatim>\<open>_process_event\<close>. \<^verbatim>\<open>self.patients.get(patient_id)\<close> is \<^verbatim>\<open>None\<close> for an id that is no
  key, and then the two handlers that test \<^verbatim>\<open>if patient and ...\<close> do nothing and every other
  patient handler raises \<^verbatim>\<open>AttributeError\<close> on its first attribute access.
\<close>

definition process_event ::
  "config \<Rightarrow> draws \<Rightarrow> sim \<Rightarrow> real \<Rightarrow> event_kind \<Rightarrow> string option \<Rightarrow> real option
     \<Rightarrow> error + sim" where
  "process_event cfg d s event_time event_type patient_id event_data =
     (let s0 = s\<lparr>sim_time := event_time\<rparr>
      in case event_type of
           SCHEDULE_PATIENT_ARRIVAL \<Rightarrow> Inr (ev_SCHEDULE_PATIENT_ARRIVAL cfg d s0)
         | PATIENT_ARRIVAL \<Rightarrow> Inr (ev_PATIENT_ARRIVAL cfg d s0 event_time)
         | AI_STAFFING_ADJUSTMENT \<Rightarrow> Inr (ev_AI_STAFFING_ADJUSTMENT cfg s0)
         | CDU_OCCUPANCY_METRIC_CHECK \<Rightarrow> Inr (ev_CDU_OCCUPANCY_METRIC_CHECK cfg s0 event_time)
         | INPATIENT_OCCUPANCY_METRIC_CHECK \<Rightarrow>
             Inr (ev_INPATIENT_OCCUPANCY_METRIC_CHECK cfg s0 event_time)
         | PULLEY_UTILIZATION_METRIC_CHECK \<Rightarrow>
             Inr (ev_PULLEY_UTILIZATION_METRIC_CHECK cfg s0 event_time)
         | _ \<Rightarrow>
             (case (case patient_id of None \<Rightarrow> None | Some k \<Rightarrow> map_option (Pair k) (patients s0 k)) of
                None \<Rightarrow>
                  if event_type = CDU_OBSERVATION_COMPLETE \<or> event_type = INPATIENT_PATIENT_CHECK
                  then Inr s0 else Inl AttributeError
              | Some (k, p) \<Rightarrow>
                  (case patient_event cfg d event_type event_data p s0 event_time of
                     Inl e \<Rightarrow> Inl e
                   | Inr (p1, s1) \<Rightarrow> Inr (store s1 k p1))))"

subsection \<open>Construction and the run loop\<close>

text \<open>\<^verbatim>\<open>_initialize_units\<close>: one \<^verbatim>\<open>Unit\<close> per key of \<^verbatim>\<open>UNIT_CAPACITY\<close>.\<close>

definition staff_config_of :: "config \<Rightarrow> unit_name \<Rightarrow> (staff_type \<times> nat) list" where
  "staff_config_of cfg u = (case map_of (STAFF_PER_UNIT cfg) u of None \<Rightarrow> [] | Some c \<Rightarrow> c)"

definition initialize_units :: "config \<Rightarrow> bool \<Rightarrow> unit_name \<Rightarrow> hospital_unit" where
  "initialize_units cfg cdu_enabled =
     (\<lambda>u. if u = CDU then
            (if cdu_enabled then Unit u (CDU_BEDS cfg) (staff_config_of cfg u)
             else Unit u 0 (staff_config_of cfg u))
          else Unit u (UNIT_CAPACITY cfg u) (staff_config_of cfg u))"

text \<open>\<^verbatim>\<open>_initialize_staff\<close>: the innermost loop body creates one staff member, adds it to
  \<^verbatim>\<open>all_staff\<close> and, for rostered staff, to the roster of its unit.\<close>

definition new_staff :: "staff_type \<Rightarrow> unit_name option \<Rightarrow> sim \<Rightarrow> sim" where
  "new_staff ty rostered s =
     (let st = Staff ty (length (all_staff s));
          s1 = s\<lparr>all_staff := all_staff s @ [st]\<rparr>
      in case rostered of
           None \<Rightarrow> s1
         | Some u \<Rightarrow>
             (let un = units s1 u;
                  ids = (case staff_assigned un ty of None \<Rightarrow> [] | Some xs \<Rightarrow> xs)
              in set_unit s1 u (un\<lparr>staff_assigned := (staff_assigned un)(ty \<mapsto> ids @ [sid st])\<rparr>)))"

fun new_staff_n :: "nat \<Rightarrow> staff_type \<Rightarrow> unit_name option \<Rightarrow> sim \<Rightarrow> sim" where
  "new_staff_n 0 ty rostered s = s"
| "new_staff_n (Suc n) ty rostered s = new_staff_n n ty rostered (new_staff ty rostered s)"

fun staff_for_unit :: "unit_name \<Rightarrow> (staff_type \<times> nat) list \<Rightarrow> sim \<Rightarrow> sim" where
  "staff_for_unit u [] s = s"
| "staff_for_unit u ((ty, n) # rest) s = staff_for_unit u rest (new_staff_n n ty (Some u) s)"

fun staff_for_units :: "(unit_name \<times> (staff_type \<times> nat) list) list \<Rightarrow> sim \<Rightarrow> sim" where
  "staff_for_units [] s = s"
| "staff_for_units ((u, c) # rest) s = staff_for_units rest (staff_for_unit u c s)"

definition initialize_staff :: "config \<Rightarrow> sim \<Rightarrow> sim" where
  "initialize_staff cfg s =
     new_staff_n (VOLUNTEER_TRANSPORT_STAFF cfg) VOLUNTEER_TRANSPORT None
       (new_staff_n (TRANSPORT_STAFF cfg) TRANSPORT None
          (staff_for_units (STAFF_PER_UNIT cfg) s))"

text \<open>\<^verbatim>\<open>HospitalSimulator.__init__\<close>.\<close>

definition HospitalSimulator :: "config \<Rightarrow> bool \<Rightarrow> bool \<Rightarrow> bool \<Rightarrow> bool \<Rightarrow> bool \<Rightarrow> sim" where
  "HospitalSimulator cfg cdu ai_imaging ai_staffing amenities ai_entertainment =
     initialize_staff cfg
       \<lparr> sim_time = SIM_START_TIME cfg,
         total_sim_minutes = SIM_END_TIME cfg,
         patients = Map.empty,
         event_queue = [],
         units = initialize_units cfg cdu,
         all_staff = [],
         metrics = MetricsTracker,
         enable_cdu = cdu,
         enable_ai_imaging = ai_imaging,
         enable_ai_staffing = ai_staffing,
         enable_amenities = amenities,
         enable_ai_entertainment = ai_entertainment,
         ai_staffing_next_adjustment_time = AI_STAFFING_ADJUSTMENT_INTERVAL_MINUTES cfg,
         pulley_in_use = 0 \<rparr>"

text \<open>The four pushes at the head of \<^verbatim>\<open>run\<close>.\<close>

definition run_seed :: "config \<Rightarrow> sim \<Rightarrow> sim" where
  "run_seed cfg s =
     (let s1 = push s (sim_time s, SCHEDULE_PATIENT_ARRIVAL, None, None);
          s2 = (if enable_cdu s1
                then push s1 (sim_time s1 + TICK_INTERVAL_MINUTES cfg,
                              CDU_OCCUPANCY_METRIC_CHECK, None, None)
                else s1);
          s3 = push s2 (sim_time s2 + TICK_INTERVAL_MINUTES cfg,
                        INPATIENT_OCCUPANCY_METRIC_CHECK, None, None)
      in push s3 (sim_time s3 + TICK_INTERVAL_MINUTES cfg,
                  PULLEY_UTILIZATION_METRIC_CHECK, None, None))"

text \<open>One iteration of the \<^verbatim>\<open>while\<close> loop of \<^verbatim>\<open>run\<close>, entered with a non-empty queue.\<close>

definition loop_body :: "config \<Rightarrow> draws \<Rightarrow> sim \<Rightarrow> error + sim" where
  "loop_body cfg d s =
     (case heappop (event_queue s) of
        None \<Rightarrow> Inl IndexError
      | Some ((event_time, event_type, patient_id, event_data), rest) \<Rightarrow>
          (let s1 = s\<lparr>event_queue := rest\<rparr>
           in if event_time > total_sim_minutes s1 then Inr s1
              else process_event cfg d (s1\<lparr>sim_time := event_time\<rparr>)
                     event_time event_type patient_id event_data))"

text \<open>
  The loop itself, driven by the list of the oracle's draws, one per iteration: the
  result is the simulator at the event boundary reached when the draws are used up, or
  when the loop's condition fails, or the exception that ended the run.
\<close>

fun run_loop :: "config \<Rightarrow> draws list \<Rightarrow> sim \<Rightarrow> error + sim" where
  "run_loop cfg [] s = Inr s"
| "run_loop cfg (d # ds) s =
     (if event_queue s \<noteq> [] \<and> sim_time s < total_sim_minutes s then
        (case loop_body cfg d s of
           Inl e \<Rightarrow> Inl e
         | Inr s1 \<Rightarrow> run_loop cfg ds s1)
      else Inr s)"

text \<open>The code of \<^verbatim>\<open>run\<close> after the loop.\<close>

definition run_finish :: "config \<Rightarrow> sim \<Rightarrow> sim" where
  "run_finish cfg s =
     (let s1 = s\<lparr>all_staff := map (\<lambda>x. accrue_remaining_cost x (total_sim_minutes s + 1))
                                (all_staff s)\<rparr>
      in if enable_ai_entertainment s1 then
           s1\<lparr>metrics := (metrics s1)\<lparr>total_ai_entertainment_cost :=
                (SIM_DAYS cfg / 30.0) * AI_ENTERTAINMENT_MONTHLY_COST cfg\<rparr>\<rparr>
         else s1)"

subsection \<open>The specification's formulas and the drivers of the theorems\<close>

text \<open>A staff member's life: a sequence of \<^verbatim>\<open>assign\<close> calls (time, duration, details,
  unit), each made when the member is free, as \<^verbatim>\<open>_find_and_assign_staff\<close> and
  \<^verbatim>\<open>_request_transport_resource\<close> make them.\<close>

type_synonym assignment = "real \<times> real \<times> string \<times> unit_name option"

fun assign_all :: "staff \<Rightarrow> assignment list \<Rightarrow> staff" where
  "assign_all s [] = s"
| "assign_all s ((t, dur, details, un) # cs) = assign_all (assign s t dur details un) cs"

fun free_at_each :: "staff \<Rightarrow> assignment list \<Rightarrow> bool" where
  "free_at_each s [] = True"
| "free_at_each s ((t, dur, details, un) # cs) =
     (is_free s t \<and> free_at_each (assign s t dur details un) cs)"

text \<open>The durations the two accrual methods charge: the full duration of every
  assignment but the last, and of the last the part before \<open>final\<close>.\<close>

fun completed_durations :: "real \<Rightarrow> assignment list \<Rightarrow> real" where
  "completed_durations final [] = 0"
| "completed_durations final [(t, dur, details, un)] = max 0 (min final (t + dur) - t)"
| "completed_durations final ((t, dur, details, un) # c # cs) =
     max 0 dur + completed_durations final (c # cs)"

text \<open>The satisfaction score in the specification's words.\<close>

definition spec_satisfaction_score :: "real \<Rightarrow> bool \<Rightarrow> bool \<Rightarrow> real" where
  "spec_satisfaction_score L amenities entertainment =
     max 1 (min 100
       ((if L \<le> 30 then 100 else if L \<ge> 480 then 1 else 100 - ((L - 30) / 450) * 99)
        + (if amenities then 10 else 0) + (if entertainment then 15 else 0)))"

text \<open>The time-weighted average in the specification's words, for a series of at
  least two points \<open>(t\<^sub>i, c\<^sub>i)\<close>, \<open>i < n\<close>, and the utilisation percentage.\<close>

definition spec_weighted_average :: "real \<Rightarrow> (real \<times> int) list \<Rightarrow> real" where
  "spec_weighted_average H xs =
     (1 / H) * ((\<Sum>i = 1..<length xs. real_of_int (snd (xs ! (i - 1)))
                                        * (fst (xs ! i) - fst (xs ! (i - 1))))
                + real_of_int (snd (xs ! (length xs - 1))) * (H - fst (xs ! (length xs - 1))))"

definition spec_utilization :: "real \<Rightarrow> int \<Rightarrow> real" where
  "spec_utilization average cap = (if cap > 0 then 100 * average / real_of_int cap else 0)"

text \<open>The disposition routine run again and again for one patient, each time with its
  own draw and event time.\<close>

fun dispositions :: "config \<Rightarrow> (real \<times> real) list \<Rightarrow> patient \<times> sim \<Rightarrow> patient \<times> sim" where
  "dispositions cfg [] ps = ps"
| "dispositions cfg ((u, t) # rest) ps =
     dispositions cfg rest (determine_patient_disposition cfg u (fst ps) (snd ps) t)"

text \<open>What is still to be charged for the assignment a staff member holds, given the
  calls to come: the next \<^verbatim>\<open>assign\<close> charges it in full, the end of the run up to
  \<open>final\<close>.\<close>

definition pending :: "staff \<Rightarrow> assignment list \<Rightarrow> real \<Rightarrow> real" where
  "pending s cs final =
     (case last_assignment_start_time s of None \<Rightarrow> 0
      | Some st \<Rightarrow> if cs = [] then max 0 (min final (busy_until s) - st)
                   else max 0 (busy_until s - st))"

text \<open>The tuple of an event as a value of a linear order (lexicographic on the
  components), to reason about \<open>event_lt\<close>.\<close>

fun opt_list :: "'a option \<Rightarrow> 'a list" where
  "opt_list None = []"
| "opt_list (Some x) = [x]"

fun event_key :: "event \<Rightarrow> real \<times> string \<times> string list \<times> real list" where
  "event_key (t, k, p, d) = (t, kind_name k, opt_list p, opt_list d)"

text \<open>The conditions of the transport broker's chain, in the specification's words.\<close>

definition pulley_viable :: "config \<Rightarrow> patient \<Rightarrow> sim \<Rightarrow> unit_name \<Rightarrow> bool" where
  "pulley_viable cfg p s destination \<longleftrightarrow>
     current_unit p \<in> Some ` set (PULLEY_ELIGIBLE_UNITS cfg)
     \<and> destination \<in> set (PULLEY_ELIGIBLE_DESTINATIONS cfg)
     \<and> pulley_in_use s < PULLEY_SYSTEM_CAPACITY cfg"

definition free_staff :: "sim \<Rightarrow> staff_type \<Rightarrow> real \<Rightarrow> staff set" where
  "free_staff s ty now = {x \<in> set (all_staff s). stype x = ty \<and> is_free x now}"

definition volunteer_window :: "config \<Rightarrow> real \<Rightarrow> bool" where
  "volunteer_window cfg now \<longleftrightarrow>
     VOLUNTEER_HOURS_START cfg \<le> py_mod now 1440 \<and> py_mod now 1440 < VOLUNTEER_HOURS_END cfg"

text \<open>The request was granted with transport type \<open>tt\<close> and a staff member of \<open>S\<close>.\<close>

definition granted_by :: "transport_result \<Rightarrow> transport_type \<Rightarrow> staff set \<Rightarrow> bool" where
  "granted_by r tt S \<longleftrightarrow> fst r = Some tt \<and> (\<exists>x \<in> S. fst (snd r) = Some (sid x))"

text \<open>The invariants of the run: no unit holds more patients than its capacity; the
  pulley counter covers the pending pulley arrivals and stays within its capacity.\<close>

definition within_capacity :: "sim \<Rightarrow> bool" where
  "within_capacity s \<longleftrightarrow>
     (\<forall>u. int (length (patients_in_unit (units s u))) \<le> capacity (units s u))"

definition pulley_arrivals_pending :: "event list \<Rightarrow> int" where
  "pulley_arrivals_pending q =
     int (length (filter (\<lambda>e. fst (snd e) = PULLEY_TRANSPORT_COMPLETE) q))"

definition pulley_within_capacity :: "config \<Rightarrow> sim \<Rightarrow> bool" where
  "pulley_within_capacity cfg s \<longleftrightarrow>
     0 \<le> pulley_in_use s \<and> pulley_in_use s \<le> PULLEY_SYSTEM_CAPACITY cfg
     \<and> pulley_arrivals_pending (event_queue s) \<le> pulley_in_use s"

text \<open>
  A small state for the examples: the base configuration, one paid porter busy until
  minute 1000, one free volunteer, and the URGENT\_OBS patient p1 in an ED bed, at 9:00
  of the first day.
\<close>

definition example_draws :: draws where
  "example_draws = \<lparr> d_expovariate = 2.5, d_randint = 20, d_random1 = 0.5, d_random2 = 0.5,
     d_random3 = 0.5, d_choice = CT, d_choices = URGENT_OBS, d_uuid4 = ''p2'' \<rparr>"

definition example_patient :: patient where
  "example_patient = (Patient ''p1'' URGENT_OBS 500)\<lparr>status := ADMIT_INPATIENT_PENDING\<rparr>"

definition example_sim :: sim where
  "example_sim =
     \<lparr> sim_time = 540,
       total_sim_minutes = SIM_END_TIME Config,
       patients = [''p1'' \<mapsto> example_patient],
       event_queue = [],
       units = (initialize_units Config False)
                 (ED := (initialize_units Config False ED)\<lparr>patients_in_unit := [''p1'']\<rparr>),
       all_staff = [(Staff TRANSPORT 0)\<lparr>busy_until := 1000\<rparr>, Staff VOLUNTEER_TRANSPORT 1],
       metrics = MetricsTracker,
       enable_cdu = False,
       enable_ai_imaging = False,
       enable_ai_staffing = False,
       enable_amenities = False,
       enable_ai_entertainment = False,
       ai_staffing_next_adjustment_time = 60,
       pulley_in_use = 0 \<rparr>"

text \<open>The same state with the patient boarding in the ED since minute 510, as the
  \<^verbatim>\<open>ADMIT_TO_INPATIENT\<close> handler leaves a patient for whom no bed was free.\<close>

definition boarded_sim :: sim where
  "boarded_sim = example_sim\<lparr>patients :=
     [''p1'' \<mapsto> example_patient\<lparr>boarding_start_time := Some 510, status := ED_BOARDING\<rparr>]\<rparr>"

text \<open>The free staff of a type in the order of \<^verbatim>\<open>all_staff\<close>, and the outcome of a
  transport by the staff member \<open>selected\<close>, as the three staff branches of
  \<^verbatim>\<open>_request_transport_resource\<close> build it.\<close>

definition available_staff :: "sim \<Rightarrow> staff_type \<Rightarrow> real \<Rightarrow> staff list" where
  "available_staff s ty now =
     filter (\<lambda>x. is_free x now) (filter (\<lambda>x. stype x = ty) (all_staff s))"

definition staff_transport ::
  "patient \<Rightarrow> sim \<Rightarrow> real \<Rightarrow> real \<Rightarrow> transport_type \<Rightarrow> staff
     \<Rightarrow> transport_result \<times> patient \<times> sim" where
  "staff_transport p s now dur tt selected =
     ((Some tt, Some (sid selected), Some dur),
      p\<lparr>assigned_staff_id := Some (sid selected), transport_assigned_time := Some now,
        transport_type := Some tt\<rparr>,
      push (set_staff s selected) (now + dur, STAFF_TRANSPORT_COMPLETE, Some (pid p), Some dur))"

text \<open>Devices of the invariant proofs: the capacity bound as a property of the unit
  table, and a property of the simulator a handler returns.\<close>

definition units_ok :: "(unit_name \<Rightarrow> hospital_unit) \<Rightarrow> bool" where
  "units_ok U \<longleftrightarrow> (\<forall>u. int (length (patients_in_unit (U u))) \<le> capacity (U u))"

definition on_result :: "(sim \<Rightarrow> bool) \<Rightarrow> error + patient \<times> sim \<Rightarrow> bool" where
  "on_result P r = (case r of Inl e \<Rightarrow> True | Inr ps \<Rightarrow> P (snd ps))"

text \<open>What one handler may do to the two invariants: it keeps the capacity bound of the
  units, lowers the slack between the pulley counter and the pending pulley arrivals by
  \<open>k\<close>, and raises the counter only within the pulley's capacity.\<close>

definition step_ok :: "config \<Rightarrow> int \<Rightarrow> sim \<Rightarrow> sim \<Rightarrow> bool" where
  "step_ok cfg k s s' \<longleftrightarrow>
     (units_ok (units s) \<longrightarrow> units_ok (units s'))
     \<and> pulley_in_use s' - pulley_arrivals_pending (event_queue s')
         = pulley_in_use s - pulley_arrivals_pending (event_queue s) - k
     \<and> (pulley_in_use s' \<le> pulley_in_use s
        \<or> pulley_in_use s' \<le> PULLEY_SYSTEM_CAPACITY cfg)"

text \<open>The beds, the pulley counter, the queue, the clock and the patients are the same
  in two simulators (the staff may differ).\<close>

definition same_beds :: "sim \<Rightarrow> sim \<Rightarrow> bool" where
  "same_beds s s' \<longleftrightarrow>
     (\<forall>u. patients_in_unit (units s' u) = patients_in_unit (units s u)
          \<and> capacity (units s' u) = capacity (units s u))
     \<and> pulley_in_use s' = pulley_in_use s \<and> event_queue s' = event_queue s
     \<and> sim_time s' = sim_time s \<and> total_sim_minutes s' = total_sim_minutes s
     \<and> enable_cdu s' = enable_cdu s \<and> patients s' = patients s"

text \<open>
  A run small enough to follow by hand: the Enhanced configuration of Bellevue (pulley
  capacity 2) with an ED of one bed, one ED physician and one porter, all five options
  on, seeded by \<^verbatim>\<open>run\<close>. \<open>base_draws\<close> are the draws of an iteration unless said
  otherwise: the next arrival 50 minutes ahead, a triage of 10 minutes, a NON\_URGENT
  patient p1 who needs a CT.
\<close>

definition one_bed_config :: config where
  "one_bed_config = BellevueEnhancedConfig\<lparr>
     UNIT_CAPACITY := (UNIT_CAPACITY BellevueEnhancedConfig)(ED := 1),
     STAFF_PER_UNIT := [(ED, [(PHYSICIAN, 1)])],
     TRANSPORT_STAFF := 1,
     VOLUNTEER_TRANSPORT_STAFF := 0\<rparr>"

definition one_bed_seed :: sim where
  "one_bed_seed =
     run_seed one_bed_config (HospitalSimulator one_bed_config True True True True True)"

definition base_draws :: draws where
  "base_draws = \<lparr> d_expovariate = 50, d_randint = 10, d_random1 = 0.1, d_random2 = 0.5,
     d_random3 = 0.5, d_choice = CT, d_choices = NON_URGENT, d_uuid4 = ''p1'' \<rparr>"

text \<open>
  Fifteen iterations: p1 arrives at minute 1 and p2 at minute 6; p1 is triaged at 11 and
  gets the ED bed (assessment of 15 minutes); p2 is triaged at 16 and finds the ED full.
\<close>

definition admission_draws :: "draws list" where
  "admission_draws =
     [base_draws\<lparr>d_expovariate := 1\<rparr>, base_draws, base_draws, base_draws, base_draws,
      base_draws\<lparr>d_expovariate := 1\<rparr>, base_draws\<lparr>d_uuid4 := ''p2''\<rparr>, base_draws,
      base_draws, base_draws, base_draws\<lparr>d_randint := 15\<rparr>, base_draws, base_draws,
      base_draws, base_draws]"

text \<open>
  Nineteen iterations: p1 arrives at minute 1, gets the ED bed at 11, is assessed until
  26, needs a CT and is sent there by the pulley, a transport of 7 minutes.
\<close>

definition pulley_draws :: "draws list" where
  "pulley_draws =
     base_draws\<lparr>d_expovariate := 1\<rparr> # replicate 8 base_draws
     @ base_draws\<lparr>d_randint := 15\<rparr> # replicate 8 base_draws
     @ [base_draws\<lparr>d_randint := 7\<rparr>]"

section \<open>Theorems\<close>

subsection \<open>The order of dispatch\<close>

lemma opt_lt_iff: "opt_lt a b \<longleftrightarrow> opt_list a < opt_list b"
  by (cases a; cases b) auto

lemma opt_list_inj: "opt_list a = opt_list b \<longleftrightarrow> a = b"
  by (cases a; cases b) auto

lemma kind_name_inj: "kind_name a = kind_name b \<longleftrightarrow> a = b"
  by (cases a; cases b) simp_all

lemma event_key_inj: "event_key a = event_key b \<longleftrightarrow> a = b"
  by (cases a; cases b) (auto simp: opt_list_inj kind_name_inj)

lemma opt_list_strict: "opt_list (a :: 'a :: linorder option) \<le> opt_list b \<Longrightarrow> a \<noteq> b \<Longrightarrow> opt_list a < opt_list b"
  by (auto simp: order.strict_iff_order opt_list_inj)

lemma opt_lt_irrefl: "\<not> opt_lt a a"
  by (simp add: opt_lt_iff)

lemma event_lt_key: "event_lt a b \<longleftrightarrow> event_key a < event_key b"
  by (cases a; cases b) (auto simp: opt_lt_iff opt_list_inj intro: opt_list_strict)

lemma heap_least_in: "heap_least m es \<in> set (m # es)"
  by (induction es arbitrary: m) (auto split: if_splits)

lemma heap_least_le: "e \<in> set (m # es) \<Longrightarrow> event_key (heap_least m es) \<le> event_key e"
proof (induction es arbitrary: m e)
  case Nil
  then show ?case by simp
next
  case (Cons x es)
  have step: "event_key (heap_least m' es) \<le> event_key m'" for m'
    by (rule Cons.IH) simp
  show ?case
  proof (cases "event_lt x m")
    case True
    then have lt: "event_key x < event_key m" by (simp add: event_lt_key)
    from Cons.prems consider "e = m" | "e = x" | "e \<in> set es" by auto
    then show ?thesis
    proof cases
      case 1
      with step [of x] lt True show ?thesis by simp
    next
      case 2
      with step [of x] True show ?thesis by simp
    next
      case 3
      then have "event_key (heap_least x es) \<le> event_key e" by (intro Cons.IH) simp
      with True show ?thesis by simp
    qed
  next
    case False
    then have ge: "event_key m \<le> event_key x" by (simp add: event_lt_key)
    from Cons.prems consider "e = m" | "e = x" | "e \<in> set es" by auto
    then show ?thesis
    proof cases
      case 1
      with step [of m] False show ?thesis by simp
    next
      case 2
      with step [of m] ge False show ?thesis by simp
    next
      case 3
      then have "event_key (heap_least m es) \<le> event_key e" by (intro Cons.IH) simp
      with False show ?thesis by simp
    qed
  qed
qed

lemma heappop_least:
  assumes "heappop h = Some (m, rest)"
  shows "m \<in> set h" and "rest = remove1 m h" and "e \<in> set h \<Longrightarrow> event_key m \<le> event_key e"
proof -
  from assms obtain x xs where h: "h = x # xs" and m: "m = heap_least x xs"
    and r: "rest = remove1 m h"
    by (auto simp: heappop_def Let_def split: list.splits)
  show "m \<in> set h" using heap_least_in [of x xs] h m by simp
  show "rest = remove1 m h" by (rule r)
  show "event_key m \<le> event_key e" if "e \<in> set h"
    using heap_least_le [of e x xs] that h m by simp
qed

text \<open>
  Claim C2, as amended. The heap holds the bare tuples \<^verbatim>\<open>(fire_time, event_type, patient_id,
  event_data)\<close> and no sequence number, so the event that \<^verbatim>\<open>heappop\<close> hands to the dispatcher
  is a least tuple of the queue: no pending event is smaller, and among the pending
  events with the same fire time the one dispatched has the least event type text and,
  for the same event type, the least patient id. The order of insertion plays no part.
\<close>

theorem C2_ties_by_tuple_order:
  assumes "heappop h = Some (m, rest)"
  shows "m \<in> set h \<and> rest = remove1 m h
       \<and> (\<forall>e \<in> set h. \<not> event_lt e m)
       \<and> (\<forall>e \<in> set h. fst e = fst m \<longrightarrow>
             kind_name (fst (snd m)) < kind_name (fst (snd e))
             \<or> (fst (snd m) = fst (snd e)
                \<and> \<not> opt_lt (fst (snd (snd e))) (fst (snd (snd m)))))"
proof -
  have le: "event_key m \<le> event_key e" if "e \<in> set h" for e
    using heappop_least(3) [OF assms that] .
  have a: "\<forall>e \<in> set h. \<not> event_lt e m"
    using le by (simp add: event_lt_key not_less)
  have b: "kind_name (fst (snd m)) < kind_name (fst (snd e))
             \<or> (fst (snd m) = fst (snd e)
                \<and> \<not> opt_lt (fst (snd (snd e))) (fst (snd (snd m))))"
    if "e \<in> set h" and "fst e = fst m" for e
  proof -
    from a that have "\<not> event_lt e m" by blast
    with that(2) show ?thesis
      by (cases e; cases m)
         (auto simp: kind_name_inj opt_lt_irrefl not_less_iff_gr_or_eq split: if_splits)
  qed
  from heappop_least(1,2) [OF assms] a b show ?thesis by blast
qed

text \<open>The theorem at a queue of two simultaneous events.\<close>

theorem C2_ties_by_tuple_order_witness:
  "(100, ADMIT_TO_INPATIENT, Some ''b'', None)
     \<in> set [(100, DISCHARGE_ORDERED, Some ''a'', None), (100, ADMIT_TO_INPATIENT, Some ''b'', None)]
   \<and> \<not> event_lt (100, DISCHARGE_ORDERED, Some ''a'', None)
                  (100, ADMIT_TO_INPATIENT, Some ''b'', None)"
  using C2_ties_by_tuple_order [of
      "[(100, DISCHARGE_ORDERED, Some ''a'', None), (100, ADMIT_TO_INPATIENT, Some ''b'', None)]"
      "(100, ADMIT_TO_INPATIENT, Some ''b'', None)"
      "[(100, DISCHARGE_ORDERED, Some ''a'', None)]"]
  by (simp add: heappop_def)

text \<open>
  Claim C2 as stated fails: \<^verbatim>\<open>DISCHARGE_ORDERED\<close> for patient a is pushed first and
  \<^verbatim>\<open>ADMIT_TO_INPATIENT\<close> for patient b second, both for minute 100, and the second is
  popped first.
\<close>

theorem C2_insertion_order_not_kept:
  "heappop (heappush (heappush [] (100, DISCHARGE_ORDERED, Some ''a'', None))
                      (100, ADMIT_TO_INPATIENT, Some ''b'', None))
   = Some ((100, ADMIT_TO_INPATIENT, Some ''b'', None),
           [(100, DISCHARGE_ORDERED, Some ''a'', None)])"
  by (simp add: heappop_def heappush_def)

subsection \<open>Staff cost\<close>

lemma assign_when_free_normal:
  "is_free s t \<Longrightarrow>
   total_normal_cost (assign s t dur details un) =
     total_normal_cost s + (1 - 0.20) * cost_per_minute (stype s) *
       (case last_assignment_start_time s of None \<Rightarrow> 0 | Some st \<Rightarrow> max 0 (busy_until s - st))"
  by (auto simp: assign_def accrue_cost_for_completed_task_def add_cost_def is_free_def Let_def
      split: option.splits)

lemma assign_when_free_overtime:
  "is_free s t \<Longrightarrow>
   total_overtime_cost (assign s t dur details un) =
     total_overtime_cost s + 0.20 * cost_per_minute (stype s) *
       (case last_assignment_start_time s of None \<Rightarrow> 0 | Some st \<Rightarrow> max 0 (busy_until s - st)) * 1.5"
  by (auto simp: assign_def accrue_cost_for_completed_task_def add_cost_def is_free_def Let_def
      OVERTIME_MULTIPLIER_def split: option.splits)

lemma assign_fields:
  "stype (assign s t dur details un) = stype s"
  "busy_until (assign s t dur details un) = t + dur"
  "last_assignment_start_time (assign s t dur details un) = Some t"
  by (auto simp: assign_def accrue_cost_for_completed_task_def add_cost_def Let_def
      split: option.splits)

lemma remaining_normal:
  "total_normal_cost (accrue_remaining_cost s final) =
     total_normal_cost s + (1 - 0.20) * cost_per_minute (stype s) *
       (case last_assignment_start_time s of None \<Rightarrow> 0
        | Some st \<Rightarrow> max 0 (min final (busy_until s) - st))"
  by (auto simp: accrue_remaining_cost_def add_cost_def Let_def split: option.splits)

lemma remaining_overtime:
  "total_overtime_cost (accrue_remaining_cost s final) =
     total_overtime_cost s + 0.20 * cost_per_minute (stype s) *
       (case last_assignment_start_time s of None \<Rightarrow> 0
        | Some st \<Rightarrow> max 0 (min final (busy_until s) - st)) * 1.5"
  by (auto simp: accrue_remaining_cost_def add_cost_def Let_def OVERTIME_MULTIPLIER_def
      split: option.splits)

lemma pending_Nil:
  "pending s [] final = (case last_assignment_start_time s of None \<Rightarrow> 0
      | Some st \<Rightarrow> max 0 (min final (busy_until s) - st))"
  by (simp add: pending_def split: option.splits)

lemma pending_Cons:
  "pending s (c # cs) final = (case last_assignment_start_time s of None \<Rightarrow> 0
      | Some st \<Rightarrow> max 0 (busy_until s - st))"
  by (simp add: pending_def split: option.splits)

lemma pending_assign:
  "pending (assign s t dur details un) cs final + completed_durations final cs
   = completed_durations final ((t, dur, details, un) # cs)"
  by (cases cs) (auto simp: pending_def assign_fields)

lemma accrued_normal_general:
  "free_at_each s cs \<Longrightarrow>
   total_normal_cost (accrue_remaining_cost (assign_all s cs) final) =
     total_normal_cost s + (1 - 0.20) * cost_per_minute (stype s)
       * (pending s cs final + completed_durations final cs)"
proof (induction cs arbitrary: s)
  case Nil
  show ?case by (simp add: remaining_normal pending_Nil)
next
  case (Cons c cs)
  obtain t dur details un where c: "c = (t, dur, details, un)" by (cases c) auto
  let ?s1 = "assign s t dur details un"
  from Cons.prems c have free: "is_free s t" and rest: "free_at_each ?s1 cs" by auto
  have "total_normal_cost (accrue_remaining_cost (assign_all ?s1 cs) final) =
        total_normal_cost ?s1 + (1 - 0.20) * cost_per_minute (stype ?s1)
          * (pending ?s1 cs final + completed_durations final cs)"
    by (rule Cons.IH [OF rest])
  also have "pending ?s1 cs final + completed_durations final cs
             = completed_durations final (c # cs)"
    unfolding c by (rule pending_assign)
  also have "total_normal_cost ?s1 = total_normal_cost s + (1 - 0.20) * cost_per_minute (stype s)
              * pending s (c # cs) final"
    using assign_when_free_normal [OF free] by (simp add: pending_Cons)
  finally show ?case by (simp add: c assign_fields algebra_simps)
qed

lemma accrued_overtime_general:
  "free_at_each s cs \<Longrightarrow>
   total_overtime_cost (accrue_remaining_cost (assign_all s cs) final) =
     total_overtime_cost s + 0.20 * cost_per_minute (stype s)
       * (pending s cs final + completed_durations final cs) * 1.5"
proof (induction cs arbitrary: s)
  case Nil
  show ?case by (simp add: remaining_overtime pending_Nil)
next
  case (Cons c cs)
  obtain t dur details un where c: "c = (t, dur, details, un)" by (cases c) auto
  let ?s1 = "assign s t dur details un"
  from Cons.prems c have free: "is_free s t" and rest: "free_at_each ?s1 cs" by auto
  have "total_overtime_cost (accrue_remaining_cost (assign_all ?s1 cs) final) =
        total_overtime_cost ?s1 + 0.20 * cost_per_minute (stype ?s1)
          * (pending ?s1 cs final + completed_durations final cs) * 1.5"
    by (rule Cons.IH [OF rest])
  also have "pending ?s1 cs final + completed_durations final cs
             = completed_durations final (c # cs)"
    unfolding c by (rule pending_assign)
  also have "total_overtime_cost ?s1 = total_overtime_cost s + 0.20 * cost_per_minute (stype s)
              * pending s (c # cs) final * 1.5"
    using assign_when_free_overtime [OF free] by (simp add: pending_Cons)
  finally show ?case by (simp add: c assign_fields algebra_simps)
qed

text \<open>
  Claim C3, as amended. For a staff member whose assignments were each made when the
  member was free, after the accrual at the end of the run the normal cost is
  \<open>(1 - 0.20) * rate * D\<close> and the overtime cost is \<open>0.20 * rate * D * 1.5\<close>, where
  \<open>D\<close> is the sum of the charged durations; so their total is \<open>1.1 * rate * D\<close>
  (not \<open>rate * D\<close>).
\<close>

theorem C3_staff_cost_split:
  assumes "free_at_each (Staff ty i) cs"
  shows "total_normal_cost (accrue_remaining_cost (assign_all (Staff ty i) cs) final)
           = (1 - 0.20) * cost_per_minute ty * completed_durations final cs
       \<and> total_overtime_cost (accrue_remaining_cost (assign_all (Staff ty i) cs) final)
           = 0.20 * cost_per_minute ty * completed_durations final cs * 1.5
       \<and> total_normal_cost (accrue_remaining_cost (assign_all (Staff ty i) cs) final)
         + total_overtime_cost (accrue_remaining_cost (assign_all (Staff ty i) cs) final)
           = 1.1 * (cost_per_minute ty * completed_durations final cs)"
  using accrued_normal_general [OF assms, of final] accrued_overtime_general [OF assms, of final]
  by (simp add: pending_def Staff_def algebra_simps)

text \<open>The theorem for a nurse with two assignments, of 10 and 5 minutes.\<close>

theorem C3_staff_cost_split_witness:
  "total_normal_cost (accrue_remaining_cost
      (assign_all (Staff NURSE 0) [(0, 10, ''a'', None), (20, 5, ''b'', Some ED)]) 10081) = 12
   \<and> total_overtime_cost (accrue_remaining_cost
      (assign_all (Staff NURSE 0) [(0, 10, ''a'', None), (20, 5, ''b'', Some ED)]) 10081) = 4.5"
  using C3_staff_cost_split [of NURSE 0 "[(0, 10, ''a'', None), (20, 5, ''b'', Some ED)]" 10081]
  by (simp add: is_free_def assign_fields Staff_def)

text \<open>
  Claim C3 as stated fails: for that nurse (rate 1 per minute, 15 minutes worked) the
  total of the two accumulators is 16.5, not 15.
\<close>

theorem C3_total_is_not_rate_times_duration:
  "total_normal_cost (accrue_remaining_cost
      (assign_all (Staff NURSE 0) [(0, 10, ''a'', None), (20, 5, ''b'', Some ED)]) 10081)
   + total_overtime_cost (accrue_remaining_cost
      (assign_all (Staff NURSE 0) [(0, 10, ''a'', None), (20, 5, ''b'', Some ED)]) 10081)
   \<noteq> cost_per_minute NURSE * completed_durations 10081 [(0, 10, ''a'', None), (20, 5, ''b'', Some ED)]"
  by (simp add: assign_def accrue_cost_for_completed_task_def accrue_remaining_cost_def
      add_cost_def Staff_def OVERTIME_MULTIPLIER_def Let_def)

subsection \<open>Satisfaction and occupancy\<close>

text \<open>
  Claim C7. With the bonuses 10 and 15 of the configuration, the score of an ED length
  of stay \<open>L\<close> is the specification's formula: base 100 up to 30 minutes, base 1 from
  480 minutes, the linear interpolation \<open>100 - ((L - 30) / 450) * 99\<close> between, plus 10
  with amenities and plus 15 with entertainment, clamped into \<open>[1, 100]\<close>.
\<close>

theorem C7_satisfaction_score:
  assumes "SATISFACTION_AMENITIES_BONUS cfg = 10" and "SATISFACTION_ENTERTAINMENT_BONUS cfg = 15"
  shows "get_patient_satisfaction_score cfg s L
           = spec_satisfaction_score L (enable_amenities s) (enable_ai_entertainment s)
       \<and> 1 \<le> get_patient_satisfaction_score cfg s L
       \<and> get_patient_satisfaction_score cfg s L \<le> 100"
  using assms
  by (simp add: get_patient_satisfaction_score_def spec_satisfaction_score_def Let_def)

text \<open>The theorem at the base configuration, amenities on, a stay of 255 minutes.\<close>

theorem C7_satisfaction_score_witness:
  "get_patient_satisfaction_score Config
      ((HospitalSimulator Config False False False False False)
         \<lparr>enable_amenities := True, enable_ai_entertainment := False\<rparr>) 255 = 60.5"
  using C7_satisfaction_score [of Config
      "(HospitalSimulator Config False False False False False)
         \<lparr>enable_amenities := True, enable_ai_entertainment := False\<rparr>" 255]
  by (simp add: Config_def spec_satisfaction_score_def)

lemma weighted_patient_minutes_sum:
  "weighted_patient_minutes xs =
     (\<Sum>i = 1..<length xs. real_of_int (snd (xs ! (i - 1))) * (fst (xs ! i) - fst (xs ! (i - 1))))"
proof (induction xs rule: weighted_patient_minutes.induct)
  case (1 a b rest)
  define G where "G = (\<lambda>(ys :: (real \<times> int) list) i.
      real_of_int (snd (ys ! (i - 1))) * (fst (ys ! i) - fst (ys ! (i - 1))))"
  define n where "n = length rest"
  have "(\<Sum>i = 1..<Suc (Suc n). G (a # b # rest) i)
        = G (a # b # rest) 1 + (\<Sum>i = Suc 1..<Suc (Suc n). G (a # b # rest) i)"
    by (rule sum.atLeast_Suc_lessThan) simp
  also have "(\<Sum>i = Suc 1..<Suc (Suc n). G (a # b # rest) i)
        = (\<Sum>i = 1..<Suc n. G (a # b # rest) (Suc i))"
    by (rule sum.shift_bounds_Suc_ivl)
  also have "\<dots> = (\<Sum>i = 1..<Suc n. G (b # rest) i)"
    by (rule sum.cong) (auto simp: G_def nth_Cons')
  finally have "(\<Sum>i = 1..<length (a # b # rest). G (a # b # rest) i)
        = real_of_int (snd a) * (fst b - fst a) + (\<Sum>i = 1..<length (b # rest). G (b # rest) i)"
    by (simp add: n_def G_def)
  with 1 show ?case by (simp add: G_def)
qed simp_all

text \<open>
  What \<^verbatim>\<open>report\<close> computes. Over its horizon \<open>H\<close> (\<^verbatim>\<open>Config.SIM_END_TIME -
  Config.SIM_START_TIME\<close>, which is \<^verbatim>\<open>Config.SIM_END_TIME\<close>) the average of an empty
  series is 0, of a one-point series the point's count, and of a longer series
  \<open>(1 / H) * (\<Sum> c\<^bsub>i-1\<^esub> * (t\<^sub>i - t\<^bsub>i-1\<^esub>) + c\<^bsub>n-1\<^esub> * (H - t\<^bsub>n-1\<^esub>))\<close>; each utilisation
  is \<open>100 * average / capacity\<close> for a positive capacity and 0 otherwise, where the
  capacity is the constant of the base class \<^verbatim>\<open>Config\<close>, whatever configuration was run.
\<close>

lemma report_weighted_average_occupancy:
  "calculate_weighted_average_occupancy [] (SIM_END_TIME Config - SIM_START_TIME Config) = 0
   \<and> calculate_weighted_average_occupancy [(t, c)] (SIM_END_TIME Config - SIM_START_TIME Config)
       = real_of_int c
   \<and> (length xs > 1 \<longrightarrow>
        calculate_weighted_average_occupancy xs (SIM_END_TIME Config - SIM_START_TIME Config)
          = spec_weighted_average (SIM_END_TIME Config) xs)
   \<and> cdu_avg_utilization (report m)
       = spec_utilization (cdu_avg_occupancy (report m)) (CDU_BEDS Config)
   \<and> inpatient_avg_utilization (report m)
       = spec_utilization (avg_inpatient_occupancy (report m)) (INPATIENT_BEDS Config)
   \<and> pulley_avg_utilization (report m)
       = spec_utilization (pulley_avg_occupancy (report m)) (PULLEY_SYSTEM_CAPACITY Config)
   \<and> cdu_avg_occupancy (report m)
       = calculate_weighted_average_occupancy (cdu_occupancy_times m)
           (SIM_END_TIME Config - SIM_START_TIME Config)
   \<and> avg_inpatient_occupancy (report m)
       = calculate_weighted_average_occupancy (inpatient_occupancy_times m)
           (SIM_END_TIME Config - SIM_START_TIME Config)
   \<and> pulley_avg_occupancy (report m)
       = calculate_weighted_average_occupancy (pulley_utilization_times m)
           (SIM_END_TIME Config - SIM_START_TIME Config)"
proof -
  have H: "SIM_END_TIME Config - SIM_START_TIME Config = SIM_END_TIME Config"
    and pos: "SIM_END_TIME Config > 0"
    by (simp_all add: Config_def)
  have many: "length xs > 1 \<longrightarrow>
        calculate_weighted_average_occupancy xs (SIM_END_TIME Config - SIM_START_TIME Config)
          = spec_weighted_average (SIM_END_TIME Config) xs"
  proof
    assume n: "length xs > 1"
    then have "xs \<noteq> []" by auto
    then have l: "last xs = xs ! (length xs - 1)" by (rule last_conv_nth)
    show "calculate_weighted_average_occupancy xs (SIM_END_TIME Config - SIM_START_TIME Config)
          = spec_weighted_average (SIM_END_TIME Config) xs"
      unfolding H using n pos
      by (simp add: calculate_weighted_average_occupancy_def spec_weighted_average_def Let_def
          weighted_patient_minutes_sum l)
  qed
  have rep: "cdu_avg_utilization (report m)
       = spec_utilization (cdu_avg_occupancy (report m)) (CDU_BEDS Config)"
     "inpatient_avg_utilization (report m)
       = spec_utilization (avg_inpatient_occupancy (report m)) (INPATIENT_BEDS Config)"
     "pulley_avg_utilization (report m)
       = spec_utilization (pulley_avg_occupancy (report m)) (PULLEY_SYSTEM_CAPACITY Config)"
    by (simp_all add: report_def spec_utilization_def Let_def)
  show ?thesis
    using many rep
    by (simp add: calculate_weighted_average_occupancy_def report_def Let_def)
qed

text \<open>
  Claim C8 fails on the code for the utilisation of the pulley. \<^verbatim>\<open>report\<close> divides by
  \<^verbatim>\<open>Config.PULLEY_SYSTEM_CAPACITY\<close>, the constant 0 of the base class, and not by the
  capacity of the configuration that was run, so the pulley utilisation it reports is 0
  for every series. For the series \<open>[(5, 0), (10, 2)]\<close> of a run of
  \<^verbatim>\<open>BellevueEnhancedConfig\<close>, whose pulley has capacity 2, the average is \<open>1007 / 504\<close>
  slots (1.998) and the utilisation of the claim \<open>100 * average / 2\<close>, which is
  \<open>25175 / 252\<close> per cent (99.9); the report says 0.
\<close>

theorem C8_pulley_utilization_reported_zero:
  "pulley_avg_occupancy
      (report (MetricsTracker\<lparr>pulley_utilization_times := [(5, 0), (10, 2)]\<rparr>)) = 1007 / 504
   \<and> pulley_avg_utilization
      (report (MetricsTracker\<lparr>pulley_utilization_times := [(5, 0), (10, 2)]\<rparr>)) = 0
   \<and> PULLEY_SYSTEM_CAPACITY BellevueEnhancedConfig = 2
   \<and> spec_utilization
        (pulley_avg_occupancy
           (report (MetricsTracker\<lparr>pulley_utilization_times := [(5, 0), (10, 2)]\<rparr>)))
        (PULLEY_SYSTEM_CAPACITY BellevueEnhancedConfig) = 25175 / 252
   \<and> pulley_avg_utilization (report m) = 0"
  by (simp add: report_def calculate_weighted_average_occupancy_def spec_utilization_def
      MetricsTracker_def BellevueEnhancedConfig_def BellevueBaselineConfig_def Config_def Let_def)

subsection \<open>The transport broker\<close>

lemma min_busy_in: "min_busy m xs \<in> set (m # xs)"
  by (induction xs arbitrary: m) (auto split: if_splits)

lemma min_by_busy_until_in: "xs \<noteq> [] \<Longrightarrow> min_by_busy_until xs \<in> set xs"
  using min_busy_in [of "hd xs" "tl xs"] by (cases xs) (auto simp: min_by_busy_until_def)

lemma hd_sort_key_in: "xs \<noteq> [] \<Longrightarrow> hd (sort_key f xs) \<in> set xs"
proof -
  assume "xs \<noteq> []"
  then have "sort_key f xs \<noteq> []" by (metis length_sort list.size(3) length_0_conv)
  then have "hd (sort_key f xs) \<in> set (sort_key f xs)" by (rule hd_in_set)
  then show ?thesis by simp
qed

lemma sid_assign [simp]: "sid (assign x t dur details un) = sid x"
  by (simp add: assign_def accrue_cost_for_completed_task_def add_cost_def Let_def
      split: option.splits)

lemma stype_assign [simp]: "stype (assign x t dur details un) = stype x"
  by (simp add: assign_def accrue_cost_for_completed_task_def add_cost_def Let_def
      split: option.splits)

lemma set_available_staff: "set (available_staff s ty now) = free_staff s ty now"
  by (auto simp: free_staff_def available_staff_def)

lemma available_staff_empty: "available_staff s ty now = [] \<longleftrightarrow> free_staff s ty now = {}"
  using set_available_staff [of s ty now] by (metis set_empty)

lemma rtr_pulley:
  "pulley_viable cfg p s destination \<Longrightarrow>
   request_transport_resource cfg d p s now destination =
     ((Some PULLEY, None, Some (real_of_int (d_randint d))),
      p\<lparr>transport_type := Some PULLEY, transport_assigned_time := Some now\<rparr>,
      push (s\<lparr>pulley_in_use := pulley_in_use s + 1\<rparr>)
        (now + real_of_int (d_randint d), PULLEY_TRANSPORT_COMPLETE, Some (pid p),
         Some (real_of_int (d_randint d))))"
  by (simp add: request_transport_resource_def pulley_viable_def Let_def)

lemma rtr_critical:
  "\<not> pulley_viable cfg p s destination \<Longrightarrow> acuity p = CRITICAL \<Longrightarrow>
   available_staff s TRANSPORT now \<noteq> [] \<Longrightarrow>
   request_transport_resource cfg d p s now destination =
     staff_transport p s now (real_of_int (d_randint d)) PAID_STAFF
       (assign (min_by_busy_until (available_staff s TRANSPORT now)) now
          (real_of_int (d_randint d))
          (''Transport Patient '' @ pid p @ '' to '' @ name_of destination) (current_unit p))"
  by (simp add: request_transport_resource_def pulley_viable_def Let_def available_staff_def
      staff_transport_def del: filter_filter)

lemma rtr_volunteer:
  "\<not> pulley_viable cfg p s destination \<Longrightarrow>
   \<not> (acuity p = CRITICAL \<and> available_staff s TRANSPORT now \<noteq> []) \<Longrightarrow>
   VOLUNTEER_HOURS_START cfg \<le> py_mod now (SIM_MINUTES_PER_DAY cfg) \<Longrightarrow>
   py_mod now (SIM_MINUTES_PER_DAY cfg) < VOLUNTEER_HOURS_END cfg \<Longrightarrow>
   acuity p \<in> set (VOLUNTEER_ACUITY_ELIGIBILITY cfg) \<Longrightarrow>
   available_staff s VOLUNTEER_TRANSPORT now \<noteq> [] \<Longrightarrow>
   request_transport_resource cfg d p s now destination =
     staff_transport p s now (real_of_int (d_randint d)) VOLUNTEER
       (assign (min_by_busy_until (available_staff s VOLUNTEER_TRANSPORT now)) now
          (real_of_int (d_randint d))
          (''Volunteer Transport Patient '' @ pid p @ '' to '' @ name_of destination)
          (current_unit p))"
  by (simp add: request_transport_resource_def pulley_viable_def Let_def available_staff_def
      staff_transport_def del: filter_filter)

lemma rtr_paid:
  "\<not> pulley_viable cfg p s destination \<Longrightarrow>
   \<not> (acuity p = CRITICAL \<and> available_staff s TRANSPORT now \<noteq> []) \<Longrightarrow>
   \<not> (VOLUNTEER_HOURS_START cfg \<le> py_mod now (SIM_MINUTES_PER_DAY cfg)
      \<and> py_mod now (SIM_MINUTES_PER_DAY cfg) < VOLUNTEER_HOURS_END cfg
      \<and> acuity p \<in> set (VOLUNTEER_ACUITY_ELIGIBILITY cfg)
      \<and> available_staff s VOLUNTEER_TRANSPORT now \<noteq> []) \<Longrightarrow>
   available_staff s TRANSPORT now \<noteq> [] \<Longrightarrow>
   request_transport_resource cfg d p s now destination =
     staff_transport p s now (real_of_int (d_randint d)) PAID_STAFF
       (assign (hd (sort_key (\<lambda>x. (TRANSPORT_PRIORITY (acuity p), busy_until x))
                      (available_staff s TRANSPORT now))) now
          (real_of_int (d_randint d))
          (''Transport Patient '' @ pid p @ '' to '' @ name_of destination) (current_unit p))"
  by (auto simp: request_transport_resource_def pulley_viable_def Let_def available_staff_def
      staff_transport_def simp del: filter_filter)

lemma rtr_none:
  "\<not> pulley_viable cfg p s destination \<Longrightarrow>
   \<not> (VOLUNTEER_HOURS_START cfg \<le> py_mod now (SIM_MINUTES_PER_DAY cfg)
      \<and> py_mod now (SIM_MINUTES_PER_DAY cfg) < VOLUNTEER_HOURS_END cfg
      \<and> acuity p \<in> set (VOLUNTEER_ACUITY_ELIGIBILITY cfg)
      \<and> available_staff s VOLUNTEER_TRANSPORT now \<noteq> []) \<Longrightarrow>
   available_staff s TRANSPORT now = [] \<Longrightarrow>
   request_transport_resource cfg d p s now destination = ((None, None, None), p, s)"
  by (auto simp: request_transport_resource_def pulley_viable_def Let_def available_staff_def
      simp del: filter_filter)

text \<open>Every outcome of a transport request.\<close>

lemma rtr_cases:
  obtains (pulley) "pulley_viable cfg p s destination"
      "request_transport_resource cfg d p s now destination =
        ((Some PULLEY, None, Some (real_of_int (d_randint d))),
         p\<lparr>transport_type := Some PULLEY, transport_assigned_time := Some now\<rparr>,
         push (s\<lparr>pulley_in_use := pulley_in_use s + 1\<rparr>)
           (now + real_of_int (d_randint d), PULLEY_TRANSPORT_COMPLETE, Some (pid p),
            Some (real_of_int (d_randint d))))"
  | (staff) tt x details where "tt \<noteq> PULLEY" "x \<in> set (all_staff s)" "is_free x now"
      "request_transport_resource cfg d p s now destination =
         staff_transport p s now (real_of_int (d_randint d)) tt
           (assign x now (real_of_int (d_randint d)) details (current_unit p))"
  | (none) "request_transport_resource cfg d p s now destination = ((None, None, None), p, s)"
proof -
  let ?paid = "available_staff s TRANSPORT now"
  let ?vol = "available_staff s VOLUNTEER_TRANSPORT now"
  let ?vc = "VOLUNTEER_HOURS_START cfg \<le> py_mod now (SIM_MINUTES_PER_DAY cfg)
      \<and> py_mod now (SIM_MINUTES_PER_DAY cfg) < VOLUNTEER_HOURS_END cfg
      \<and> acuity p \<in> set (VOLUNTEER_ACUITY_ELIGIBILITY cfg) \<and> ?vol \<noteq> []"
  have in_all: "x \<in> set (available_staff s ty now) \<Longrightarrow> x \<in> set (all_staff s) \<and> is_free x now" for x ty
    by (auto simp: available_staff_def)
  consider "pulley_viable cfg p s destination"
    | "\<not> pulley_viable cfg p s destination" "acuity p = CRITICAL \<and> ?paid \<noteq> []"
    | "\<not> pulley_viable cfg p s destination" "\<not> (acuity p = CRITICAL \<and> ?paid \<noteq> [])" ?vc
    | "\<not> pulley_viable cfg p s destination" "\<not> (acuity p = CRITICAL \<and> ?paid \<noteq> [])" "\<not> ?vc"
        "?paid \<noteq> []"
    | "\<not> pulley_viable cfg p s destination" "\<not> ?vc" "?paid = []"
    by blast
  then show thesis
  proof cases
    case 1
    then show ?thesis by (intro pulley rtr_pulley)
  next
    case 2
    then have m: "min_by_busy_until ?paid \<in> set ?paid" by (intro min_by_busy_until_in) simp
    show ?thesis
      by (rule staff [OF _ _ _ rtr_critical]) (use 2 in_all [OF m] in auto)
  next
    case 3
    then have m: "min_by_busy_until ?vol \<in> set ?vol" by (intro min_by_busy_until_in) simp
    show ?thesis
      by (rule staff [OF _ _ _ rtr_volunteer]) (use 3 in_all [OF m] in auto)
  next
    case 4
    then have m: "hd (sort_key (\<lambda>x. (TRANSPORT_PRIORITY (acuity p), busy_until x)) ?paid) \<in> set ?paid"
      by (intro hd_sort_key_in)
    show ?thesis
      by (rule staff [OF _ _ _ rtr_paid]) (use 4 in_all [OF m] in auto)
  next
    case 5
    then show ?thesis by (intro none rtr_none)
  qed
qed

text \<open>
  Claim C4. A transport request takes the first viable option of the chain: the pulley
  when the patient's unit and the destination are pulley-eligible and a slot is free;
  else, for a CRITICAL patient, a free paid TRANSPORT staff member; else a free
  VOLUNTEER\_TRANSPORT staff member when the minute of the day \<open>now mod 1440\<close> lies in the
  volunteer window and the acuity is URGENT\_OBS or NON\_URGENT; else any free paid
  TRANSPORT staff member; otherwise it fails and neither the patient nor the simulator
  changes.
\<close>

theorem C4_transport_priority_chain:
  assumes day: "SIM_MINUTES_PER_DAY cfg = 1440"
    and elig: "set (VOLUNTEER_ACUITY_ELIGIBILITY cfg) = {URGENT_OBS, NON_URGENT}"
    and r: "request_transport_resource cfg d p s now destination = (res, p1, s1)"
  shows "(pulley_viable cfg p s destination \<longrightarrow>
            fst res = Some PULLEY \<and> pulley_in_use s1 = pulley_in_use s + 1)
       \<and> (\<not> pulley_viable cfg p s destination \<and> acuity p = CRITICAL
            \<and> free_staff s TRANSPORT now \<noteq> {} \<longrightarrow>
            granted_by res PAID_STAFF (free_staff s TRANSPORT now))
       \<and> (\<not> pulley_viable cfg p s destination
            \<and> volunteer_window cfg now \<and> acuity p \<in> {URGENT_OBS, NON_URGENT}
            \<and> free_staff s VOLUNTEER_TRANSPORT now \<noteq> {} \<longrightarrow>
            granted_by res VOLUNTEER (free_staff s VOLUNTEER_TRANSPORT now))
       \<and> (\<not> pulley_viable cfg p s destination
            \<and> \<not> (volunteer_window cfg now \<and> acuity p \<in> {URGENT_OBS, NON_URGENT}
                   \<and> free_staff s VOLUNTEER_TRANSPORT now \<noteq> {})
            \<and> free_staff s TRANSPORT now \<noteq> {} \<longrightarrow>
            granted_by res PAID_STAFF (free_staff s TRANSPORT now))
       \<and> (\<not> pulley_viable cfg p s destination
            \<and> \<not> (volunteer_window cfg now \<and> acuity p \<in> {URGENT_OBS, NON_URGENT}
                   \<and> free_staff s VOLUNTEER_TRANSPORT now \<noteq> {})
            \<and> free_staff s TRANSPORT now = {} \<longrightarrow>
            res = (None, None, None) \<and> p1 = p \<and> s1 = s)"
proof -
  let ?paid = "available_staff s TRANSPORT now"
  let ?vol = "available_staff s VOLUNTEER_TRANSPORT now"
  have paid_min: "?paid \<noteq> [] \<Longrightarrow> min_by_busy_until ?paid \<in> free_staff s TRANSPORT now"
    using min_by_busy_until_in [of ?paid] set_available_staff [of s TRANSPORT now] by blast
  have paid_hd: "?paid \<noteq> [] \<Longrightarrow> hd (sort_key f ?paid) \<in> free_staff s TRANSPORT now"
    for f :: "staff \<Rightarrow> int \<times> real"
    using hd_sort_key_in [of ?paid f] set_available_staff [of s TRANSPORT now] by blast
  have vol_min: "?vol \<noteq> [] \<Longrightarrow> min_by_busy_until ?vol \<in> free_staff s VOLUNTEER_TRANSPORT now"
    using min_by_busy_until_in [of ?vol] set_available_staff [of s VOLUNTEER_TRANSPORT now]
    by blast
  have vw: "volunteer_window cfg now \<longleftrightarrow>
      VOLUNTEER_HOURS_START cfg \<le> py_mod now (SIM_MINUTES_PER_DAY cfg)
      \<and> py_mod now (SIM_MINUTES_PER_DAY cfg) < VOLUNTEER_HOURS_END cfg"
    by (simp add: volunteer_window_def day)
  have c1: "pulley_viable cfg p s destination \<Longrightarrow>
            fst res = Some PULLEY \<and> pulley_in_use s1 = pulley_in_use s + 1"
    using r by (auto simp: rtr_pulley push_def)
  have c2: "granted_by res PAID_STAFF (free_staff s TRANSPORT now)"
    if "\<not> pulley_viable cfg p s destination" "acuity p = CRITICAL"
       "free_staff s TRANSPORT now \<noteq> {}"
    using that r paid_min
    by (auto simp: rtr_critical available_staff_empty staff_transport_def granted_by_def)
  have c3: "granted_by res VOLUNTEER (free_staff s VOLUNTEER_TRANSPORT now)"
    if "\<not> pulley_viable cfg p s destination" "volunteer_window cfg now"
       "acuity p \<in> {URGENT_OBS, NON_URGENT}" "free_staff s VOLUNTEER_TRANSPORT now \<noteq> {}"
  proof -
    from that have "request_transport_resource cfg d p s now destination =
      staff_transport p s now (real_of_int (d_randint d)) VOLUNTEER
       (assign (min_by_busy_until ?vol) now (real_of_int (d_randint d))
          (''Volunteer Transport Patient '' @ pid p @ '' to '' @ name_of destination)
          (current_unit p))"
      by (intro rtr_volunteer) (auto simp: vw elig available_staff_empty)
    with r vol_min that show ?thesis
      by (auto simp: available_staff_empty staff_transport_def granted_by_def)
  qed
  have c4: "granted_by res PAID_STAFF (free_staff s TRANSPORT now)"
    if "\<not> pulley_viable cfg p s destination"
       "\<not> (volunteer_window cfg now \<and> acuity p \<in> {URGENT_OBS, NON_URGENT}
          \<and> free_staff s VOLUNTEER_TRANSPORT now \<noteq> {})"
       "free_staff s TRANSPORT now \<noteq> {}"
  proof (cases "acuity p = CRITICAL")
    case True
    with that c2 show ?thesis by blast
  next
    case False
    from that False have "request_transport_resource cfg d p s now destination =
      staff_transport p s now (real_of_int (d_randint d)) PAID_STAFF
       (assign (hd (sort_key (\<lambda>x. (TRANSPORT_PRIORITY (acuity p), busy_until x)) ?paid)) now
          (real_of_int (d_randint d))
          (''Transport Patient '' @ pid p @ '' to '' @ name_of destination) (current_unit p))"
      by (intro rtr_paid) (auto simp: vw elig available_staff_empty)
    with r paid_hd that show ?thesis
      by (auto simp: available_staff_empty staff_transport_def granted_by_def)
  qed
  have c5: "res = (None, None, None) \<and> p1 = p \<and> s1 = s"
    if "\<not> pulley_viable cfg p s destination"
       "\<not> (volunteer_window cfg now \<and> acuity p \<in> {URGENT_OBS, NON_URGENT}
          \<and> free_staff s VOLUNTEER_TRANSPORT now \<noteq> {})"
       "free_staff s TRANSPORT now = {}"
  proof -
    from that have "request_transport_resource cfg d p s now destination = ((None, None, None), p, s)"
      by (intro rtr_none) (auto simp: vw elig available_staff_empty)
    with r show ?thesis by simp
  qed
  from c1 c2 c3 c4 c5 show ?thesis by blast
qed

text \<open>The theorem at 9:00 for an URGENT\_OBS patient, the porter busy and a volunteer
  free: the volunteer (staff member 1) is taken.\<close>

theorem C4_transport_priority_chain_witness:
  "fst (fst (request_transport_resource Config example_draws example_patient example_sim 540
               INPATIENT)) = Some VOLUNTEER
   \<and> fst (snd (fst (request_transport_resource Config example_draws example_patient example_sim
               540 INPATIENT))) = Some 1"
proof -
  obtain res p1 s1 where r: "request_transport_resource Config example_draws example_patient
      example_sim 540 INPATIENT = (res, p1, s1)"
    by (metis prod_cases3)
  have fs: "free_staff example_sim VOLUNTEER_TRANSPORT 540 = {Staff VOLUNTEER_TRANSPORT 1}"
    by (auto simp: free_staff_def example_sim_def Staff_def is_free_def)
  have np: "\<not> pulley_viable Config example_patient example_sim INPATIENT"
    by (simp add: pulley_viable_def Config_def)
  have vw: "volunteer_window Config 540"
    by (simp add: volunteer_window_def Config_def py_mod_def)
  have ac: "acuity example_patient = URGENT_OBS"
    by (simp add: example_patient_def Patient_def)
  from C4_transport_priority_chain [OF _ _ r] np vw ac fs
  have "granted_by res VOLUNTEER {Staff VOLUNTEER_TRANSPORT 1}"
    by (simp add: Config_def)
  with r show ?thesis by (simp add: granted_by_def Staff_def)
qed

subsection \<open>Disposition\<close>

lemma metrics_push [simp]: "metrics (push s e) = metrics s"
  by (simp add: push_def)

lemma disposition_again:
  assumes "ed_disposition_time p = Some t0"
  shows "ed_disposition_time (fst (determine_patient_disposition cfg u p s t)) = Some t0"
    and "ed_los_list (metrics (snd (determine_patient_disposition cfg u p s t)))
           = ed_los_list (metrics s)"
    and "patient_satisfaction_scores (metrics (snd (determine_patient_disposition cfg u p s t)))
           = patient_satisfaction_scores (metrics s)"
  using assms by (simp_all add: determine_patient_disposition_def Let_def)

lemma disposition_first:
  assumes "ed_disposition_time p = None"
  shows "ed_disposition_time (fst (determine_patient_disposition cfg u p s t)) = Some t"
    and "ed_los_list (metrics (snd (determine_patient_disposition cfg u p s t)))
           = ed_los_list (metrics s) @ [t - arrival_time p]"
    and "patient_satisfaction_scores (metrics (snd (determine_patient_disposition cfg u p s t)))
           = patient_satisfaction_scores (metrics s)
             @ [get_patient_satisfaction_score cfg s (t - arrival_time p)]"
  using assms
  by (simp_all add: determine_patient_disposition_def Let_def add_ed_los_def
      add_patient_satisfaction_score_def)

lemma dispositions_again:
  assumes "ed_disposition_time (fst ps) = Some t0"
  shows "ed_disposition_time (fst (dispositions cfg rs ps)) = Some t0
       \<and> ed_los_list (metrics (snd (dispositions cfg rs ps))) = ed_los_list (metrics (snd ps))
       \<and> patient_satisfaction_scores (metrics (snd (dispositions cfg rs ps)))
           = patient_satisfaction_scores (metrics (snd ps))"
  using assms
proof (induction rs arbitrary: ps)
  case Nil
  then show ?case by simp
next
  case (Cons r rs)
  obtain u t where r: "r = (u, t)" by (cases r) auto
  let ?ps1 = "determine_patient_disposition cfg u (fst ps) (snd ps) t"
  from Cons.prems have "ed_disposition_time (fst ?ps1) = Some t0"
    by (rule disposition_again(1))
  from Cons.IH [OF this] disposition_again(2,3) [OF Cons.prems, of cfg u "snd ps" t]
  show ?case by (simp add: r)
qed

text \<open>
  Claim C9. However often the disposition routine runs for a patient who had no
  disposition yet, \<^verbatim>\<open>ed_disposition_time\<close> is the time of the first run, and exactly one
  ED length of stay and one satisfaction score, those of the first run, are recorded.
\<close>

theorem C9_disposition_recorded_once:
  assumes "ed_disposition_time p = None"
  shows "ed_disposition_time (fst (dispositions cfg ((u, t) # rest) (p, s))) = Some t
       \<and> ed_los_list (metrics (snd (dispositions cfg ((u, t) # rest) (p, s))))
           = ed_los_list (metrics s) @ [t - arrival_time p]
       \<and> patient_satisfaction_scores (metrics (snd (dispositions cfg ((u, t) # rest) (p, s))))
           = patient_satisfaction_scores (metrics s)
             @ [get_patient_satisfaction_score cfg s (t - arrival_time p)]"
proof -
  let ?ps1 = "determine_patient_disposition cfg u p s t"
  have "ed_disposition_time (fst ?ps1) = Some t"
    using assms by (rule disposition_first(1))
  from dispositions_again [OF this, of cfg rest] disposition_first(2,3) [OF assms, of cfg u s t]
  show ?thesis by simp
qed

text \<open>The theorem for three runs of the routine on the example patient.\<close>

theorem C9_disposition_recorded_once_witness:
  "ed_disposition_time (fst (dispositions Config [(0.5, 540), (0.1, 600), (0.9, 700)]
       (example_patient, example_sim))) = Some 540
   \<and> ed_los_list (metrics (snd (dispositions Config [(0.5, 540), (0.1, 600), (0.9, 700)]
       (example_patient, example_sim)))) = [40]
   \<and> patient_satisfaction_scores (metrics (snd (dispositions Config
       [(0.5, 540), (0.1, 600), (0.9, 700)] (example_patient, example_sim)))) = [97.8]"
  using C9_disposition_recorded_once [of example_patient Config "0.5" 540 "[(0.1, 600), (0.9, 700)]"
      example_sim]
  by (simp add: example_patient_def Patient_def example_sim_def MetricsTracker_def
      get_patient_satisfaction_score_def Config_def)

subsection \<open>What the handlers change\<close>

lemma on_result_simps [simp]:
  "on_result P (Inl e) = True"
  "on_result P (Inr ps) = P (snd ps)"
  by (simp_all add: on_result_def)

lemma on_result_Inr: "on_result P r \<Longrightarrow> r = Inr (p, s) \<Longrightarrow> P s"
  by simp

lemma within_capacity_units: "within_capacity s = units_ok (units s)"
  by (simp add: within_capacity_def units_ok_def)

subsection \<open>What the helpers leave alone\<close>

lemma push_simps [simp]:
  "units (push s e) = units s"
  "pulley_in_use (push s e) = pulley_in_use s"
  "event_queue (push s e) = heappush (event_queue s) e"
  "patients (push s e) = patients s"
  "metrics (push s e) = metrics s"
  by (simp_all add: push_def)

lemma store_simps [simp]:
  "units (store s k p) = units s"
  "pulley_in_use (store s k p) = pulley_in_use s"
  "event_queue (store s k p) = event_queue s"
  "patients (store s k p) = (patients s)(k \<mapsto> p)"
  "metrics (store s k p) = metrics s"
  by (simp_all add: store_def)

lemma set_staff_simps [simp]:
  "units (set_staff s st) = units s"
  "pulley_in_use (set_staff s st) = pulley_in_use s"
  "event_queue (set_staff s st) = event_queue s"
  "patients (set_staff s st) = patients s"
  "metrics (set_staff s st) = metrics s"
  by (simp_all add: set_staff_def)

lemma set_unit_simps [simp]:
  "units (set_unit s nm u) = (units s)(nm := u)"
  "pulley_in_use (set_unit s nm u) = pulley_in_use s"
  "event_queue (set_unit s nm u) = event_queue s"
  "patients (set_unit s nm u) = patients s"
  "metrics (set_unit s nm u) = metrics s"
  by (simp_all add: set_unit_def)

lemma find_and_assign_staff_frame [simp]:
  "units (snd (snd (find_and_assign_staff p s ty pref now dur details))) = units s"
  "pulley_in_use (snd (snd (find_and_assign_staff p s ty pref now dur details))) = pulley_in_use s"
  "event_queue (snd (snd (find_and_assign_staff p s ty pref now dur details))) = event_queue s"
  "patients (snd (snd (find_and_assign_staff p s ty pref now dur details))) = patients s"
  "metrics (snd (snd (find_and_assign_staff p s ty pref now dur details))) = metrics s"
  by (simp_all add: find_and_assign_staff_def Let_def)

lemma pulley_arrivals_heappush [simp]:
  "pulley_arrivals_pending (heappush q e)
     = pulley_arrivals_pending q + (if fst (snd e) = PULLEY_TRANSPORT_COMPLETE then 1 else 0)"
  by (simp add: pulley_arrivals_pending_def heappush_def)

lemma request_transport_resource_frame [simp]:
  "units (snd (snd (request_transport_resource cfg d p s now destination))) = units s"
  "patients (snd (snd (request_transport_resource cfg d p s now destination))) = patients s"
  "metrics (snd (snd (request_transport_resource cfg d p s now destination))) = metrics s"
  "pulley_in_use (snd (snd (request_transport_resource cfg d p s now destination)))
     = (if pulley_viable cfg p s destination then pulley_in_use s + 1 else pulley_in_use s)"
  "pulley_arrivals_pending (event_queue (snd (snd (request_transport_resource cfg d p s now destination))))
     = pulley_arrivals_pending (event_queue s)
       + (if pulley_viable cfg p s destination then 1 else 0)"
  by (simp_all add: request_transport_resource_def Let_def pulley_viable_def)

lemma determine_patient_disposition_frame [simp]:
  "units (snd (determine_patient_disposition cfg u p s t)) = units s"
  "patients (snd (determine_patient_disposition cfg u p s t)) = patients s"
  "pulley_in_use (snd (determine_patient_disposition cfg u p s t)) = pulley_in_use s"
  "pulley_arrivals_pending (event_queue (snd (determine_patient_disposition cfg u p s t)))
     = pulley_arrivals_pending (event_queue s)"
  by (simp_all add: determine_patient_disposition_def Let_def)

lemma record_boarding_frame [simp]:
  "units (snd (record_boarding p s t)) = units s"
  "patients (snd (record_boarding p s t)) = patients s"
  "pulley_in_use (snd (record_boarding p s t)) = pulley_in_use s"
  "event_queue (snd (record_boarding p s t)) = event_queue s"
  by (simp_all add: record_boarding_def split: option.splits)

lemma leave_current_unit_frame [simp]:
  "patients (snd (leave_current_unit p s t)) = patients s"
  "pulley_in_use (snd (leave_current_unit p s t)) = pulley_in_use s"
  "event_queue (snd (leave_current_unit p s t)) = event_queue s"
  "metrics (snd (leave_current_unit p s t)) = metrics s"
  by (simp_all add: leave_current_unit_def case_prod_beta Let_def split: option.splits)

lemma adjust_ai_staffing_frame [simp]:
  "units (adjust_ai_staffing cfg s) = units s"
  "patients (adjust_ai_staffing cfg s) = patients s"
  "pulley_in_use (adjust_ai_staffing cfg s) = pulley_in_use s"
  "pulley_arrivals_pending (event_queue (adjust_ai_staffing cfg s))
     = pulley_arrivals_pending (event_queue s)"
  by (simp_all add: adjust_ai_staffing_def Let_def)

lemma transport_arrival_frame [simp]:
  "units (snd (transport_arrival k dat p s t)) = units s"
  "patients (snd (transport_arrival k dat p s t)) = patients s"
  "event_queue (snd (transport_arrival k dat p s t)) = event_queue s"
  "pulley_in_use (snd (transport_arrival k dat p s t))
     = (if k = PULLEY_TRANSPORT_COMPLETE then pulley_in_use s - 1 else pulley_in_use s)"
  by (simp_all add: transport_arrival_def Let_def split: option.splits)

subsection \<open>Capacity of the units\<close>

lemma length_removeAll_le: "length (removeAll x xs) \<le> length xs"
  by (induction xs) (auto simp: le_SucI)

lemma units_ok_admit [simp]:
  "units_ok U \<Longrightarrow> units_ok (U(nm := fst (snd (admit_patient (U nm) p t))))"
  unfolding units_ok_def
proof (intro allI)
  fix u
  assume a: "\<forall>u. int (length (patients_in_unit (U u))) \<le> capacity (U u)"
  then have b: "int (length (patients_in_unit (U nm))) \<le> capacity (U nm)"
    and c: "int (length (patients_in_unit (U u))) \<le> capacity (U u)" by blast+
  show "int (length (patients_in_unit ((U(nm := fst (snd (admit_patient (U nm) p t)))) u)))
        \<le> capacity ((U(nm := fst (snd (admit_patient (U nm) p t)))) u)"
    using b c by (simp add: admit_patient_def dict_set_def)
qed

lemma units_ok_discharge [simp]:
  "units_ok U \<Longrightarrow> units_ok (U(nm := fst (snd (discharge_patient (U nm) p t))))"
  unfolding units_ok_def
proof (intro allI)
  fix u
  assume a: "\<forall>u. int (length (patients_in_unit (U u))) \<le> capacity (U u)"
  then have b: "int (length (patients_in_unit (U nm))) \<le> capacity (U nm)"
    and c: "int (length (patients_in_unit (U u))) \<le> capacity (U u)" by blast+
  have "int (length (removeAll (pid p) (patients_in_unit (U nm))))
        \<le> int (length (patients_in_unit (U nm)))"
    using length_removeAll_le [of "pid p" "patients_in_unit (U nm)"] by simp
  with b have d: "int (length (removeAll (pid p) (patients_in_unit (U nm)))) \<le> capacity (U nm)"
    by linarith
  show "int (length (patients_in_unit ((U(nm := fst (snd (discharge_patient (U nm) p t)))) u)))
        \<le> capacity ((U(nm := fst (snd (discharge_patient (U nm) p t)))) u)"
    using b c d by (simp add: discharge_patient_def)
qed

lemma units_ok_leave [simp]:
  "units_ok (units s) \<Longrightarrow> units_ok (units (snd (leave_current_unit p s t)))"
  by (simp add: leave_current_unit_def case_prod_beta Let_def split: option.splits)

lemma step_ok_refl [simp]: "step_ok cfg 0 s s"
  by (simp add: step_ok_def)

lemma ADMIT_step_ok:
  "k \<noteq> PULLEY_TRANSPORT_COMPLETE \<Longrightarrow> on_result (step_ok cfg 0 s) (ev_ADMIT cfg d k p s t)"
  by (simp add: step_ok_def pulley_viable_def ev_ADMIT_def Let_def case_prod_beta)

lemma admit_on_arrival_step_ok:
  "on_result (step_ok cfg 0 s) (admit_on_arrival cfg d p s t)"
  by (simp add: step_ok_def admit_on_arrival_def Let_def case_prod_beta split: option.splits)

lemma TRANSPORT_COMPLETE_step_ok:
  "on_result (step_ok cfg (if k = PULLEY_TRANSPORT_COMPLETE then 1 else 0) s)
     (ev_TRANSPORT_COMPLETE cfg d k dat p s t)"
proof -
  let ?a = "transport_arrival k dat p s t"
  have "on_result (step_ok cfg 0 (snd ?a)) (admit_on_arrival cfg d (fst ?a) (snd ?a) t)"
    by (rule admit_on_arrival_step_ok)
  then show ?thesis
    by (cases "admit_on_arrival cfg d (fst ?a) (snd ?a) t")
       (auto simp: ev_TRANSPORT_COMPLETE_def Let_def case_prod_beta step_ok_def)
qed

lemma SCHEDULE_PATIENT_ARRIVAL_step_ok: "step_ok cfg 0 s (ev_SCHEDULE_PATIENT_ARRIVAL cfg d s)"
  by (simp add: step_ok_def ev_SCHEDULE_PATIENT_ARRIVAL_def Let_def)

lemma units_ok_queue:
  "units_ok U \<Longrightarrow> units_ok (U(nm := fst (add_patient_to_queue (U nm) p t)))"
  by (simp add: units_ok_def add_patient_to_queue_def)

lemma PATIENT_ARRIVAL_step_ok: "step_ok cfg 0 s (ev_PATIENT_ARRIVAL cfg d s t)"
  by (simp add: step_ok_def ev_PATIENT_ARRIVAL_def Let_def case_prod_beta units_ok_queue)

lemma AI_STAFFING_ADJUSTMENT_step_ok: "step_ok cfg 0 s (ev_AI_STAFFING_ADJUSTMENT cfg s)"
  by (simp add: step_ok_def ev_AI_STAFFING_ADJUSTMENT_def)

lemma CDU_OCCUPANCY_METRIC_CHECK_step_ok:
  "step_ok cfg 0 s (ev_CDU_OCCUPANCY_METRIC_CHECK cfg s t)"
  by (simp add: step_ok_def ev_CDU_OCCUPANCY_METRIC_CHECK_def)

lemma INPATIENT_OCCUPANCY_METRIC_CHECK_step_ok:
  "step_ok cfg 0 s (ev_INPATIENT_OCCUPANCY_METRIC_CHECK cfg s t)"
  by (simp add: step_ok_def ev_INPATIENT_OCCUPANCY_METRIC_CHECK_def)

lemma PULLEY_UTILIZATION_METRIC_CHECK_step_ok:
  "step_ok cfg 0 s (ev_PULLEY_UTILIZATION_METRIC_CHECK cfg s t)"
  by (simp add: step_ok_def ev_PULLEY_UTILIZATION_METRIC_CHECK_def)

lemma ED_TRIAGE_COMPLETE_step_ok:
  "on_result (step_ok cfg 0 s) (ev_ED_TRIAGE_COMPLETE p s t)"
  by (simp add: step_ok_def pulley_viable_def ev_ED_TRIAGE_COMPLETE_def Let_def case_prod_beta split: option.splits list.splits)

lemma ASSIGN_ED_BED_step_ok:
  "on_result (step_ok cfg 0 s) (ev_ASSIGN_ED_BED cfg d p s t)"
  by (simp add: step_ok_def pulley_viable_def ev_ASSIGN_ED_BED_def Let_def case_prod_beta split: option.splits list.splits)

lemma ED_PHYSICIAN_RETRY_step_ok:
  "on_result (step_ok cfg 0 s) (ev_ED_PHYSICIAN_RETRY cfg d p s t)"
  by (simp add: step_ok_def pulley_viable_def ev_ED_PHYSICIAN_RETRY_def Let_def case_prod_beta split: option.splits list.splits)

lemma ED_PHYSICIAN_ASSESSMENT_COMPLETE_step_ok:
  "on_result (step_ok cfg 0 s) (ev_ED_PHYSICIAN_ASSESSMENT_COMPLETE cfg d p s t)"
  by (simp add: step_ok_def pulley_viable_def ev_ED_PHYSICIAN_ASSESSMENT_COMPLETE_def Let_def case_prod_beta split: option.splits list.splits)

lemma IMAGING_ORDERED_step_ok:
  "on_result (step_ok cfg 0 s) (ev_IMAGING_ORDERED p s t)"
  by (simp add: step_ok_def pulley_viable_def ev_IMAGING_ORDERED_def Let_def case_prod_beta split: option.splits list.splits)

lemma TRANSFER_TO_IMAGING_step_ok:
  "on_result (step_ok cfg 0 s) (ev_TRANSFER_TO_IMAGING cfg d p s t)"
  by (simp add: step_ok_def pulley_viable_def ev_TRANSFER_TO_IMAGING_def Let_def case_prod_beta split: option.splits list.splits)

lemma IMAGING_STARTED_step_ok:
  "on_result (step_ok cfg 0 s) (ev_IMAGING_STARTED cfg d p s t)"
  by (simp add: step_ok_def pulley_viable_def ev_IMAGING_STARTED_def Let_def case_prod_beta split: option.splits list.splits)

lemma IMAGING_COMPLETE_step_ok:
  "on_result (step_ok cfg 0 s) (ev_IMAGING_COMPLETE cfg d p s t)"
  by (simp add: step_ok_def pulley_viable_def ev_IMAGING_COMPLETE_def Let_def case_prod_beta split: option.splits list.splits)

lemma IMAGING_REPORT_RETRY_step_ok:
  "on_result (step_ok cfg 0 s) (ev_IMAGING_REPORT_RETRY cfg d p s t)"
  by (simp add: step_ok_def pulley_viable_def ev_IMAGING_REPORT_RETRY_def Let_def case_prod_beta split: option.splits list.splits)

lemma IMAGING_REPORT_COMPLETE_step_ok:
  "on_result (step_ok cfg 0 s) (ev_IMAGING_REPORT_COMPLETE p s t)"
  by (simp add: step_ok_def pulley_viable_def ev_IMAGING_REPORT_COMPLETE_def Let_def case_prod_beta split: option.splits list.splits)

lemma LAB_ORDERED_step_ok:
  "on_result (step_ok cfg 0 s) (ev_LAB_ORDERED p s t)"
  by (simp add: step_ok_def pulley_viable_def ev_LAB_ORDERED_def Let_def case_prod_beta split: option.splits list.splits)

lemma TRANSFER_TO_LAB_step_ok:
  "on_result (step_ok cfg 0 s) (ev_TRANSFER_TO_LAB cfg d p s t)"
  by (simp add: step_ok_def pulley_viable_def ev_TRANSFER_TO_LAB_def Let_def case_prod_beta split: option.splits list.splits)

lemma LAB_STARTED_step_ok:
  "on_result (step_ok cfg 0 s) (ev_LAB_STARTED cfg d p s t)"
  by (simp add: step_ok_def pulley_viable_def ev_LAB_STARTED_def Let_def case_prod_beta split: option.splits list.splits)

lemma LAB_COMPLETE_step_ok:
  "on_result (step_ok cfg 0 s) (ev_LAB_COMPLETE p s t)"
  by (simp add: step_ok_def pulley_viable_def ev_LAB_COMPLETE_def Let_def case_prod_beta split: option.splits list.splits)

lemma RE_EVALUATE_AFTER_DIAGNOSTICS_step_ok:
  "on_result (step_ok cfg 0 s) (ev_RE_EVALUATE_AFTER_DIAGNOSTICS cfg d p s t)"
  by (simp add: step_ok_def pulley_viable_def ev_RE_EVALUATE_AFTER_DIAGNOSTICS_def Let_def case_prod_beta split: option.splits list.splits)

lemma CDU_OBSERVATION_COMPLETE_step_ok:
  "on_result (step_ok cfg 0 s) (ev_CDU_OBSERVATION_COMPLETE d p s t)"
  by (simp add: step_ok_def pulley_viable_def ev_CDU_OBSERVATION_COMPLETE_def Let_def case_prod_beta split: option.splits list.splits)

lemma INPATIENT_PATIENT_CHECK_step_ok:
  "on_result (step_ok cfg 0 s) (ev_INPATIENT_PATIENT_CHECK cfg d p s t)"
  by (simp add: step_ok_def pulley_viable_def ev_INPATIENT_PATIENT_CHECK_def Let_def case_prod_beta split: option.splits list.splits)

lemma DISCHARGE_ORDERED_step_ok:
  "on_result (step_ok cfg 0 s) (ev_DISCHARGE_ORDERED cfg d p s t)"
  by (simp add: step_ok_def pulley_viable_def ev_DISCHARGE_ORDERED_def Let_def case_prod_beta split: option.splits list.splits)

lemma DISCHARGE_PROCESS_RETRY_step_ok:
  "on_result (step_ok cfg 0 s) (ev_DISCHARGE_PROCESS_RETRY cfg d p s t)"
  by (simp add: step_ok_def pulley_viable_def ev_DISCHARGE_PROCESS_RETRY_def Let_def case_prod_beta split: option.splits list.splits)

lemma DISCHARGE_PROCESS_COMPLETE_step_ok:
  "on_result (step_ok cfg 0 s) (ev_DISCHARGE_PROCESS_COMPLETE p s t)"
  by (simp add: step_ok_def pulley_viable_def ev_DISCHARGE_PROCESS_COMPLETE_def Let_def case_prod_beta split: option.splits list.splits)

subsection \<open>Invariants of the run\<close>

lemma patient_event_step_ok:
  "on_result (step_ok cfg (if k = PULLEY_TRANSPORT_COMPLETE then 1 else 0) s)
     (patient_event cfg d k dat p s t)"
  using TRANSPORT_COMPLETE_step_ok [of cfg PULLEY_TRANSPORT_COMPLETE s d dat p t]
        TRANSPORT_COMPLETE_step_ok [of cfg STAFF_TRANSPORT_COMPLETE s d dat p t]
  by (cases k)
     (simp_all add: patient_event_def ED_TRIAGE_COMPLETE_step_ok ASSIGN_ED_BED_step_ok
        ED_PHYSICIAN_RETRY_step_ok ED_PHYSICIAN_ASSESSMENT_COMPLETE_step_ok
        IMAGING_ORDERED_step_ok TRANSFER_TO_IMAGING_step_ok IMAGING_STARTED_step_ok
        IMAGING_COMPLETE_step_ok IMAGING_REPORT_RETRY_step_ok IMAGING_REPORT_COMPLETE_step_ok
        LAB_ORDERED_step_ok TRANSFER_TO_LAB_step_ok LAB_STARTED_step_ok LAB_COMPLETE_step_ok
        RE_EVALUATE_AFTER_DIAGNOSTICS_step_ok ADMIT_step_ok CDU_OBSERVATION_COMPLETE_step_ok
        INPATIENT_PATIENT_CHECK_step_ok DISCHARGE_ORDERED_step_ok
        DISCHARGE_PROCESS_RETRY_step_ok DISCHARGE_PROCESS_COMPLETE_step_ok)

lemma step_ok_sim_time [simp]: "step_ok cfg n (s\<lparr>sim_time := t\<rparr>) s' = step_ok cfg n s s'"
  by (simp add: step_ok_def)

lemma step_ok_store [simp]: "step_ok cfg n s (store s' k p) = step_ok cfg n s s'"
  by (simp add: step_ok_def)

lemma process_event_step_ok:
  assumes "process_event cfg d s t k patient_id dat = Inr s'"
  shows "step_ok cfg (if k = PULLEY_TRANSPORT_COMPLETE then 1 else 0) s s'"
proof -
  let ?s0 = "s\<lparr>sim_time := t\<rparr>"
  have pe: "on_result (step_ok cfg (if k = PULLEY_TRANSPORT_COMPLETE then 1 else 0) ?s0)
     (patient_event cfg d k dat p ?s0 t)" for p
    by (rule patient_event_step_ok)
  have np: "step_ok cfg 0 s s'"
    if "k = SCHEDULE_PATIENT_ARRIVAL \<or> k = PATIENT_ARRIVAL \<or> k = AI_STAFFING_ADJUSTMENT
        \<or> k = CDU_OCCUPANCY_METRIC_CHECK \<or> k = INPATIENT_OCCUPANCY_METRIC_CHECK
        \<or> k = PULLEY_UTILIZATION_METRIC_CHECK"
    using that assms
      SCHEDULE_PATIENT_ARRIVAL_step_ok [of cfg ?s0 d] PATIENT_ARRIVAL_step_ok [of cfg ?s0 d t]
      AI_STAFFING_ADJUSTMENT_step_ok [of cfg ?s0] CDU_OCCUPANCY_METRIC_CHECK_step_ok [of cfg ?s0 t]
      INPATIENT_OCCUPANCY_METRIC_CHECK_step_ok [of cfg ?s0 t]
      PULLEY_UTILIZATION_METRIC_CHECK_step_ok [of cfg ?s0 t]
    by (auto simp: process_event_def Let_def)
  have pat: "step_ok cfg (if k = PULLEY_TRANSPORT_COMPLETE then 1 else 0) s s'"
    if "\<not> (k = SCHEDULE_PATIENT_ARRIVAL \<or> k = PATIENT_ARRIVAL \<or> k = AI_STAFFING_ADJUSTMENT
        \<or> k = CDU_OCCUPANCY_METRIC_CHECK \<or> k = INPATIENT_OCCUPANCY_METRIC_CHECK
        \<or> k = PULLEY_UTILIZATION_METRIC_CHECK)"
  proof -
    from that have "process_event cfg d s t k patient_id dat =
             (case (case patient_id of None \<Rightarrow> None
                            | Some i \<Rightarrow> map_option (Pair i) (patients ?s0 i)) of
                None \<Rightarrow>
                  if k = CDU_OBSERVATION_COMPLETE \<or> k = INPATIENT_PATIENT_CHECK
                  then Inr ?s0 else Inl AttributeError
              | Some (i, p) \<Rightarrow>
                  (case patient_event cfg d k dat p ?s0 t of
                     Inl e \<Rightarrow> Inl e
                   | Inr (p1, s1) \<Rightarrow> Inr (store s1 i p1)))"
      by (cases k; hypsubst) (simp_all add: process_event_def Let_def)
    with assms have r: "(case (case patient_id of None \<Rightarrow> None
                            | Some i \<Rightarrow> map_option (Pair i) (patients ?s0 i)) of
                None \<Rightarrow>
                  if k = CDU_OBSERVATION_COMPLETE \<or> k = INPATIENT_PATIENT_CHECK
                  then Inr ?s0 else Inl AttributeError
              | Some (i, p) \<Rightarrow>
                  (case patient_event cfg d k dat p ?s0 t of
                     Inl e \<Rightarrow> Inl e
                   | Inr (p1, s1) \<Rightarrow> Inr (store s1 i p1))) = Inr s'"
      by simp
    show ?thesis
    proof (cases "case patient_id of None \<Rightarrow> None
                            | Some i \<Rightarrow> map_option (Pair i) (patients ?s0 i)")
      case None
      with r have "s' = ?s0" and "k \<noteq> PULLEY_TRANSPORT_COMPLETE" by (auto split: if_splits)
      then show ?thesis by (simp add: step_ok_def)
    next
      case (Some ip)
      obtain i p where ip: "ip = (i, p)" by (cases ip) auto
      from r Some ip obtain p1 s1 where e: "patient_event cfg d k dat p ?s0 t = Inr (p1, s1)"
        and s': "s' = store s1 i p1"
        by (auto split: sum.splits)
      from pe [of p] e have "step_ok cfg (if k = PULLEY_TRANSPORT_COMPLETE then 1 else 0) ?s0 s1"
        by simp
      then show ?thesis by (simp add: s')
    qed
  qed
  show ?thesis
  proof (cases "k = SCHEDULE_PATIENT_ARRIVAL \<or> k = PATIENT_ARRIVAL \<or> k = AI_STAFFING_ADJUSTMENT
        \<or> k = CDU_OCCUPANCY_METRIC_CHECK \<or> k = INPATIENT_OCCUPANCY_METRIC_CHECK
        \<or> k = PULLEY_UTILIZATION_METRIC_CHECK")
    case True
    from np [OF True] True show ?thesis by auto
  next
    case False
    then show ?thesis by (rule pat)
  qed
qed

lemma pulley_arrivals_remove1:
  "m \<in> set q \<Longrightarrow> pulley_arrivals_pending (remove1 m q)
     = pulley_arrivals_pending q - (if fst (snd m) = PULLEY_TRANSPORT_COMPLETE then 1 else 0)"
  by (induction q) (auto simp: pulley_arrivals_pending_def)

lemma pulley_arrivals_nonneg: "0 \<le> pulley_arrivals_pending q"
  by (simp add: pulley_arrivals_pending_def)

lemma loop_body_cases:
  assumes "loop_body cfg d s = Inr s'"
  obtains (dropped) t k i dat where "(t, k, i, dat) \<in> set (event_queue s)"
      "s' = s\<lparr>event_queue := remove1 (t, k, i, dat) (event_queue s)\<rparr>"
  | (processed) t k i dat where "(t, k, i, dat) \<in> set (event_queue s)"
      "process_event cfg d (s\<lparr>event_queue := remove1 (t, k, i, dat) (event_queue s), sim_time := t\<rparr>)
         t k i dat = Inr s'"
proof -
  from assms obtain t k i dat rest where
    pop: "heappop (event_queue s) = Some ((t, k, i, dat), rest)"
    by (auto simp: loop_body_def split: option.splits)
  from heappop_least(1,2) [OF pop]
  have m: "(t, k, i, dat) \<in> set (event_queue s)"
    and r: "rest = remove1 (t, k, i, dat) (event_queue s)" by simp_all
  show thesis
  proof (cases "t > total_sim_minutes s")
    case True
    with assms pop r have "s' = s\<lparr>event_queue := remove1 (t, k, i, dat) (event_queue s)\<rparr>"
      by (simp add: loop_body_def)
    with m show ?thesis by (rule dropped)
  next
    case False
    with assms pop r have "process_event cfg d
        (s\<lparr>event_queue := remove1 (t, k, i, dat) (event_queue s), sim_time := t\<rparr>) t k i dat = Inr s'"
      by (simp add: loop_body_def)
    with m show ?thesis by (rule processed)
  qed
qed

lemma loop_body_capacity:
  assumes "loop_body cfg d s = Inr s'" and "within_capacity s"
  shows "within_capacity s'"
  using assms(1)
proof (cases rule: loop_body_cases)
  case (dropped t k i dat)
  with assms(2) show ?thesis by (simp add: within_capacity_def)
next
  case (processed t k i dat)
  from process_event_step_ok [OF processed(2)] assms(2) show ?thesis
    by (simp add: step_ok_def within_capacity_units)
qed

lemma loop_body_pulley:
  assumes "loop_body cfg d s = Inr s'" and "pulley_within_capacity cfg s"
  shows "pulley_within_capacity cfg s'"
  using assms(1)
proof (cases rule: loop_body_cases)
  case (dropped t k i dat)
  with assms(2) pulley_arrivals_remove1 [OF dropped(1)] show ?thesis
    by (auto simp: pulley_within_capacity_def split: if_splits)
next
  case (processed t k i dat)
  from process_event_step_ok [OF processed(2)] assms(2)
    pulley_arrivals_remove1 [OF processed(1)] pulley_arrivals_nonneg [of "event_queue s'"]
  show ?thesis
    by (auto simp: step_ok_def pulley_within_capacity_def split: if_splits)
qed

lemma run_loop_induct:
  assumes "run_loop cfg ds s = Inr s'" and "P s"
    and "\<And>d s s'. loop_body cfg d s = Inr s' \<Longrightarrow> P s \<Longrightarrow> P s'"
  shows "P s'"
  using assms(1,2)
proof (induction ds arbitrary: s)
  case Nil
  then show ?case by simp
next
  case (Cons d ds)
  show ?case
  proof (cases "event_queue s \<noteq> [] \<and> sim_time s < total_sim_minutes s")
    case True
    with Cons.prems(1) obtain s1 where b: "loop_body cfg d s = Inr s1"
      and r: "run_loop cfg ds s1 = Inr s'"
      by (auto split: sum.splits)
    from assms(3) [OF b Cons.prems(2)] have "P s1" .
    with r show ?thesis by (rule Cons.IH)
  next
    case False
    with Cons.prems show ?thesis by auto
  qed
qed

subsection \<open>The initial state\<close>

lemma same_beds_refl [simp]: "same_beds s s"
  by (simp add: same_beds_def)

lemma same_beds_trans: "same_beds s s1 \<Longrightarrow> same_beds s1 s2 \<Longrightarrow> same_beds s s2"
  by (simp add: same_beds_def)

lemma new_staff_same_beds: "same_beds s (new_staff ty r s)"
  by (simp add: same_beds_def new_staff_def Let_def set_unit_def split: option.splits)

lemma new_staff_n_same_beds: "same_beds s (new_staff_n n ty r s)"
proof (induction n arbitrary: s)
  case 0
  show ?case by simp
next
  case (Suc n)
  from new_staff_same_beds [of s ty r] Suc [of "new_staff ty r s"] show ?case
    by (simp add: same_beds_trans)
qed

lemma staff_for_unit_same_beds: "same_beds s (staff_for_unit u c s)"
proof (induction c arbitrary: s)
  case Nil
  show ?case by simp
next
  case (Cons a c)
  obtain ty n where a: "a = (ty, n)" by (cases a) auto
  from new_staff_n_same_beds [of s n ty "Some u"] Cons [of "new_staff_n n ty (Some u) s"]
  show ?case by (simp add: a same_beds_trans)
qed

lemma staff_for_units_same_beds: "same_beds s (staff_for_units cs s)"
proof (induction cs arbitrary: s)
  case Nil
  show ?case by simp
next
  case (Cons a cs)
  obtain u c where a: "a = (u, c)" by (cases a) auto
  from staff_for_unit_same_beds [of s u c] Cons [of "staff_for_unit u c s"]
  show ?case by (simp add: a same_beds_trans)
qed

lemma initialize_staff_same_beds: "same_beds s (initialize_staff cfg s)"
  unfolding initialize_staff_def
  by (blast intro: same_beds_trans staff_for_units_same_beds new_staff_n_same_beds)

lemma initial_capacity:
  assumes "\<forall>u. 0 \<le> UNIT_CAPACITY cfg u" and "0 \<le> CDU_BEDS cfg"
  shows "within_capacity (run_seed cfg (HospitalSimulator cfg cdu a b c e))"
  using assms initialize_staff_same_beds [of _ cfg]
  by (auto simp: within_capacity_def run_seed_def Let_def HospitalSimulator_def same_beds_def
      initialize_units_def Unit_def)

lemma initial_pulley:
  assumes "0 \<le> PULLEY_SYSTEM_CAPACITY cfg"
  shows "pulley_within_capacity cfg (run_seed cfg (HospitalSimulator cfg cdu a b c e))"
  using assms initialize_staff_same_beds [of _ cfg]
  by (auto simp: pulley_within_capacity_def run_seed_def Let_def HospitalSimulator_def
      same_beds_def pulley_arrivals_pending_def heappush_def)

lemma admit_patient_iff:
  "fst (admit_patient un p t) \<longleftrightarrow> int (length (patients_in_unit un)) < capacity un"
  "fst (admit_patient un p t) \<Longrightarrow> pid p \<in> set (patients_in_unit (fst (snd (admit_patient un p t))))"
  "\<not> fst (admit_patient un p t) \<Longrightarrow> fst (snd (admit_patient un p t)) = un"
  by (auto simp: admit_patient_def dict_set_def split: if_splits)

text \<open>
  Claim C5. For a configuration without negative capacities, at every event boundary
  of every run no unit holds more patients than its capacity; and \<^verbatim>\<open>admit_patient\<close> on a
  unit returns true exactly when the unit holds fewer patients than its capacity, in
  which case the patient is among the unit's patients afterwards, and otherwise leaves
  the unit as it was.
\<close>

theorem C5_units_within_capacity:
  assumes "\<forall>u. 0 \<le> UNIT_CAPACITY cfg u" and "0 \<le> CDU_BEDS cfg"
    and "run_loop cfg ds (run_seed cfg (HospitalSimulator cfg cdu a b c e)) = Inr s"
  shows "(\<forall>u. int (length (patients_in_unit (units s u))) \<le> capacity (units s u))
       \<and> (\<forall>p t. (fst (admit_patient (units s u) p t)
                  \<longleftrightarrow> int (length (patients_in_unit (units s u))) < capacity (units s u))
              \<and> (fst (admit_patient (units s u) p t) \<longrightarrow>
                   pid p \<in> set (patients_in_unit (fst (snd (admit_patient (units s u) p t)))))
              \<and> (\<not> fst (admit_patient (units s u) p t) \<longrightarrow>
                   fst (snd (admit_patient (units s u) p t)) = units s u))"
proof -
  have "within_capacity s"
    using assms(3) initial_capacity [OF assms(1,2)] loop_body_capacity
    by (rule run_loop_induct)
  then show ?thesis
    using admit_patient_iff by (auto simp: within_capacity_def)
qed

lemmas run_defs =
  run_seed_def HospitalSimulator_def initialize_staff_def initialize_units_def
  new_staff_def staff_config_of_def Unit_def Staff_def MetricsTracker_def Patient_def
  loop_body_def heappop_def process_event_def patient_event_def
  ev_SCHEDULE_PATIENT_ARRIVAL_def ev_PATIENT_ARRIVAL_def ev_ED_TRIAGE_COMPLETE_def
  ev_ASSIGN_ED_BED_def ev_ED_PHYSICIAN_ASSESSMENT_COMPLETE_def ev_IMAGING_ORDERED_def
  ev_TRANSFER_TO_IMAGING_def ev_TRANSPORT_COMPLETE_def transport_arrival_def
  ev_AI_STAFFING_ADJUSTMENT_def ev_CDU_OCCUPANCY_METRIC_CHECK_def
  ev_INPATIENT_OCCUPANCY_METRIC_CHECK_def ev_PULLEY_UTILIZATION_METRIC_CHECK_def
  find_and_assign_staff_def staff_pool_def request_transport_resource_def
  leave_current_unit_def record_boarding_def
  admit_patient_def add_patient_to_queue_def discharge_patient_def get_free_bed_def
  push_def store_def set_unit_def set_staff_def heappush_def
  add_event_def assign_def accrue_cost_for_completed_task_def add_cost_def
  min_by_busy_until_def is_free_def py_mod_def dict_set_def
  add_cdu_occupancy_def add_inpatient_occupancy_def add_pulley_utilization_def add_occupancy_def
  add_transfer_time_to_admit_def add_ed_wait_time_for_transport_def add_ed_boarding_time_def

lemmas one_bed_defs =
  admission_draws_def pulley_draws_def base_draws_def one_bed_seed_def one_bed_config_def
  BellevueEnhancedConfig_def BellevueBaselineConfig_def Config_def

lemma admission_run:
  "\<exists>s. run_loop one_bed_config admission_draws one_bed_seed = Inr s
       \<and> sim_time s = 16
       \<and> patients_in_unit (units s ED) = [''p1''] \<and> capacity (units s ED) = 1
       \<and> patients_in_unit (units s LAB) = [] \<and> capacity (units s LAB) = 5
       \<and> map_option status (patients s ''p1'') = Some PHYSICIAN_ASSESSMENT
       \<and> map_option status (patients s ''p2'') = Some ED_WAIT_FOR_BED"
  by (simp add: run_defs one_bed_defs Let_def eval_nat_numeral)

text \<open>
  The theorem at the event boundary after fifteen iterations of the one-bed run: p1
  was admitted to the ED, which is full with it; p2, triaged at minute 16, was refused
  the bed and waits; a further \<^verbatim>\<open>admit_patient\<close> on the ED fails and one on the empty
  LAB succeeds.
\<close>

theorem C5_units_within_capacity_witness:
  "\<exists>s. run_loop one_bed_config admission_draws one_bed_seed = Inr s
       \<and> patients_in_unit (units s ED) = [''p1''] \<and> capacity (units s ED) = 1
       \<and> map_option status (patients s ''p2'') = Some ED_WAIT_FOR_BED
       \<and> (\<forall>u. int (length (patients_in_unit (units s u))) \<le> capacity (units s u))
       \<and> \<not> fst (admit_patient (units s ED) (Patient ''p2'' NON_URGENT 6) 21)
       \<and> fst (admit_patient (units s LAB) (Patient ''p2'' NON_URGENT 6) 21)"
proof -
  from admission_run obtain s where
    r: "run_loop one_bed_config admission_draws
          (run_seed one_bed_config (HospitalSimulator one_bed_config True True True True True))
        = Inr s"
    and f: "patients_in_unit (units s ED) = [''p1'']" "capacity (units s ED) = 1"
      "patients_in_unit (units s LAB) = []" "capacity (units s LAB) = 5"
      "map_option status (patients s ''p2'') = Some ED_WAIT_FOR_BED"
    unfolding one_bed_seed_def by blast
  have c: "\<forall>u. 0 \<le> UNIT_CAPACITY one_bed_config u" "0 \<le> CDU_BEDS one_bed_config"
    by (simp_all add: one_bed_defs split: unit_name.splits)
  from C5_units_within_capacity [OF c r, where u = ED]
    C5_units_within_capacity [OF c r, where u = LAB] r f
  show ?thesis
    unfolding one_bed_seed_def by auto
qed

text \<open>
  Claim C6. For a configuration whose pulley capacity is not negative, at every event
  boundary of every run \<open>0 \<le> pulley_in_use \<le> PULLEY_SYSTEM_CAPACITY\<close>, and the counter
  is at least the number of \<^verbatim>\<open>PULLEY_TRANSPORT_COMPLETE\<close> events still in the queue: every
  decrement to come is matched by an increment made before. A transport request raises
  the counter, by one, exactly when the pulley is viable, which needs the counter
  strictly below the capacity.
\<close>

theorem C6_pulley_within_capacity:
  assumes "0 \<le> PULLEY_SYSTEM_CAPACITY cfg"
    and "run_loop cfg ds (run_seed cfg (HospitalSimulator cfg cdu a b c e)) = Inr s"
  shows "0 \<le> pulley_in_use s \<and> pulley_in_use s \<le> PULLEY_SYSTEM_CAPACITY cfg
       \<and> pulley_arrivals_pending (event_queue s) \<le> pulley_in_use s
       \<and> (\<forall>d p t destination.
            pulley_in_use (snd (snd (request_transport_resource cfg d p s t destination)))
              = (if pulley_viable cfg p s destination then pulley_in_use s + 1
                 else pulley_in_use s))
       \<and> (\<forall>p destination. pulley_viable cfg p s destination \<longrightarrow>
            pulley_in_use s < PULLEY_SYSTEM_CAPACITY cfg)"
proof -
  have "pulley_within_capacity cfg s"
    using assms(2) initial_pulley [OF assms(1)] loop_body_pulley
    by (rule run_loop_induct)
  then show ?thesis
    by (simp add: pulley_within_capacity_def pulley_viable_def)
qed

lemma pulley_run:
  "\<exists>s. run_loop one_bed_config pulley_draws one_bed_seed = Inr s
       \<and> sim_time s = 26
       \<and> map_option status (patients s ''p1'') = Some IN_TRANSIT_TO_IMAGING
       \<and> filter (\<lambda>e. fst (snd e) = PULLEY_TRANSPORT_COMPLETE) (event_queue s)
           = [(33, PULLEY_TRANSPORT_COMPLETE, Some ''p1'', Some 7)]"
  by (simp add: run_defs one_bed_defs Let_def eval_nat_numeral)

lemma pulley_run_on:
  "\<exists>s. run_loop one_bed_config (pulley_draws @ replicate 3 base_draws) one_bed_seed = Inr s
       \<and> sim_time s = 33
       \<and> map_option status (patients s ''p1'') = Some IN_TRANSIT_TO_IMAGING
       \<and> filter (\<lambda>e. fst (snd e) = IMAGING_STARTED) (event_queue s)
           = [(33, IMAGING_STARTED, Some ''p1'', None)]"
  by (simp add: run_defs one_bed_defs Let_def eval_nat_numeral)

text \<open>
  The theorem at two event boundaries of the one-bed run, whose pulley has capacity 2:
  after nineteen iterations, when the pulley has just been dispatched with p1 (the
  counter is 1, one arrival is pending), and three iterations later, when p1 has
  arrived at minute 33 (the counter is back to 0, no arrival is pending).
\<close>

theorem C6_pulley_within_capacity_witness:
  "\<exists>s s'. run_loop one_bed_config pulley_draws one_bed_seed = Inr s
       \<and> map_option status (patients s ''p1'') = Some IN_TRANSIT_TO_IMAGING
       \<and> pulley_arrivals_pending (event_queue s) = 1
       \<and> 1 \<le> pulley_in_use s \<and> pulley_in_use s \<le> 2
       \<and> run_loop one_bed_config (pulley_draws @ replicate 3 base_draws) one_bed_seed = Inr s'
       \<and> filter (\<lambda>e. fst (snd e) = IMAGING_STARTED) (event_queue s')
           = [(33, IMAGING_STARTED, Some ''p1'', None)]
       \<and> 0 \<le> pulley_in_use s' \<and> pulley_in_use s' \<le> 2"
proof -
  from pulley_run obtain s where
    r: "run_loop one_bed_config pulley_draws
          (run_seed one_bed_config (HospitalSimulator one_bed_config True True True True True))
        = Inr s"
    and f: "map_option status (patients s ''p1'') = Some IN_TRANSIT_TO_IMAGING"
      "filter (\<lambda>e. fst (snd e) = PULLEY_TRANSPORT_COMPLETE) (event_queue s)
         = [(33, PULLEY_TRANSPORT_COMPLETE, Some ''p1'', Some 7)]"
    unfolding one_bed_seed_def by blast
  from pulley_run_on obtain s' where
    r': "run_loop one_bed_config (pulley_draws @ replicate 3 base_draws)
          (run_seed one_bed_config (HospitalSimulator one_bed_config True True True True True))
        = Inr s'"
    and f': "filter (\<lambda>e. fst (snd e) = IMAGING_STARTED) (event_queue s')
           = [(33, IMAGING_STARTED, Some ''p1'', None)]"
    unfolding one_bed_seed_def by blast
  have c: "0 \<le> PULLEY_SYSTEM_CAPACITY one_bed_config"
    and c2: "PULLEY_SYSTEM_CAPACITY one_bed_config = 2"
    by (simp_all add: one_bed_defs)
  from f(2) have p: "pulley_arrivals_pending (event_queue s) = 1"
    by (simp add: pulley_arrivals_pending_def)
  from C6_pulley_within_capacity [OF c r] C6_pulley_within_capacity [OF c r'] r r' f f' p c2
  show ?thesis
    unfolding one_bed_seed_def by auto
qed

subsection \<open>Admission at the end of a transport\<close>

lemmas handler_defs =
  process_event_def patient_event_def ev_ADMIT_def ev_TRANSPORT_COMPLETE_def
  transport_arrival_def admit_on_arrival_def
  request_transport_resource_def leave_current_unit_def record_boarding_def
  admit_patient_def discharge_patient_def get_free_bed_def
  push_def store_def set_unit_def set_staff_def heappush_def
  add_event_def assign_def accrue_cost_for_completed_task_def add_cost_def
  min_by_busy_until_def is_free_def py_mod_def dict_set_def
  add_transfer_time_to_admit_def add_ed_wait_time_for_transport_def add_ed_boarding_time_def

lemmas example_defs =
  boarded_sim_def example_sim_def example_patient_def example_draws_def Patient_def Staff_def
  MetricsTracker_def initialize_units_def Unit_def Config_def staff_config_of_def

text \<open>
  Claim C1 fails on the code. The patient p1 boards in the ED since minute 510. At
  minute 540 \<^verbatim>\<open>ADMIT_TO_INPATIENT\<close> finds a bed and a volunteer, and at minute 560
  \<^verbatim>\<open>STAFF_TRANSPORT_COMPLETE\<close> admits the patient to INPATIENT; but no boarding time is
  recorded and \<^verbatim>\<open>boarding_start_time\<close> is still 510, because the guard \<^verbatim>\<open>patient.current_unit
  == 'ED'\<close> of the recording is read after \<^verbatim>\<open>current_unit\<close> was set to the target unit.
\<close>

theorem C1_boarding_not_recorded:
  "(case process_event Config example_draws boarded_sim 540 ADMIT_TO_INPATIENT (Some ''p1'') None of
      Inl e \<Rightarrow> False
    | Inr s1 \<Rightarrow>
        map_option status (patients s1 ''p1'') = Some IN_TRANSIT_TO_INPATIENT
        \<and> map_option boarding_start_time (patients s1 ''p1'') = Some (Some 510)
        \<and> event_queue s1 = [(560, STAFF_TRANSPORT_COMPLETE, Some ''p1'', Some 20)]
        \<and> (case process_event Config example_draws (s1\<lparr>event_queue := []\<rparr>) 560
                   STAFF_TRANSPORT_COMPLETE (Some ''p1'') (Some 20) of
              Inl e \<Rightarrow> False
            | Inr s2 \<Rightarrow>
                map_option status (patients s2 ''p1'') = Some INPATIENT_STAY
                \<and> patients_in_unit (units s2 INPATIENT) = [''p1'']
                \<and> map_option boarding_start_time (patients s2 ''p1'') = Some (Some 510)
                \<and> ed_boarding_times (metrics s2) = []))"
  by (simp add: handler_defs example_defs Let_def)

end
